theory Spec2Isabelle
  imports Main "HOL-Library.Word" "HOL-Library.Multiset" "HOL-Library.Char_ord"
    "HOL-Library.List_Lexorder"
begin

section \<open>The shared data model (package models, package diff)\<close>

text \<open>
  The three provider adapters under \<^verbatim>\<open>src/\<close> (hosting.de, Cloudflare, Exoscale) are
  Go code over the types of package \<^verbatim>\<open>models\<close>. A Go \<^verbatim>\<open>error\<close> is a value of
  the datatype \<open>error\<close>; a function that returns \<^verbatim>\<open>(T, error)\<close> returns
  \<open>error + T\<close> (\<open>Inl\<close> the error). A run-time panic (nil dereference, failed type
  assertion) and \<^verbatim>\<open>log.Fatalf\<close> are errors of their own, so that no path of the
  source is lost. Go strings are byte strings: \<open>string\<close>.
\<close>

type_synonym u32 = "32 word"
type_synonym u16 = "16 word"

datatype error =
    Err string "string list"   \<comment> \<open>\<^verbatim>\<open>fmt.Errorf\<close> with this format (its single quotes left out) and these arguments, or an API error\<close>
  | Errorf string error        \<comment> \<open>\<^verbatim>\<open>fmt.Errorf("...: %w", err)\<close>\<close>
  | errZoneNotFound            \<comment> \<open>hosting.de's sentinel\<close>
  | ErrDomainNotFound          \<comment> \<open>Exoscale's sentinel\<close>
  | Panic string               \<comment> \<open>run-time panic\<close>
  | Fatal string "string list" \<comment> \<open>\<^verbatim>\<open>log.Fatalf\<close> with this format and these arguments: the process exits\<close>

text \<open>
  \<^verbatim>\<open>models.RecordConfig\<close>, with the fields the adapters read or write. \<open>Label\<close> is
  \<^verbatim>\<open>GetLabel()\<close>, \<open>LabelFQDN\<close> is \<^verbatim>\<open>GetLabelFQDN()\<close>, \<open>TargetField\<close> is
  \<^verbatim>\<open>GetTargetField()\<close> (written by \<^verbatim>\<open>SetTarget\<close>). \<open>Metadata\<close> is a Go
  \<^verbatim>\<open>map[string]string\<close>, kept as an association list; \<open>None\<close> is the nil map.
  \<open>Original\<close> is the provider-native record (\<^verbatim>\<open>interface{}\<close>), \<open>None\<close> when nil.
\<close>

record 'o RecordConfig =
  Type :: string
  Label :: string
  LabelFQDN :: string
  TargetField :: string
  TTL :: u32
  MxPreference :: u16
  TxtStrings :: "string list"
  Metadata :: "(string \<times> string) list option"
  Original :: "'o option"

datatype Nameserver = Nameserver (NsName: string)

record 'o DomainConfig =
  Name :: string
  Records :: "'o RecordConfig list"
  KeepUnknown :: bool
  Nameservers :: "Nameserver list"
  DomainMetadata :: "(string \<times> string) list option"

text \<open>\<^verbatim>\<open>diff.Correlation\<close>: the pointers \<^verbatim>\<open>Existing\<close> and \<^verbatim>\<open>Desired\<close> may be nil.\<close>

record 'o Correlation =
  Existing :: "'o RecordConfig option"
  Desired :: "'o RecordConfig option"

type_synonym 'o Changeset = "'o Correlation list"

text \<open>
  \<^verbatim>\<open>models.Correction\<close>: a message and a closure. The closure is kept as data: the
  call it makes when applied, with the values it captured (\<open>'act\<close>).
\<close>

record 'act Correction =
  Msg :: string
  F :: 'act

text \<open>
  Code of packages \<^verbatim>\<open>models\<close> and \<^verbatim>\<open>diff\<close> that the adapters call and that is
  not under \<^verbatim>\<open>src/\<close>; each is a parameter of the model.
  \<^item> \<open>Punycode\<close>: \<^verbatim>\<open>dc.Punycode()\<close> rewrites the domain in place and may fail;
  \<^item> \<open>PostProcessRecords\<close>: \<^verbatim>\<open>models.PostProcessRecords\<close>;
  \<^item> \<open>EnableDiff2\<close>: the flag \<^verbatim>\<open>diff2.EnableDiff2\<close>;
  \<^item> \<open>IncrementalDiff\<close>: \<^verbatim>\<open>diff.New(dc, extra...).IncrementalDiff(existing)\<close>, which
    returns the changesets unchanged, create, delete and modify;
  \<^item> \<open>IncrementalDiffCompat\<close>: the same through \<^verbatim>\<open>diff.NewCompat(dc)\<close>;
  \<^item> \<open>CorrelationString\<close>: \<^verbatim>\<open>Correlation.String()\<close>, the rendered description.
\<close>

type_synonym 'o extraValues = "'o RecordConfig \<Rightarrow> error + (string \<times> string) list option"

type_synonym 'o diffResult =
  "error + ('o Changeset \<times> 'o Changeset \<times> 'o Changeset \<times> 'o Changeset)"

record 'o models =
  Punycode :: "'o DomainConfig \<Rightarrow> 'o DomainConfig \<times> error option"
  PostProcessRecords :: "'o RecordConfig list \<Rightarrow> 'o RecordConfig list"
  EnableDiff2 :: bool
  IncrementalDiff :: "'o extraValues list \<Rightarrow> 'o DomainConfig \<Rightarrow> 'o RecordConfig list \<Rightarrow> 'o diffResult"
  IncrementalDiffCompat :: "'o DomainConfig \<Rightarrow> 'o RecordConfig list \<Rightarrow> 'o diffResult"
  CorrelationString :: "'o Correlation \<Rightarrow> string"

subsection \<open>Strings\<close>

text \<open>\<^verbatim>\<open>strings.Join(elems, sep)\<close>.\<close>

fun Join :: "string list \<Rightarrow> string \<Rightarrow> string" where
  "Join [] sep = []"
| "Join [x] sep = x"
| "Join (x # y # ys) sep = x @ sep @ Join (y # ys) sep"

text \<open>\<^verbatim>\<open>strings.HasSuffix(s, suffix)\<close> and \<^verbatim>\<open>strings.HasPrefix(s, prefix)\<close>.\<close>

definition HasSuffix :: "string \<Rightarrow> string \<Rightarrow> bool" where
  "HasSuffix s suffix = (length suffix \<le> length s \<and> drop (length s - length suffix) s = suffix)"

definition HasPrefix :: "string \<Rightarrow> string \<Rightarrow> bool" where
  "HasPrefix s pre = (take (length pre) s = pre)"

text \<open>
  A metadata lookup \<^verbatim>\<open>m[key]\<close>: the empty string when the key is missing or the map
  is nil. A store \<^verbatim>\<open>m[key] = v\<close> (the adapters only store into a non-nil map).
\<close>

definition meta_get :: "(string \<times> string) list option \<Rightarrow> string \<Rightarrow> string" where
  "meta_get m k = (case m of None \<Rightarrow> [] | Some kvs \<Rightarrow> (case map_of kvs k of None \<Rightarrow> [] | Some v \<Rightarrow> v))"

fun alist_put :: "string \<Rightarrow> string \<Rightarrow> (string \<times> string) list \<Rightarrow> (string \<times> string) list" where
  "alist_put k v [] = [(k, v)]"
| "alist_put k v ((k', v') # kvs) = (if k' = k then (k, v) # kvs else (k', v') # alist_put k v kvs)"

definition meta_set :: "(string \<times> string) list option \<Rightarrow> string \<Rightarrow> string \<Rightarrow> (string \<times> string) list option" where
  "meta_set m k v = (case m of None \<Rightarrow> Some [(k, v)] | Some kvs \<Rightarrow> Some (alist_put k v kvs))"

section \<open>hosting.de\<close>

text \<open>
  The methods of \<^verbatim>\<open>hostingdeProvider\<close> that talk to the API are not under
  \<^verbatim>\<open>src/\<close>; they are parameters. \<open>'n\<close> is the provider's native record, of which
  \<^verbatim>\<open>GetZoneRecords\<close> reads the field \<^verbatim>\<open>Type\<close> (\<open>nativeType\<close>). \<open>getZoneConfig\<close>
  keeps only the error of the call, the one part of its result the source uses.
\<close>

record ('o, 'n) hostingdeProvider =
  hd_models :: "'o models"
  getRecords :: "string \<Rightarrow> error + 'n list"
  nativeType :: "'n \<Rightarrow> string"
  nativeToRecord :: "'n \<Rightarrow> string \<Rightarrow> 'o RecordConfig"
  getNameservers :: "string \<Rightarrow> error + string list"
  getZoneConfig :: "string \<Rightarrow> error option"
  createZone :: "string \<Rightarrow> error option"

text \<open>
  The closures hosting.de puts into a Correction: the retry loop around
  \<^verbatim>\<open>hp.updateRecords(dc.Name, create, del, mod)\<close>, and
  \<^verbatim>\<open>hp.updateNameservers(expected, dc.Name)\<close>.
\<close>

datatype 'o hd_action =
    UpdateRecords string "'o Changeset" "'o Changeset" "'o Changeset"
  | UpdateNameservers "string list" string

text \<open>\<^verbatim>\<open>GetZoneRecords\<close>: the native records but SOA, converted.\<close>

definition hd_GetZoneRecords :: "('o, 'n) hostingdeProvider \<Rightarrow> string \<Rightarrow> error + 'o RecordConfig list" where
  "hd_GetZoneRecords hp domain =
     (case getRecords hp domain of
        Inl err \<Rightarrow> Inl err
      | Inr src \<Rightarrow> Inr (map (\<lambda>r. nativeToRecord hp r domain) (filter (\<lambda>r. nativeType hp r \<noteq> ''SOA'') src)))"

text \<open>
  The TTL loop of \<^verbatim>\<open>GetDomainCorrections\<close> (lines 117 to 124): the body on one record,
  two unsigned 32-bit comparisons in the source's order, and the loop over \<^verbatim>\<open>dc.Records\<close>.
\<close>

definition clampTTL :: "'o RecordConfig \<Rightarrow> 'o RecordConfig" where
  "clampTTL r =
     (let r1 = (if TTL r < 60 then r\<lparr>TTL := 60\<rparr> else r)
      in if TTL r1 > 31556926 then r1\<lparr>TTL := 31556926\<rparr> else r1)"

definition clampTTLs :: "'o DomainConfig \<Rightarrow> 'o DomainConfig" where
  "clampTTLs dc = dc\<lparr>Records := map clampTTL (Records dc)\<rparr>"

definition newline :: string where
  "newline = [CHR 0x0A]"

text \<open>
  \<^verbatim>\<open>GetDomainCorrections\<close>. The guard \<^verbatim>\<open>!diff2.EnableDiff2 || true\<close> is always true.
  A nil slice of corrections is the empty list.
\<close>

definition hd_GetDomainCorrections ::
  "('o, 'n) hostingdeProvider \<Rightarrow> 'o DomainConfig \<Rightarrow> error + 'o hd_action Correction list" where
  "hd_GetDomainCorrections hp dc0 =
     (case Punycode (hd_models hp) dc0 of
        (_, Some err) \<Rightarrow> Inl err
      | (dc1, None) \<Rightarrow>
          let dc = clampTTLs dc1 in
          (case hd_GetZoneRecords hp (Name dc) of
             Inl err \<Rightarrow> Inl err
           | Inr records \<Rightarrow>
               (case IncrementalDiff (hd_models hp) [] dc records of
                  Inl err \<Rightarrow> Inl err
                | Inr (_, create, del0, modify) \<Rightarrow>
                    let del = (if KeepUnknown dc then [] else del0);
                        msg = map (CorrelationString (hd_models hp)) (del @ create @ modify)
                    in if create = [] \<and> del = [] \<and> modify = [] then Inr []
                       else Inr [\<lparr>Msg = newline @ Join msg newline,
                                  F = UpdateRecords (Name dc) create del modify\<rparr>])))"

text \<open>
  \<^verbatim>\<open>GetRegistrarCorrections\<close>. \<^verbatim>\<open>sort.Strings\<close> sorts byte strings
  lexicographically, which is the order of \<open>string\<close> here.
\<close>

definition GetRegistrarCorrections ::
  "('o, 'n) hostingdeProvider \<Rightarrow> 'o DomainConfig \<Rightarrow> error + 'o hd_action Correction list" where
  "GetRegistrarCorrections hp dc0 =
     (case Punycode (hd_models hp) dc0 of
        (_, Some err) \<Rightarrow> Inl err
      | (dc, None) \<Rightarrow>
          (case getNameservers hp (Name dc) of
             Inl err \<Rightarrow> Inl (Errorf ''error getting nameservers: '' err)
           | Inr found0 \<Rightarrow>
               let found = sort found0;
                   foundNameservers = Join found '','';
                   expected = sort (map NsName (Nameservers dc));
                   expectedNameservers = Join expected '',''
               in if foundNameservers \<noteq> expectedNameservers
                  then Inr [\<lparr>Msg = ''Update nameservers '' @ foundNameservers @ '' -> '' @ expectedNameservers,
                             F = UpdateNameservers expected (Name dc)\<rparr>]
                  else Inr []))"

text \<open>
  \<^verbatim>\<open>EnsureDomainExists\<close>, with the API calls it makes, in order, beside its result
  (\<open>None\<close> is the nil error).
\<close>

datatype api_call = Call_getZoneConfig string | Call_createZone string

definition hd_EnsureDomainExists :: "('o, 'n) hostingdeProvider \<Rightarrow> string \<Rightarrow> api_call list \<times> error option" where
  "hd_EnsureDomainExists hp domain =
     (let err = getZoneConfig hp domain in
      if err = Some errZoneNotFound
      then (case createZone hp domain of
              Some err' \<Rightarrow> ([Call_getZoneConfig domain, Call_createZone domain], Some err')
            | None \<Rightarrow> ([Call_getZoneConfig domain, Call_createZone domain], None))
      else ([Call_getZoneConfig domain], None))"

section \<open>Cloudflare\<close>

subsection \<open>Strings and numbers\<close>

text \<open>\<^verbatim>\<open>strings.Split(s, sep)\<close> for a one-byte separator: never empty.\<close>

fun Split :: "string \<Rightarrow> char \<Rightarrow> string list" where
  "Split [] sep = [[]]"
| "Split (x # xs) sep =
     (if x = sep then [] # Split xs sep
      else (case Split xs sep of [] \<Rightarrow> [[x]] | p # ps \<Rightarrow> (x # p) # ps))"

text \<open>The verb \<^verbatim>\<open>%d\<close> on a non-negative integer.\<close>

fun itoa :: "nat \<Rightarrow> string" where
  "itoa n = (if n < 10 then [char_of (48 + n)] else itoa (n div 10) @ [char_of (48 + n mod 10)])"

declare itoa.simps [simp del]

text \<open>\<^verbatim>\<open>fmt.Sprint\<close> of a bool.\<close>

definition Sprint_bool :: "bool \<Rightarrow> string" where
  "Sprint_bool b = (if b then ''true'' else ''false'')"

text \<open>The first error of a loop that returns on error, or every result.\<close>

fun mapE :: "('a \<Rightarrow> error + 'b) \<Rightarrow> 'a list \<Rightarrow> error + 'b list" where
  "mapE f [] = Inr []"
| "mapE f (x # xs) =
     (case f x of
        Inl err \<Rightarrow> Inl err
      | Inr y \<Rightarrow> (case mapE f xs of Inl err \<Rightarrow> Inl err | Inr ys \<Rightarrow> Inr (y # ys)))"

subsection \<open>Types\<close>

text \<open>
  \<^verbatim>\<open>cloudflare.DNSRecord\<close> with the fields \<^verbatim>\<open>GetDomainCorrections\<close> and
  \<^verbatim>\<open>getProxyMetadata\<close> read (\<open>DNSName\<close> is its \<^verbatim>\<open>Name\<close>; \<^verbatim>\<open>Proxied\<close> is a
  \<^verbatim>\<open>*bool\<close>). \<^verbatim>\<open>RecordConfig.Original\<close> holds a \<^verbatim>\<open>DNSRecord\<close>, a
  \<^verbatim>\<open>PageRule\<close> or a \<^verbatim>\<open>WorkerRoute\<close> (each with its \<^verbatim>\<open>ID\<close>).
\<close>

record cf_DNSRecord =
  ID :: string
  DNSName :: string
  Proxiable :: bool
  Proxied :: "bool option"

datatype cf_original = DNSRecord cf_DNSRecord | PageRule string | WorkerRoute string

type_synonym cf_record = "cf_original RecordConfig"

type_synonym IP = "nat list"

text \<open>
  The closures of Cloudflare's corrections, each with the variables it captured.
  \<open>DeleteDNSRecord\<close> and \<open>CreateDNSRecord\<close> stand for the closures that
  \<^verbatim>\<open>deleteRec\<close> and \<^verbatim>\<open>createRec\<close> build.
\<close>

datatype cf_action =
    deletePageRule cf_record string
  | deleteWorkerRoute cf_record string
  | createPageRule string cf_record
  | createWorkerRoute string cf_record
  | updatePageRule "cf_record option" string cf_record
  | updateWorkerRoute "cf_record option" string cf_record
  | modifyRecord string string bool cf_record
  | changeUniversalSSL string bool
  | DeleteDNSRecord string string
  | CreateDNSRecord string cf_record

text \<open>
  \<^verbatim>\<open>cloudflareProvider\<close>: \<open>domainIndex\<close> is \<open>None\<close> while the map is nil.
  \<open>'t\<close> is \<^verbatim>\<open>transform.IPConversion\<close>, which is not under \<^verbatim>\<open>src/\<close>.
\<close>

record 't cloudflareProvider =
  domainIndex :: "(string \<times> string) list option"
  ipConversions :: "'t list"
  ignoredLabels :: "string list"
  manageRedirects :: bool
  manageWorkers :: bool

text \<open>
  What Cloudflare's adapter calls and \<^verbatim>\<open>src/\<close> does not hold: the methods of the
  provider in its other files (\<open>fetchDomainList\<close> gives the index it stores in
  \<^verbatim>\<open>c.domainIndex\<close>), and the library functions \<^verbatim>\<open>dnsutil.TrimDomainName\<close>,
  \<^verbatim>\<open>strings.ToLower\<close>, \<^verbatim>\<open>net.ParseIP\<close>, \<^verbatim>\<open>transform.IP\<close> and \<^verbatim>\<open>IP.String\<close>.
\<close>

record 't cf_api =
  cf_models :: "cf_original models"
  fetchDomainList :: "error + (string \<times> string) list"
  getRecordsForDomain :: "string \<Rightarrow> string \<Rightarrow> error + cf_record list"
  getPageRules :: "string \<Rightarrow> string \<Rightarrow> error + cf_record list"
  getWorkerRoutes :: "string \<Rightarrow> string \<Rightarrow> error + cf_record list"
  getUniversalSSL :: "string \<Rightarrow> error + bool"
  deleteRec :: "cf_DNSRecord \<Rightarrow> string \<Rightarrow> cf_action Correction"
  createRec :: "cf_record \<Rightarrow> string \<Rightarrow> cf_action Correction list"
  TrimDomainName :: "string \<Rightarrow> string \<Rightarrow> string"
  ToLower :: "string \<Rightarrow> string"
  ParseIP :: "string \<Rightarrow> IP option"
  transform_IP :: "IP \<Rightarrow> 't list \<Rightarrow> error + IP"
  IP_String :: "IP \<Rightarrow> string"

definition metaProxy :: string where "metaProxy = ''cloudflare_proxy''"
definition metaProxyDefault :: string where "metaProxyDefault = metaProxy @ ''_default''"
definition metaOriginalIP :: string where "metaOriginalIP = ''original_ip''"
definition metaUniversalSSL :: string where "metaUniversalSSL = ''cloudflare_universalssl''"

subsection \<open>The functions\<close>

fun labelMatches :: "string \<Rightarrow> string list \<Rightarrow> bool" where
  "labelMatches label [] = False"
| "labelMatches label (tst # matches) = (if label = tst then True else labelMatches label matches)"

text \<open>
  \<^verbatim>\<open>getDomainID\<close>. A nil index is fetched first; the model does not keep the fetched
  index in the provider, which nothing else in \<^verbatim>\<open>GetDomainCorrections\<close> reads.
\<close>

definition getDomainID :: "'t cf_api \<Rightarrow> 't cloudflareProvider \<Rightarrow> string \<Rightarrow> error + string" where
  "getDomainID api c name =
     (case (case domainIndex c of None \<Rightarrow> fetchDomainList api | Some idx \<Rightarrow> Inr idx) of
        Inl err \<Rightarrow> Inl err
      | Inr idx \<Rightarrow>
          (case map_of idx name of
             None \<Rightarrow> Inl (Err ''%s not a zone in cloudflare account'' [name])
           | Some zid \<Rightarrow> Inr zid))"

definition checkProxyVal :: "'t cf_api \<Rightarrow> string \<Rightarrow> error + string" where
  "checkProxyVal api v0 =
     (let v = ToLower api v0 in
      if v \<noteq> ''on'' \<and> v \<noteq> ''off'' \<and> v \<noteq> ''full''
      then Inl (Err ''bad metadata value for cloudflare_proxy: %s. Use on/off/full'' [v])
      else Inr v)"

text \<open>
  The body of the first loop of \<^verbatim>\<open>preprocessConfig\<close> on one record, in four
  steps: the metadata map and the TTL (lines 414 to 425), the proxy setting (lines
  427 to 443), the redirect records with the page-rule priority counter before and
  after (lines 446 to 462), the worker routes (lines 465 to 472).
\<close>

definition preprocess_ttl :: "cf_record \<Rightarrow> cf_record" where
  "preprocess_ttl rec0 =
     (let rec1 = (if Metadata rec0 = None then rec0\<lparr>Metadata := Some []\<rparr> else rec0);
          rec2 = (if TTL rec1 = 0 \<or> TTL rec1 = 300 then rec1\<lparr>TTL := 1\<rparr> else rec1)
      in if TTL rec2 \<noteq> 1 \<and> TTL rec2 < 120 then rec2\<lparr>TTL := 120\<rparr> else rec2)"

definition preprocess_proxy :: "'t cf_api \<Rightarrow> string \<Rightarrow> cf_record \<Rightarrow> error + cf_record" where
  "preprocess_proxy api defProxy rec =
     (if Type rec \<noteq> ''A'' \<and> Type rec \<noteq> ''CNAME'' \<and> Type rec \<noteq> ''AAAA'' \<and> Type rec \<noteq> ''ALIAS''
      then (if meta_get (Metadata rec) metaProxy \<noteq> []
            then Inl (Err ''cloudflare_proxy set on %v record: %#v cloudflare_proxy=%#v''
                        [Type rec, Label rec, meta_get (Metadata rec) metaProxy])
            else Inr (rec\<lparr>Metadata := meta_set (Metadata rec) metaProxy ''off''\<rparr>))
      else (let val = meta_get (Metadata rec) metaProxy in
            if val = [] then Inr (rec\<lparr>Metadata := meta_set (Metadata rec) metaProxy defProxy\<rparr>)
            else (case checkProxyVal api val of
                    Inl err \<Rightarrow> Inl err
                  | Inr v \<Rightarrow> Inr (rec\<lparr>Metadata := meta_set (Metadata rec) metaProxy v\<rparr>))))"

definition preprocess_redirect :: "'t cloudflareProvider \<Rightarrow> nat \<Rightarrow> cf_record \<Rightarrow> error + (cf_record \<times> nat)" where
  "preprocess_redirect c currentPrPrio rec =
     (if Type rec = ''CF_REDIRECT'' \<or> Type rec = ''CF_TEMP_REDIRECT''
      then (if \<not> manageRedirects c
            then Inl (Err ''you must add manage_redirects: true metadata to cloudflare provider to use CF_REDIRECT records'' [])
            else if length (Split (TargetField rec) CHR '','') \<noteq> 2
            then Inl (Err ''invalid data specified for cloudflare redirect record'' [])
            else (let code = (if Type rec = ''CF_TEMP_REDIRECT'' then 302 else 301) in
                  Inr (rec\<lparr>TargetField := TargetField rec @ '','' @ itoa currentPrPrio @ '','' @ itoa code,
                           TTL := 1, Type := ''PAGE_RULE''\<rparr>,
                       currentPrPrio + 1)))
      else Inr (rec, currentPrPrio))"

definition preprocess_worker :: "cf_record \<Rightarrow> error + cf_record" where
  "preprocess_worker rec =
     (if Type rec = ''CF_WORKER_ROUTE''
      then (if length (Split (TargetField rec) CHR '','') \<noteq> 2
            then Inl (Err ''invalid data specified for cloudflare worker record'' [])
            else Inr (rec\<lparr>TTL := 1, Type := ''WORKER_ROUTE''\<rparr>))
      else Inr rec)"

definition preprocess_record ::
  "'t cf_api \<Rightarrow> 't cloudflareProvider \<Rightarrow> string \<Rightarrow> nat \<Rightarrow> cf_record \<Rightarrow> error + (cf_record \<times> nat)" where
  "preprocess_record api c defProxy currentPrPrio rec0 =
     (case preprocess_proxy api defProxy (preprocess_ttl rec0) of
        Inl err \<Rightarrow> Inl err
      | Inr rec1 \<Rightarrow>
          (case preprocess_redirect c currentPrPrio rec1 of
             Inl err \<Rightarrow> Inl err
           | Inr (rec2, prio) \<Rightarrow>
               (case preprocess_worker rec2 of
                  Inl err \<Rightarrow> Inl err
                | Inr rec3 \<Rightarrow> Inr (rec3, prio))))"

text \<open>
  The first loop runs from the last record to the first (\<^verbatim>\<open>i := len - 1; i >= 0; i--\<close>),
  the counter starting at 1: the tail of the list is processed before its head.
\<close>

fun preprocess_loop ::
  "'t cf_api \<Rightarrow> 't cloudflareProvider \<Rightarrow> string \<Rightarrow> cf_record list \<Rightarrow> error + (cf_record list \<times> nat)" where
  "preprocess_loop api c defProxy [] = Inr ([], 1)"
| "preprocess_loop api c defProxy (r # rs) =
     (case preprocess_loop api c defProxy rs of
        Inl err \<Rightarrow> Inl err
      | Inr (rs', prio) \<Rightarrow>
          (case preprocess_record api c defProxy prio r of
             Inl err \<Rightarrow> Inl err
           | Inr (r', prio') \<Rightarrow> Inr (r' # rs', prio')))"

text \<open>The body of the second loop of \<^verbatim>\<open>preprocessConfig\<close> (lines 476 to 494).\<close>

definition convert_ip :: "'t cf_api \<Rightarrow> 't cloudflareProvider \<Rightarrow> cf_record \<Rightarrow> error + cf_record" where
  "convert_ip api c r =
     (if Type r \<noteq> ''A'' then Inr r
      else if meta_get (Metadata r) metaProxy \<noteq> ''full'' then Inr r
      else (case ParseIP api (TargetField r) of
              None \<Rightarrow> Inl (Err ''%s is not a valid ip address'' [TargetField r])
            | Some ip \<Rightarrow>
                (case transform_IP api ip (ipConversions c) of
                   Inl err \<Rightarrow> Inl err
                 | Inr newIP \<Rightarrow>
                     Inr (r\<lparr>Metadata := meta_set (Metadata r) metaOriginalIP (TargetField r),
                            TargetField := IP_String api newIP\<rparr>))))"

definition preprocessConfig ::
  "'t cf_api \<Rightarrow> 't cloudflareProvider \<Rightarrow> cf_original DomainConfig \<Rightarrow> error + cf_original DomainConfig" where
  "preprocessConfig api c dc =
     (case (let defProxy = meta_get (DomainMetadata dc) metaProxyDefault in
            if defProxy = [] then Inr ''off'' else checkProxyVal api defProxy)
      of
        Inl err \<Rightarrow> Inl err
      | Inr defProxy \<Rightarrow>
          (let u = meta_get (DomainMetadata dc) metaUniversalSSL in
           if u \<noteq> [] \<and> ToLower api u \<noteq> ''on'' \<and> ToLower api u \<noteq> ''off''
           then Inl (Err ''bad metadata value for %s: %s. Use on/off'' [metaUniversalSSL, ToLower api u])
           else (case preprocess_loop api c defProxy (Records dc) of
                   Inl err \<Rightarrow> Inl err
                 | Inr (rs, _) \<Rightarrow>
                     (case mapE (convert_ip api c) rs of
                        Inl err \<Rightarrow> Inl err
                      | Inr rs' \<Rightarrow> Inr (dc\<lparr>Records := rs'\<rparr>)))))"

text \<open>
  The loop that drops the ignored labels from the fetched records (lines 169 to 176):
  \<open>i\<close> counts down from \<^verbatim>\<open>len(records)\<close>; the record at \<open>i - 1\<close> is removed when
  its native name, trimmed of the zone, is an ignored label. The type assertion
  \<^verbatim>\<open>rec.Original.(cloudflare.DNSRecord)\<close> panics on anything else.
\<close>

fun drop_ignored ::
  "'t cf_api \<Rightarrow> 't cloudflareProvider \<Rightarrow> string \<Rightarrow> nat \<Rightarrow> cf_record list \<Rightarrow> error + cf_record list" where
  "drop_ignored api c zone 0 records = Inr records"
| "drop_ignored api c zone (Suc i) records =
     (if length records \<le> i then Inl (Panic ''index out of range'')
      else (case Original (records ! i) of
              Some (DNSRecord orig) \<Rightarrow>
                if labelMatches (TrimDomainName api (DNSName orig) zone) (ignoredLabels c)
                then drop_ignored api c zone i (take i records @ drop (Suc i) records)
                else drop_ignored api c zone i records
            | _ \<Rightarrow> Inl (Panic ''interface conversion: not a cloudflare.DNSRecord'')))"

text \<open>The body of the loop over the desired records (lines 198 to 211).\<close>

definition force_desired :: "'t cloudflareProvider \<Rightarrow> cf_record \<Rightarrow> error + cf_record" where
  "force_desired c rec0 =
     (let rec1 = (if Type rec0 = ''ALIAS'' then rec0\<lparr>Type := ''CNAME''\<rparr> else rec0);
          rec2 = (if meta_get (Metadata rec1) metaProxy \<noteq> ''off'' then rec1\<lparr>TTL := 1\<rparr> else rec1)
      in if labelMatches (Label rec2) (ignoredLabels c)
         then Inl (Fatal ''FATAL: dnsconfig contains label that matches ignored_labels: %#v is in %v)''
                    (Label rec2 # ignoredLabels c))
         else Inr rec2)"

definition checkNSModifications :: "'o DomainConfig \<Rightarrow> 'o DomainConfig" where
  "checkNSModifications dc =
     dc\<lparr>Records := filter (\<lambda>rec. \<not> (Type rec = ''NS'' \<and> LabelFQDN rec = Name dc)) (Records dc)\<rparr>"

definition checkUniversalSSL :: "'t cf_api \<Rightarrow> cf_original DomainConfig \<Rightarrow> string \<Rightarrow> error + (bool \<times> bool)" where
  "checkUniversalSSL api dc zid =
     (let expectedStr = meta_get (DomainMetadata dc) metaUniversalSSL in
      if expectedStr = [] then Inl (Err ''metadata not set'' [])
      else (case getUniversalSSL api zid of
              Inr actual \<Rightarrow>
                (let expected = (if expectedStr = ''off'' then False else True) in
                 if actual \<noteq> expected then Inr (True, expected) else Inr (False, expected))
            | Inl _ \<Rightarrow> Inl (Err ''error receiving universal ssl state'' [])))"

definition getProxyMetadata :: "cf_original extraValues" where
  "getProxyMetadata r =
     (if Type r \<noteq> ''A'' \<and> Type r \<noteq> ''AAAA'' \<and> Type r \<noteq> ''CNAME'' then Inr None
      else (case Original r of
              Some (DNSRecord orig) \<Rightarrow>
                (case Proxied orig of
                   None \<Rightarrow> Inl (Panic ''nil pointer dereference'')
                 | Some proxied \<Rightarrow> Inr (Some [(''proxy'', Sprint_bool proxied)]))
            | Some _ \<Rightarrow> Inl (Panic ''interface conversion: not a cloudflare.DNSRecord'')
            | None \<Rightarrow> Inr (Some [(''proxy'', Sprint_bool (meta_get (Metadata r) metaProxy \<noteq> ''off''))])))"

text \<open>
  \<^verbatim>\<open>GetDomainCorrections\<close> up to the call of the differ (lines 152 to 224): the zone's
  id, the desired domain and the existing records as the differ receives them. The
  records of \<^verbatim>\<open>dc.Records\<close> are pointers that the loops write through; the model
  rebuilds the list, which is the same as long as no record is listed twice.
\<close>

definition cf_prepare ::
  "'t cf_api \<Rightarrow> 't cloudflareProvider \<Rightarrow> cf_original DomainConfig
     \<Rightarrow> error + (string \<times> cf_original DomainConfig \<times> cf_record list)" where
  "cf_prepare api c dc0 =
     (case Punycode (cf_models api) dc0 of
        (_, Some err) \<Rightarrow> Inl err
      | (dc1, None) \<Rightarrow>
     (case getDomainID api c (Name dc1) of
        Inl err \<Rightarrow> Inl err
      | Inr zid \<Rightarrow>
     (case getRecordsForDomain api zid (Name dc1) of
        Inl err \<Rightarrow> Inl err
      | Inr records0 \<Rightarrow>
     (case preprocessConfig api c dc1 of
        Inl err \<Rightarrow> Inl err
      | Inr dc2 \<Rightarrow>
     (case drop_ignored api c (Name dc2) (length records0) records0 of
        Inl err \<Rightarrow> Inl err
      | Inr records1 \<Rightarrow>
     (case (if manageRedirects c
            then (case getPageRules api zid (Name dc2) of
                    Inl err \<Rightarrow> Inl err
                  | Inr prs \<Rightarrow> Inr (records1 @ prs))
            else Inr records1) of
        Inl err \<Rightarrow> Inl err
      | Inr records2 \<Rightarrow>
     (case (if manageWorkers c
            then (case getWorkerRoutes api zid (Name dc2) of
                    Inl err \<Rightarrow> Inl err
                  | Inr wrs \<Rightarrow> Inr (records2 @ wrs))
            else Inr records2) of
        Inl err \<Rightarrow> Inl err
      | Inr records3 \<Rightarrow>
     (case mapE (force_desired c) (Records dc2) of
        Inl err \<Rightarrow> Inl err
      | Inr rs \<Rightarrow>
          Inr (zid, checkNSModifications (dc2\<lparr>Records := rs\<rparr>),
               PostProcessRecords (cf_models api) records3)))))))))"

text \<open>
  The three loops that turn the changesets into corrections (lines 237 to 307), each
  with the list \<^verbatim>\<open>corrections\<close> built so far. \<^verbatim>\<open>append([]*Correction{corr},
  corrections...)\<close> puts a correction in front. Reading \<^verbatim>\<open>ex.Type\<close> of a nil
  \<^verbatim>\<open>Existing\<close> panics, and so does the type assertion on \<^verbatim>\<open>Original\<close>.
\<close>

fun delete_loop ::
  "'t cf_api \<Rightarrow> string \<Rightarrow> cf_original Changeset \<Rightarrow> cf_action Correction list
     \<Rightarrow> error + cf_action Correction list" where
  "delete_loop api zid [] corrections = Inr corrections"
| "delete_loop api zid (d # del) corrections =
     (case Existing d of
        None \<Rightarrow> Inl (Panic ''nil pointer dereference'')
      | Some ex \<Rightarrow>
          if Type ex = ''PAGE_RULE''
          then delete_loop api zid del
                 (corrections @ [\<lparr>Msg = CorrelationString (cf_models api) d, F = deletePageRule ex zid\<rparr>])
          else if Type ex = ''WORKER_ROUTE''
          then delete_loop api zid del
                 (corrections @ [\<lparr>Msg = CorrelationString (cf_models api) d, F = deleteWorkerRoute ex zid\<rparr>])
          else (case Original ex of
                  Some (DNSRecord orig) \<Rightarrow>
                    (let corr = deleteRec api orig zid in
                     if Type ex = ''DS''
                     then delete_loop api zid del ([corr] @ corrections)
                     else delete_loop api zid del (corrections @ [corr]))
                | _ \<Rightarrow> Inl (Panic ''interface conversion: not a cloudflare.DNSRecord'')))"

fun create_loop ::
  "'t cf_api \<Rightarrow> string \<Rightarrow> cf_original Changeset \<Rightarrow> cf_action Correction list
     \<Rightarrow> error + cf_action Correction list" where
  "create_loop api zid [] corrections = Inr corrections"
| "create_loop api zid (d # create) corrections =
     (case Desired d of
        None \<Rightarrow> Inl (Panic ''nil pointer dereference'')
      | Some des \<Rightarrow>
          if Type des = ''PAGE_RULE''
          then create_loop api zid create
                 (corrections @ [\<lparr>Msg = CorrelationString (cf_models api) d, F = createPageRule zid des\<rparr>])
          else if Type des = ''WORKER_ROUTE''
          then create_loop api zid create
                 (corrections @ [\<lparr>Msg = CorrelationString (cf_models api) d, F = createWorkerRoute zid des\<rparr>])
          else (let corr = createRec api des zid in
                if Type des = ''NS''
                then create_loop api zid create (corr @ corrections)
                else create_loop api zid create (corrections @ corr)))"

fun modify_loop ::
  "'t cf_api \<Rightarrow> string \<Rightarrow> cf_original Changeset \<Rightarrow> cf_action Correction list
     \<Rightarrow> error + cf_action Correction list" where
  "modify_loop api zid [] corrections = Inr corrections"
| "modify_loop api zid (d # modify) corrections =
     (case Desired d of
        None \<Rightarrow> Inl (Panic ''nil pointer dereference'')
      | Some rec \<Rightarrow>
          if Type rec = ''PAGE_RULE''
          then modify_loop api zid modify
                 (corrections @ [\<lparr>Msg = CorrelationString (cf_models api) d, F = updatePageRule (Existing d) zid rec\<rparr>])
          else if Type rec = ''WORKER_ROUTE''
          then modify_loop api zid modify
                 (corrections @ [\<lparr>Msg = CorrelationString (cf_models api) d, F = updateWorkerRoute (Existing d) zid rec\<rparr>])
          else (case Existing d of
                  None \<Rightarrow> Inl (Panic ''nil pointer dereference'')
                | Some ex \<Rightarrow>
                    (case Original ex of
                       Some (DNSRecord e) \<Rightarrow>
                         (let proxy = (Proxiable e \<and> meta_get (Metadata rec) metaProxy \<noteq> ''off'') in
                          modify_loop api zid modify
                            (corrections @ [\<lparr>Msg = CorrelationString (cf_models api) d,
                                             F = modifyRecord zid (ID e) proxy rec\<rparr>]))
                     | _ \<Rightarrow> Inl (Panic ''interface conversion: not a cloudflare.DNSRecord''))))"

text \<open>
  \<^verbatim>\<open>GetDomainCorrections\<close> from the differ's result on (lines 235 to 323): the three
  loops, then the Universal SSL correction when the setting has to change.
\<close>

definition cf_sequence ::
  "'t cf_api \<Rightarrow> string \<Rightarrow> cf_original DomainConfig
     \<Rightarrow> cf_original Changeset \<Rightarrow> cf_original Changeset \<Rightarrow> cf_original Changeset
     \<Rightarrow> error + cf_action Correction list" where
  "cf_sequence api zid dc create del modify =
     (case delete_loop api zid del [] of
        Inl err \<Rightarrow> Inl err
      | Inr corrections1 \<Rightarrow>
     (case create_loop api zid create corrections1 of
        Inl err \<Rightarrow> Inl err
      | Inr corrections2 \<Rightarrow>
     (case modify_loop api zid modify corrections2 of
        Inl err \<Rightarrow> Inl err
      | Inr corrections3 \<Rightarrow>
     (case checkUniversalSSL api dc zid of
        Inr (True, newState) \<Rightarrow>
          Inr (corrections3 @
               [\<lparr>Msg = ''Universal SSL will be '' @ (if newState then ''enabled'' else ''disabled'')
                        @ '' for this domain.'',
                 F = changeUniversalSSL zid newState\<rparr>])
      | _ \<Rightarrow> Inr corrections3))))"

text \<open>\<^verbatim>\<open>GetDomainCorrections\<close>; the guard \<^verbatim>\<open>!diff2.EnableDiff2 || true\<close> is always true.\<close>

definition cf_GetDomainCorrections ::
  "'t cf_api \<Rightarrow> 't cloudflareProvider \<Rightarrow> cf_original DomainConfig \<Rightarrow> error + cf_action Correction list" where
  "cf_GetDomainCorrections api c dc0 =
     (case cf_prepare api c dc0 of
        Inl err \<Rightarrow> Inl err
      | Inr (zid, dc, records) \<Rightarrow>
          (case IncrementalDiff (cf_models api) [getProxyMetadata] dc records of
             Inl err \<Rightarrow> Inl err
           | Inr (_, create, del, modify) \<Rightarrow> cf_sequence api zid dc create del modify))"

text \<open>
  For the statements about the order of the corrections: the type of the record an
  entry deletes or creates, and the correction (for a create, the corrections) that a
  loop builds for one entry, wherever the loop then puts it.
\<close>

definition deleted_type :: "'o Correlation \<Rightarrow> string option" where
  "deleted_type d = map_option Type (Existing d)"

definition created_type :: "'o Correlation \<Rightarrow> string option" where
  "created_type d = map_option Type (Desired d)"

definition delete_correction :: "'t cf_api \<Rightarrow> string \<Rightarrow> cf_original Correlation \<Rightarrow> error + cf_action Correction" where
  "delete_correction api zid d =
     (case Existing d of
        None \<Rightarrow> Inl (Panic ''nil pointer dereference'')
      | Some ex \<Rightarrow>
          if Type ex = ''PAGE_RULE''
          then Inr \<lparr>Msg = CorrelationString (cf_models api) d, F = deletePageRule ex zid\<rparr>
          else if Type ex = ''WORKER_ROUTE''
          then Inr \<lparr>Msg = CorrelationString (cf_models api) d, F = deleteWorkerRoute ex zid\<rparr>
          else (case Original ex of
                  Some (DNSRecord orig) \<Rightarrow> Inr (deleteRec api orig zid)
                | _ \<Rightarrow> Inl (Panic ''interface conversion: not a cloudflare.DNSRecord'')))"

definition create_corrections :: "'t cf_api \<Rightarrow> string \<Rightarrow> cf_original Correlation \<Rightarrow> error + cf_action Correction list" where
  "create_corrections api zid d =
     (case Desired d of
        None \<Rightarrow> Inl (Panic ''nil pointer dereference'')
      | Some des \<Rightarrow>
          if Type des = ''PAGE_RULE''
          then Inr [\<lparr>Msg = CorrelationString (cf_models api) d, F = createPageRule zid des\<rparr>]
          else if Type des = ''WORKER_ROUTE''
          then Inr [\<lparr>Msg = CorrelationString (cf_models api) d, F = createWorkerRoute zid des\<rparr>]
          else Inr (createRec api des zid))"

definition modify_correction :: "'t cf_api \<Rightarrow> string \<Rightarrow> cf_original Correlation \<Rightarrow> error + cf_action Correction" where
  "modify_correction api zid d =
     (case Desired d of
        None \<Rightarrow> Inl (Panic ''nil pointer dereference'')
      | Some rec \<Rightarrow>
          if Type rec = ''PAGE_RULE''
          then Inr \<lparr>Msg = CorrelationString (cf_models api) d, F = updatePageRule (Existing d) zid rec\<rparr>
          else if Type rec = ''WORKER_ROUTE''
          then Inr \<lparr>Msg = CorrelationString (cf_models api) d, F = updateWorkerRoute (Existing d) zid rec\<rparr>
          else (case Existing d of
                  None \<Rightarrow> Inl (Panic ''nil pointer dereference'')
                | Some ex \<Rightarrow>
                    (case Original ex of
                       Some (DNSRecord e) \<Rightarrow>
                         Inr \<lparr>Msg = CorrelationString (cf_models api) d,
                              F = modifyRecord zid (ID e)
                                    (Proxiable e \<and> meta_get (Metadata rec) metaProxy \<noteq> ''off'') rec\<rparr>
                     | _ \<Rightarrow> Inl (Panic ''interface conversion: not a cloudflare.DNSRecord''))))"

definition universalSSL_corrections :: "'t cf_api \<Rightarrow> cf_original DomainConfig \<Rightarrow> string \<Rightarrow> cf_action Correction list" where
  "universalSSL_corrections api dc zid =
     (case checkUniversalSSL api dc zid of
        Inr (True, newState) \<Rightarrow>
          [\<lparr>Msg = ''Universal SSL will be '' @ (if newState then ''enabled'' else ''disabled'')
                  @ '' for this domain.'',
            F = changeUniversalSSL zid newState\<rparr>]
      | _ \<Rightarrow> [])"

text \<open>
  What the preprocessing of a desired record never changes: its label, its TXT
  strings, and whether it is an NS record.
\<close>

definition kept :: "'o RecordConfig \<Rightarrow> 'o RecordConfig \<Rightarrow> bool" where
  "kept r r' = (Label r' = Label r \<and> LabelFQDN r' = LabelFQDN r \<and> TxtStrings r' = TxtStrings r
                \<and> (Type r' = ''NS'') = (Type r = ''NS''))"

text \<open>
  The test of the loop that drops the ignored labels, on one fetched record: its
  native name, trimmed of the zone, is one of the provider's ignored labels.
\<close>

definition is_DNSRecord :: "cf_record \<Rightarrow> bool" where
  "is_DNSRecord r = (case Original r of Some (DNSRecord _) \<Rightarrow> True | _ \<Rightarrow> False)"

definition ignored_record :: "'t cf_api \<Rightarrow> 't cloudflareProvider \<Rightarrow> string \<Rightarrow> cf_record \<Rightarrow> bool" where
  "ignored_record api c zone r =
     (case Original r of
        Some (DNSRecord orig) \<Rightarrow> labelMatches (TrimDomainName api (DNSName orig) zone) (ignoredLabels c)
      | _ \<Rightarrow> False)"

section \<open>Exoscale\<close>

text \<open>
  \<^verbatim>\<open>egoscale.DNSDomain\<close> and \<^verbatim>\<open>egoscale.DNSDomainRecord\<close>: every field is a pointer,
  \<open>None\<close> when nil. \<^verbatim>\<open>TTL\<close> and \<^verbatim>\<open>Priority\<close> are \<^verbatim>\<open>*int64\<close>.
\<close>

record exo_DNSDomain =
  dom_ID :: "string option"
  dom_UnicodeName :: "string option"

record exo_DNSDomainRecord =
  exo_ID :: "string option"
  exo_Type :: "string option"
  exo_Content :: "string option"
  exo_Name :: "string option"
  exo_TTL :: "int option"
  exo_Priority :: "int option"

type_synonym exo_record = "exo_DNSDomainRecord RecordConfig"

record exoscaleProvider =
  apiZone :: string

text \<open>
  The calls of the egoscale client, and the methods of \<^verbatim>\<open>RecordConfig\<close> that are not
  under \<^verbatim>\<open>src/\<close>: \<^verbatim>\<open>SetLabel(short, origin)\<close>, \<^verbatim>\<open>SetTargetMX(pref, target)\<close>
  and \<^verbatim>\<open>PopulateFromString(rtype, contents, origin)\<close> each rewrite the record they are
  called on; the last two may fail.
\<close>

record exo_api =
  exo_models :: "exo_DNSDomainRecord models"
  ListDNSDomains :: "string \<Rightarrow> error + exo_DNSDomain list"
  ListDNSDomainRecords :: "string \<Rightarrow> string \<Rightarrow> error + exo_DNSDomainRecord list"
  GetDNSDomainRecord :: "string \<Rightarrow> string \<Rightarrow> string \<Rightarrow> error + exo_DNSDomainRecord"
  SetLabel :: "exo_record \<Rightarrow> string \<Rightarrow> string \<Rightarrow> exo_record"
  SetTargetMX :: "exo_record \<Rightarrow> u16 \<Rightarrow> string \<Rightarrow> error + exo_record"
  PopulateFromString :: "exo_record \<Rightarrow> string \<Rightarrow> string \<Rightarrow> string \<Rightarrow> error + exo_record"

text \<open>
  The closures of Exoscale's corrections: \<^verbatim>\<open>deleteRecordFunc(recordID, domainID)\<close>,
  \<^verbatim>\<open>createRecordFunc(rc, domainID)\<close> and \<^verbatim>\<open>updateRecordFunc(record, rc, domainID)\<close>;
  \<^verbatim>\<open>rc\<close> is a pointer that is only read when the correction is applied.
\<close>

datatype exo_action =
    deleteRecordFunc string string
  | createRecordFunc "exo_record option" string
  | updateRecordFunc exo_DNSDomainRecord "exo_record option" string

text \<open>The verb \<^verbatim>\<open>%d\<close> on an \<^verbatim>\<open>int64\<close>.\<close>

definition itoa_int :: "int \<Rightarrow> string" where
  "itoa_int i = (if i < 0 then ''-'' @ itoa (nat (- i)) else itoa (nat i))"

fun findDomain :: "string \<Rightarrow> exo_DNSDomain list \<Rightarrow> error + exo_DNSDomain" where
  "findDomain name [] = Inl ErrDomainNotFound"
| "findDomain name (domain # domains) =
     (if dom_UnicodeName domain \<noteq> None \<and> dom_ID domain \<noteq> None \<and> dom_UnicodeName domain = Some name
      then Inr domain else findDomain name domains)"

definition findDomainByName :: "exo_api \<Rightarrow> exoscaleProvider \<Rightarrow> string \<Rightarrow> error + exo_DNSDomain" where
  "findDomainByName api c name =
     (case ListDNSDomains api (apiZone c) of
        Inl err \<Rightarrow> Inl err
      | Inr domains \<Rightarrow> findDomain name domains)"

definition exo_EnsureDomainExists :: "exo_api \<Rightarrow> exoscaleProvider \<Rightarrow> string \<Rightarrow> error option" where
  "exo_EnsureDomainExists api c domainName =
     (case findDomainByName api c domainName of Inl err \<Rightarrow> Some err | Inr _ \<Rightarrow> None)"

definition defaultNSSUffix :: "string \<Rightarrow> bool" where
  "defaultNSSUffix defNS =
     (HasSuffix defNS ''.exoscale.io.'' \<or> HasSuffix defNS ''.exoscale.com.''
      \<or> HasSuffix defNS ''.exoscale.ch.'' \<or> HasSuffix defNS ''.exoscale.net.'')"

text \<open>
  \<^verbatim>\<open>removeOtherNS\<close>, with the warnings it prints: an NS record is never kept, whether
  it is an apex record on Exoscale's own nameservers (skipped silently) or not (skipped
  with a warning).
\<close>

fun removeOtherNS_loop :: "string \<Rightarrow> 'o RecordConfig list \<Rightarrow> 'o RecordConfig list \<times> string list" where
  "removeOtherNS_loop zone [] = ([], [])"
| "removeOtherNS_loop zone (rec # recs) =
     (let (newList, warnings) = removeOtherNS_loop zone recs in
      if Type rec = ''NS''
      then (if LabelFQDN rec = zone \<and> defaultNSSUffix (TargetField rec)
            then (newList, warnings)
            else (newList, TargetField rec # warnings))
      else (rec # newList, warnings))"

definition removeOtherNS :: "'o DomainConfig \<Rightarrow> 'o DomainConfig" where
  "removeOtherNS dc = dc\<lparr>Records := fst (removeOtherNS_loop (Name dc) (Records dc))\<rparr>"

text \<open>
  The body of the loop over the listed records (lines 115 to 187): \<open>Inr None\<close> is
  \<^verbatim>\<open>continue\<close>. \<open>exo_existing_record\<close> is the body up to the test that skips
  the SOA and NS records (line 140), \<open>exo_convert\<close> the body from there. The zero
  \<^verbatim>\<open>RecordConfig\<close> has empty strings, zero numbers and nil maps;
  \<^verbatim>\<open>uint32(*record.TTL)\<close> and \<^verbatim>\<open>uint16(*record.Priority)\<close> truncate.
\<close>

definition zero_RecordConfig :: "'o RecordConfig" where
  "zero_RecordConfig =
     \<lparr>Type = [], Label = [], LabelFQDN = [], TargetField = [], TTL = 0, MxPreference = 0,
      TxtStrings = [], Metadata = None, Original = None\<rparr>"

definition exo_convert ::
  "exo_api \<Rightarrow> string \<Rightarrow> exo_DNSDomainRecord \<Rightarrow> string \<Rightarrow> string \<Rightarrow> string \<Rightarrow> error + exo_record option" where
  "exo_convert api zone record0 rtype rcontent0 rname =
     (let record = (if rname = [] then record0\<lparr>exo_Name := Some ''@''\<rparr> else record0);
          rcontent =
            (if rtype = ''CNAME'' \<or> rtype = ''MX'' \<or> rtype = ''ALIAS'' \<or> rtype = ''SRV''
             then (let t = rcontent0 @ ''.'' in
                   case exo_Priority record of
                     Some prio \<Rightarrow> if rtype = ''SRV'' then itoa_int prio @ '' '' @ t else t
                   | None \<Rightarrow> t)
             else rcontent0)
      in
      if rtype = ''TXT'' \<and> HasPrefix rcontent ''ALIAS for '' then Inr None
      else
        (let rc0 = zero_RecordConfig\<lparr>Original := Some record\<rparr>;
             rc1 = (case exo_TTL record of Some ttl \<Rightarrow> rc0\<lparr>TTL := word_of_int ttl\<rparr> | None \<Rightarrow> rc0);
             rc2 = SetLabel api rc1 rname zone
         in
         case (if rtype = ''ALIAS'' \<or> rtype = ''URL''
               then Inr (rc2\<lparr>Type := rtype, TargetField := rcontent\<rparr>)
               else if rtype = ''MX''
               then SetTargetMX api rc2
                      (case exo_Priority record of Some prio \<Rightarrow> word_of_int prio | None \<Rightarrow> 0)
                      rcontent
               else PopulateFromString api rc2 rtype rcontent zone)
         of
           Inl err \<Rightarrow> Inl (Errorf ''unparsable record received from exoscale: '' err)
         | Inr rc \<Rightarrow> Inr (Some rc)))"

definition exo_existing_record ::
  "exo_api \<Rightarrow> exoscaleProvider \<Rightarrow> string \<Rightarrow> string \<Rightarrow> exo_DNSDomainRecord \<Rightarrow> error + exo_record option" where
  "exo_existing_record api c domainID zone r =
     (case exo_ID r of
        None \<Rightarrow> Inr None
      | Some recordID \<Rightarrow>
     (case GetDNSDomainRecord api (apiZone c) domainID recordID of
        Inl err \<Rightarrow> Inl err
      | Inr record0 \<Rightarrow>
     (case exo_Type record0 of
        None \<Rightarrow> Inr None
      | Some rtype \<Rightarrow>
          (let rcontent0 = (case exo_Content record0 of Some x \<Rightarrow> x | None \<Rightarrow> []);
               rname = (case exo_Name record0 of Some x \<Rightarrow> x | None \<Rightarrow> [])
           in
           if rtype = ''SOA'' \<or> rtype = ''NS'' then Inr None
           else exo_convert api zone record0 rtype rcontent0 rname))))"

fun exo_existing ::
  "exo_api \<Rightarrow> exoscaleProvider \<Rightarrow> string \<Rightarrow> string \<Rightarrow> exo_DNSDomainRecord list \<Rightarrow> error + exo_record list" where
  "exo_existing api c domainID zone [] = Inr []"
| "exo_existing api c domainID zone (r # records) =
     (case exo_existing_record api c domainID zone r of
        Inl err \<Rightarrow> Inl err
      | Inr None \<Rightarrow> exo_existing api c domainID zone records
      | Inr (Some rc) \<Rightarrow>
          (case exo_existing api c domainID zone records of
             Inl err \<Rightarrow> Inl err
           | Inr rcs \<Rightarrow> Inr (rc # rcs)))"

text \<open>The three loops that build the corrections (lines 206 to 229).\<close>

fun exo_delete_loop ::
  "exo_api \<Rightarrow> string \<Rightarrow> exo_DNSDomainRecord Changeset \<Rightarrow> error + exo_action Correction list" where
  "exo_delete_loop api domainID [] = Inr []"
| "exo_delete_loop api domainID (del # delete) =
     (case Existing del of
        None \<Rightarrow> Inl (Panic ''nil pointer dereference'')
      | Some ex \<Rightarrow>
     (case Original ex of
        None \<Rightarrow> Inl (Panic ''interface conversion: not a *egoscale.DNSDomainRecord'')
      | Some record \<Rightarrow>
     (case exo_ID record of
        None \<Rightarrow> Inl (Panic ''nil pointer dereference'')
      | Some recordID \<Rightarrow>
     (case exo_delete_loop api domainID delete of
        Inl err \<Rightarrow> Inl err
      | Inr corrections \<Rightarrow>
          Inr (\<lparr>Msg = CorrelationString (exo_models api) del, F = deleteRecordFunc recordID domainID\<rparr>
               # corrections)))))"

definition exo_create_loop ::
  "exo_api \<Rightarrow> string \<Rightarrow> exo_DNSDomainRecord Changeset \<Rightarrow> exo_action Correction list" where
  "exo_create_loop api domainID create =
     map (\<lambda>cre. \<lparr>Msg = CorrelationString (exo_models api) cre, F = createRecordFunc (Desired cre) domainID\<rparr>) create"

fun exo_modify_loop ::
  "exo_api \<Rightarrow> string \<Rightarrow> exo_DNSDomainRecord Changeset \<Rightarrow> error + exo_action Correction list" where
  "exo_modify_loop api domainID [] = Inr []"
| "exo_modify_loop api domainID (m # modify) =
     (case Existing m of
        None \<Rightarrow> Inl (Panic ''nil pointer dereference'')
      | Some ex \<Rightarrow>
     (case Original ex of
        None \<Rightarrow> Inl (Panic ''interface conversion: not a *egoscale.DNSDomainRecord'')
      | Some old \<Rightarrow>
     (case exo_modify_loop api domainID modify of
        Inl err \<Rightarrow> Inl err
      | Inr corrections \<Rightarrow>
          Inr (\<lparr>Msg = CorrelationString (exo_models api) m, F = updateRecordFunc old (Desired m) domainID\<rparr>
               # corrections))))"

text \<open>
  \<^verbatim>\<open>GetDomainCorrections\<close>. The error of \<^verbatim>\<open>dc.Punycode()\<close> is not read. A nil
  \<^verbatim>\<open>domain.ID\<close> cannot come out of \<^verbatim>\<open>findDomainByName\<close>; the dereference is kept
  all the same.
\<close>

definition exo_GetDomainCorrections ::
  "exo_api \<Rightarrow> exoscaleProvider \<Rightarrow> exo_DNSDomainRecord DomainConfig \<Rightarrow> error + exo_action Correction list" where
  "exo_GetDomainCorrections api c dc0 =
     (let dc1 = fst (Punycode (exo_models api) dc0) in
     (case findDomainByName api c (Name dc1) of
        Inl err \<Rightarrow> Inl err
      | Inr domain \<Rightarrow>
     (case dom_ID domain of
        None \<Rightarrow> Inl (Panic ''nil pointer dereference'')
      | Some domainID \<Rightarrow>
     (case ListDNSDomainRecords api (apiZone c) domainID of
        Inl err \<Rightarrow> Inl err
      | Inr records \<Rightarrow>
     (case exo_existing api c domainID (Name dc1) records of
        Inl err \<Rightarrow> Inl err
      | Inr existingRecords0 \<Rightarrow>
          (let dc = removeOtherNS dc1;
               existingRecords = PostProcessRecords (exo_models api) existingRecords0
           in
           case (if \<not> EnableDiff2 (exo_models api)
                 then IncrementalDiff (exo_models api) [] dc existingRecords
                 else IncrementalDiffCompat (exo_models api) dc existingRecords)
           of
             Inl err \<Rightarrow> Inl err
           | Inr (_, create, delete, modify) \<Rightarrow>
          (case exo_delete_loop api domainID delete of
             Inl err \<Rightarrow> Inl err
           | Inr corrections1 \<Rightarrow>
               (let corrections2 = corrections1 @ exo_create_loop api domainID create in
                case exo_modify_loop api domainID modify of
                  Inl err \<Rightarrow> Inl err
                | Inr corrections3 \<Rightarrow> Inr (corrections2 @ corrections3)))))))))"

text \<open>
  For the statements about NS records on Exoscale: a listed record whose fetched type
  is NS, and Exoscale's API without the NS records of the zone.
\<close>

definition exo_is_NS :: "exo_api \<Rightarrow> string \<Rightarrow> string \<Rightarrow> exo_DNSDomainRecord \<Rightarrow> bool" where
  "exo_is_NS api zone domainID r =
     (case exo_ID r of
        None \<Rightarrow> False
      | Some recordID \<Rightarrow>
          (case GetDNSDomainRecord api zone domainID recordID of
             Inl _ \<Rightarrow> False
           | Inr record \<Rightarrow> exo_Type record = Some ''NS''))"

definition exo_hide_NS :: "exo_api \<Rightarrow> exo_api" where
  "exo_hide_NS api =
     api\<lparr>ListDNSDomainRecords :=
           (\<lambda>zone domainID. case ListDNSDomainRecords api zone domainID of
                               Inl err \<Rightarrow> Inl err
                             | Inr records \<Rightarrow> Inr (filter (\<lambda>r. \<not> exo_is_NS api zone domainID r) records))\<rparr>"

section \<open>The reconciliation core, modelled from the spec\<close>

text \<open>
  The adapters hand the desired domain and the fetched records to the differ of
  package \<^verbatim>\<open>diff\<close>, which is not under \<^verbatim>\<open>src/\<close>, as the validation of the
  configuration and the matcher of the ignore patterns are not. The definitions of
  this section follow the spec's sections 3, 4.1, 4.2, 6, 7 and 9.
\<close>

subsection \<open>The glob matcher\<close>

text \<open>
  Modelled from the spec: the capability \<^verbatim>\<open>Matches(pattern, candidate)\<close> of section 9,
  whose implementation is missing. A bracket class lists characters and ranges
  \<^verbatim>\<open>a-z\<close>; a leading \<^verbatim>\<open>!\<close> negates it.
\<close>

fun in_items :: "char \<Rightarrow> string \<Rightarrow> bool" where
  "in_items x [] = False"
| "in_items x [a] = (x = a)"
| "in_items x [a, b] = (x = a \<or> x = b)"
| "in_items x (a # b # d # rest) =
     (if b = CHR ''-'' then (a \<le> x \<and> x \<le> d) \<or> in_items x rest
      else x = a \<or> in_items x (b # d # rest))"

definition in_class :: "char \<Rightarrow> string \<Rightarrow> bool" where
  "in_class x cls = (case cls of [] \<Rightarrow> False | a # rest \<Rightarrow> if a = CHR ''!'' then \<not> in_items x rest else in_items x cls)"

text \<open>
  Modelled from the spec: the grammar of a pattern, in the words of section 4.2:
  \<^verbatim>\<open>*\<close> (\<open>Star\<close>), \<^verbatim>\<open>**\<close> (\<open>SuperStar\<close>), \<^verbatim>\<open>?\<close> (\<open>AnyChar\<close>), a bracket class
  \<^verbatim>\<open>[...]\<close> (\<open>Class\<close>) and an alternation group \<^verbatim>\<open>{a,b}\<close> (\<open>Alt\<close>, its
  alternatives read as literal strings); any other character stands for itself, and so
  does a bracket or brace that is never closed.
\<close>

datatype glob_token = Lit char | AnyChar | Star | SuperStar | Class string | Alt "string list"

function parse_glob :: "string \<Rightarrow> glob_token list" where
  "parse_glob [] = []"
| "parse_glob (c # p) =
     (if c = CHR ''*''
      then (case p of
              [] \<Rightarrow> [Star]
            | d # q \<Rightarrow> if d = CHR ''*'' then SuperStar # parse_glob q else Star # parse_glob p)
      else if c = CHR ''?'' then AnyChar # parse_glob p
      else if c = CHR ''['' \<and> CHR '']'' \<in> set p
      then Class (takeWhile (\<lambda>x. x \<noteq> CHR '']'') p) # parse_glob (tl (dropWhile (\<lambda>x. x \<noteq> CHR '']'') p))
      else if c = CHR ''{'' \<and> CHR ''}'' \<in> set p
      then Alt (Split (takeWhile (\<lambda>x. x \<noteq> CHR ''}'') p) CHR '','')
             # parse_glob (tl (dropWhile (\<lambda>x. x \<noteq> CHR ''}'') p))
      else Lit c # parse_glob p)"
  by pat_completeness auto

termination parse_glob
proof (relation "measure length")
  show "wf (measure length)" by simp
next
  fix c :: char and p :: string
  have "length (tl (dropWhile (\<lambda>x. x \<noteq> CHR '']'') p)) \<le> length p"
    using length_dropWhile_le [of "\<lambda>x. x \<noteq> CHR '']''" p] by simp
  then show "(tl (dropWhile (\<lambda>x. x \<noteq> CHR '']'') p), c # p) \<in> measure length"
    by simp
next
  fix c :: char and p :: string
  have "length (tl (dropWhile (\<lambda>x. x \<noteq> CHR ''}'') p)) \<le> length p"
    using length_dropWhile_le [of "\<lambda>x. x \<noteq> CHR ''}''" p] by simp
  then show "(tl (dropWhile (\<lambda>x. x \<noteq> CHR ''}'') p), c # p) \<in> measure length"
    by simp
qed simp_all

text \<open>
  Modelled from the spec: what the tokens match. \<^verbatim>\<open>*\<close> matches within one label
  segment (any run of characters without a dot), \<^verbatim>\<open>**\<close> matches across segments (any
  run of characters), \<^verbatim>\<open>?\<close> matches one character. \<open>match_from k cross s\<close> holds when
  \<open>k\<close> accepts what is left of \<open>s\<close> after some run of characters, which may hold dots
  only when \<open>cross\<close> is set.
\<close>

fun match_from :: "(string \<Rightarrow> bool) \<Rightarrow> bool \<Rightarrow> string \<Rightarrow> bool" where
  "match_from k cross [] = k []"
| "match_from k cross (x # s) = (k (x # s) \<or> ((cross \<or> x \<noteq> CHR ''.'') \<and> match_from k cross s))"

fun match_tokens :: "glob_token list \<Rightarrow> string \<Rightarrow> bool" where
  "match_tokens [] s = (s = [])"
| "match_tokens (Lit c # ts) s = (case s of [] \<Rightarrow> False | x # xs \<Rightarrow> x = c \<and> match_tokens ts xs)"
| "match_tokens (AnyChar # ts) s = (case s of [] \<Rightarrow> False | x # xs \<Rightarrow> match_tokens ts xs)"
| "match_tokens (Star # ts) s = match_from (\<lambda>rest. match_tokens ts rest) False s"
| "match_tokens (SuperStar # ts) s = match_from (\<lambda>rest. match_tokens ts rest) True s"
| "match_tokens (Class cls # ts) s = (case s of [] \<Rightarrow> False | x # xs \<Rightarrow> in_class x cls \<and> match_tokens ts xs)"
| "match_tokens (Alt alts # ts) s =
     list_ex (\<lambda>alt. take (length alt) s = alt \<and> match_tokens ts (drop (length alt) s)) alts"

definition glob :: "string \<Rightarrow> string \<Rightarrow> bool" where
  "glob pattern s = match_tokens (parse_glob pattern) s"

subsection \<open>The comparison\<close>

text \<open>
  Modelled from the spec: the identity key of section 3, here (label, type, target);
  the TTL takes part in the comparison but not in the identity.
\<close>

definition identity_key :: "'o RecordConfig \<Rightarrow> string \<times> string \<times> string" where
  "identity_key r = (Label r, Type r, TargetField r)"

text \<open>
  Modelled from the spec: the comparison proper, steps 1 to 3 of the algorithm of
  section 4.2 and the purge rule of step 4, on the lists as they are given: a key on
  both sides is unchanged when the TTLs agree and a modify otherwise; a key only in
  desired is a create; a key only in existing is a delete unless the purge flag is off
  (\<^verbatim>\<open>KeepUnknown\<close>). The rules on ignore patterns (step 4) and on apex NS records
  (step 6) are added by \<open>Diff_zone\<close> below. The examples of the adapters' own steps
  run this comparison.
\<close>

definition spec_Diff :: "'o extraValues list \<Rightarrow> 'o DomainConfig \<Rightarrow> 'o RecordConfig list \<Rightarrow> 'o diffResult" where
  "spec_Diff extra dc existing =
     (let desired = Records dc;
          both = concat (map (\<lambda>d. map (\<lambda>e. \<lparr>Existing = Some e, Desired = Some d\<rparr>)
                                         (filter (\<lambda>e. identity_key e = identity_key d) existing)) desired)
      in Inr (filter (\<lambda>c. map_option TTL (Existing c) = map_option TTL (Desired c)) both,
              map (\<lambda>d. \<lparr>Existing = None, Desired = Some d\<rparr>)
                  (filter (\<lambda>d. identity_key d \<notin> set (map identity_key existing)) desired),
              (if KeepUnknown dc then []
               else map (\<lambda>e. \<lparr>Existing = Some e, Desired = None\<rparr>)
                        (filter (\<lambda>e. identity_key e \<notin> set (map identity_key desired)) existing)),
              filter (\<lambda>c. map_option TTL (Existing c) \<noteq> map_option TTL (Desired c)) both))"

text \<open>Modelled from the spec: the rendered description of a changeset entry (section 3).\<close>

definition spec_String :: "'o Correlation \<Rightarrow> string" where
  "spec_String c =
     (case (Existing c, Desired c) of
        (None, Some d) \<Rightarrow> ''CREATE '' @ Type d @ '' '' @ Label d @ '' '' @ TargetField d
      | (Some e, None) \<Rightarrow> ''DELETE '' @ Type e @ '' '' @ Label e @ '' '' @ TargetField e
      | (Some e, Some d) \<Rightarrow> ''MODIFY '' @ Type d @ '' '' @ Label d @ '' '' @ TargetField d
      | (None, None) \<Rightarrow> [])"

subsection \<open>The zone-level rules\<close>

text \<open>
  Modelled from the spec: the zone-level configuration values that the Differ reads
  (section 6) beside the purge flag, which \<^verbatim>\<open>DomainConfig\<close> holds: the declared ignore
  patterns, the declared ignore-by-target patterns, whether the zone has an explicit
  nameserver-management directive (step 6), and which desired records carry the
  explicit override modifier (step 5).
\<close>

record 'o zone_rules =
  ignore_names :: "string list"
  ignore_targets :: "string list"
  manages_NS :: bool
  overrides :: "'o RecordConfig \<Rightarrow> bool"

text \<open>
  Modelled from the spec: step 4's two tests on a record: its label matches a declared
  ignore pattern; its target matches a declared ignore-by-target pattern (CNAME only).
\<close>

definition ignored_name :: "'o zone_rules \<Rightarrow> 'o RecordConfig \<Rightarrow> bool" where
  "ignored_name z r = list_ex (\<lambda>pattern. glob pattern (Label r)) (ignore_names z)"

definition ignored_target :: "'o zone_rules \<Rightarrow> 'o RecordConfig \<Rightarrow> bool" where
  "ignored_target z r = (Type r = ''CNAME'' \<and> list_ex (\<lambda>pattern. glob pattern (TargetField r)) (ignore_targets z))"

text \<open>
  Modelled from the spec: step 6. An apex NS record is an NS record at the apex, the
  label \<^verbatim>\<open>@\<close> (glossary). Apex NS records are compared only when the zone manages its
  own NS set: without the directive they are left out of both sides.
\<close>

definition apex_NS :: "'o RecordConfig \<Rightarrow> bool" where
  "apex_NS r = (Type r = ''NS'' \<and> Label r = ''@'')"

definition compared :: "'o zone_rules \<Rightarrow> 'o RecordConfig list \<Rightarrow> 'o RecordConfig list" where
  "compared z rs = (if manages_NS z then rs else filter (\<lambda>r. \<not> apex_NS r) rs)"

text \<open>
  Modelled from the spec: the stabilized order of section 4.1, sorted by label, then
  type, then target, which both sides have when they reach the Differ (section 2).
\<close>

definition sort_order :: "'o RecordConfig \<Rightarrow> string list" where
  "sort_order r = [Label r, Type r, TargetField r]"

definition stabilize :: "'o RecordConfig list \<Rightarrow> 'o RecordConfig list" where
  "stabilize rs = sort_key sort_order rs"




text \<open>
  Modelled from the spec: the Differ of section 4.2 with the zone-level rules. Both
  sides are taken in the stabilized order, without the apex NS records when the zone
  does not manage them (step 6); two records of one side with the same identity key
  are a diff-internal error (section 7); steps 1 to 4 are \<open>spec_Diff\<close>; of the
  deletes, those of a record whose label matches an ignore pattern, or whose target
  matches an ignore-by-target pattern, are dropped (step 4).
\<close>

definition kept_delete :: "'o zone_rules \<Rightarrow> 'o Correlation \<Rightarrow> bool" where
  "kept_delete z c = (case Existing c of None \<Rightarrow> True | Some e \<Rightarrow> \<not> ignored_name z e \<and> \<not> ignored_target z e)"

definition Diff_zone :: "'o zone_rules \<Rightarrow> 'o extraValues list \<Rightarrow> 'o DomainConfig \<Rightarrow> 'o RecordConfig list \<Rightarrow> 'o diffResult" where
  "Diff_zone z extra dc existing =
     (let desired = stabilize (compared z (Records dc));
          observed = stabilize (compared z existing)
      in if \<not> distinct (map identity_key desired) \<or> \<not> distinct (map identity_key observed)
         then Inl (Err ''conflicting identity keys'' [])
         else (case spec_Diff extra (dc\<lparr>Records := desired\<rparr>) observed of
                 Inl err \<Rightarrow> Inl err
               | Inr (unchanged, create, del, modify) \<Rightarrow>
                   Inr (unchanged, create, filter (kept_delete z) del, modify)))"

text \<open>
  The packages \<^verbatim>\<open>models\<close> and \<^verbatim>\<open>diff\<close> with this differ in the place of
  \<^verbatim>\<open>IncrementalDiff\<close>, and a zone that declares no rule.
\<close>

definition with_Diff :: "'o zone_rules \<Rightarrow> 'o models \<Rightarrow> 'o models" where
  "with_Diff z m = m\<lparr>IncrementalDiff := Diff_zone z, IncrementalDiffCompat := Diff_zone z []\<rparr>"

definition no_rules :: "'o zone_rules" where
  "no_rules = \<lparr>ignore_names = [], ignore_targets = [], manages_NS = False, overrides = (\<lambda>r. False)\<rparr>"

text \<open>
  For the statements about apex NS records: hosting.de's API and Cloudflare's API
  without the apex NS records of the zone. On Cloudflare only records whose native
  value is a \<^verbatim>\<open>cloudflare.DNSRecord\<close> are left out: any other fetched record makes
  the adapter panic (line 172), with or without the others.
\<close>

definition hd_hide_apex_NS :: "('o, 'n) hostingdeProvider \<Rightarrow> ('o, 'n) hostingdeProvider" where
  "hd_hide_apex_NS hp =
     hp\<lparr>getRecords :=
          (\<lambda>domain. case getRecords hp domain of
                       Inl err \<Rightarrow> Inl err
                     | Inr src \<Rightarrow> Inr (filter (\<lambda>n. \<not> apex_NS (nativeToRecord hp n domain)) src))\<rparr>"

definition cf_apex_NS :: "cf_record \<Rightarrow> bool" where
  "cf_apex_NS r = (apex_NS r \<and> is_DNSRecord r)"

definition cf_hide_apex_NS :: "'t cf_api \<Rightarrow> 't cf_api" where
  "cf_hide_apex_NS api =
     api\<lparr>getRecordsForDomain :=
           (\<lambda>zid zone. case getRecordsForDomain api zid zone of
                          Inl err \<Rightarrow> Inl err
                        | Inr fetched \<Rightarrow> Inr (filter (\<lambda>r. \<not> cf_apex_NS r) fetched))\<rparr>"

section \<open>Concrete providers for the examples\<close>

text \<open>
  The packages \<^verbatim>\<open>models\<close> and \<^verbatim>\<open>diff\<close> of the examples: \<^verbatim>\<open>Punycode\<close> and
  \<^verbatim>\<open>PostProcessRecords\<close> change nothing (the examples are ASCII and normalized), the
  differ is the comparison \<open>spec_Diff\<close>; the examples of the zone-level rules put
  \<open>Diff_zone\<close> in its place (\<open>with_Diff\<close>).
\<close>

definition example_models :: "'o models" where
  "example_models =
     \<lparr>Punycode = (\<lambda>dc. (dc, None)), PostProcessRecords = (\<lambda>rs. rs), EnableDiff2 = False,
      IncrementalDiff = spec_Diff, IncrementalDiffCompat = spec_Diff [],
      CorrelationString = spec_String\<rparr>"

definition rr :: "string \<Rightarrow> string \<Rightarrow> string \<Rightarrow> u32 \<Rightarrow> 'o RecordConfig" where
  "rr ty label target ttl =
     \<lparr>Type = ty, Label = label, LabelFQDN = (if label = ''@'' then ''example.com'' else label @ ''.example.com''),
      TargetField = target, TTL = ttl, MxPreference = 0, TxtStrings = [], Metadata = None, Original = None\<rparr>"

definition example_dc :: "'o RecordConfig list \<Rightarrow> bool \<Rightarrow> 'o DomainConfig" where
  "example_dc desired keep =
     \<lparr>Name = ''example.com'', Records = desired, KeepUnknown = keep, Nameservers = [], DomainMetadata = None\<rparr>"

text \<open>A hosting.de account holding one zone with the given records and nameservers.\<close>

definition example_hd :: "unit RecordConfig list \<Rightarrow> string list \<Rightarrow> error option \<Rightarrow> (unit, unit RecordConfig) hostingdeProvider" where
  "example_hd zone ns zc =
     \<lparr>hd_models = example_models, getRecords = (\<lambda>_. Inr zone), nativeType = Type,
      nativeToRecord = (\<lambda>r _. r), getNameservers = (\<lambda>_. Inr ns),
      getZoneConfig = (\<lambda>_. zc), createZone = (\<lambda>_. None)\<rparr>"

text \<open>
  A Cloudflare account with the zone \<^verbatim>\<open>example.com\<close> holding the given records, no
  page rules and no worker routes. \<open>example_trim\<close> stands in for
  \<^verbatim>\<open>dnsutil.TrimDomainName\<close> on names at or under the zone; \<^verbatim>\<open>deleteRec\<close> and
  \<^verbatim>\<open>createRec\<close> give one correction each.
\<close>

definition example_trim :: "string \<Rightarrow> string \<Rightarrow> string" where
  "example_trim s origin =
     (if s = origin then ''@''
      else if HasSuffix s (''.'' @ origin) then take (length s - length origin - 1) s
      else s)"

definition example_cf_api :: "cf_record list \<Rightarrow> unit cf_api" where
  "example_cf_api zone =
     \<lparr>cf_models = example_models,
      fetchDomainList = Inr [(''example.com'', ''zone1'')],
      getRecordsForDomain = (\<lambda>_ _. Inr zone),
      getPageRules = (\<lambda>_ _. Inr []),
      getWorkerRoutes = (\<lambda>_ _. Inr []),
      getUniversalSSL = (\<lambda>_. Inr True),
      deleteRec = (\<lambda>r zid. \<lparr>Msg = ''DELETE record: '' @ DNSName r, F = DeleteDNSRecord zid (ID r)\<rparr>),
      createRec = (\<lambda>r zid. [\<lparr>Msg = ''CREATE record: '' @ Label r @ '' '' @ Type r, F = CreateDNSRecord zid r\<rparr>]),
      TrimDomainName = example_trim,
      ToLower = (\<lambda>s. s),
      ParseIP = (\<lambda>_. None),
      transform_IP = (\<lambda>ip _. Inr ip),
      IP_String = (\<lambda>_. [])\<rparr>"

definition example_cf :: "string list \<Rightarrow> unit cloudflareProvider" where
  "example_cf labels =
     \<lparr>domainIndex = None, ipConversions = [], ignoredLabels = labels,
      manageRedirects = False, manageWorkers = False\<rparr>"

text \<open>A record as Cloudflare's API returned it, with its native record and id.\<close>

definition cf_rr :: "string \<Rightarrow> string \<Rightarrow> string \<Rightarrow> u32 \<Rightarrow> string \<Rightarrow> cf_record" where
  "cf_rr ty label target ttl rid =
     (rr ty label target ttl)
       \<lparr>Original := Some (DNSRecord \<lparr>ID = rid,
            DNSName = (if label = ''@'' then ''example.com'' else label @ ''.example.com''),
            Proxiable = False, Proxied = Some False\<rparr>)\<rparr>"

definition example_ns_dc :: "string list \<Rightarrow> unit DomainConfig" where
  "example_ns_dc ns = (example_dc [] False)\<lparr>Nameservers := map Nameserver ns\<rparr>"

text \<open>
  A zone that loses the delegation of \<^verbatim>\<open>sub\<close> (an NS and a DS record exist) and gains
  the delegation of \<^verbatim>\<open>new\<close> (a DS and an NS record are desired); \<open>prepared\<close> is what
  \<^verbatim>\<open>preprocessConfig\<close> makes of such a desired record (automatic TTL, proxy off).
\<close>

definition delegation_zone :: "cf_record list" where
  "delegation_zone = [cf_rr ''NS'' ''sub'' ''ns1.example.net.'' 300 ''r1'', cf_rr ''DS'' ''sub'' ''2371 13 2 ABCD'' 300 ''r2'']"

definition delegation_desired :: "cf_record list" where
  "delegation_desired = [rr ''DS'' ''new'' ''2371 13 2 ABCD'' 300, rr ''NS'' ''new'' ''ns1.example.net.'' 300]"

definition prepared :: "cf_record \<Rightarrow> cf_record" where
  "prepared r = r\<lparr>TTL := 1, Metadata := Some [(''cloudflare_proxy'', ''off'')]\<rparr>"

text \<open>A desired TXT record whose content is one string of 600 octets.\<close>

definition long_txt :: cf_record where
  "long_txt = (rr ''TXT'' ''big'' [] 300)\<lparr>TxtStrings := [replicate 600 CHR ''x'']\<rparr>"

text \<open>
  An Exoscale account with the zone \<^verbatim>\<open>example.com\<close> holding the given native
  records; \<^verbatim>\<open>SetLabel\<close>, \<^verbatim>\<open>SetTargetMX\<close> and \<^verbatim>\<open>PopulateFromString\<close> store
  what they are given.
\<close>

definition example_exo_api :: "exo_DNSDomainRecord list \<Rightarrow> exo_api" where
  "example_exo_api zone =
     \<lparr>exo_models = example_models,
      ListDNSDomains = (\<lambda>_. Inr [\<lparr>dom_ID = Some ''d1'', dom_UnicodeName = Some ''example.com''\<rparr>]),
      ListDNSDomainRecords = (\<lambda>_ _. Inr zone),
      GetDNSDomainRecord =
        (\<lambda>_ _ recordID. case find (\<lambda>r. exo_ID r = Some recordID) zone of
                           Some r \<Rightarrow> Inr r
                         | None \<Rightarrow> Inl (Err ''record not found'' [])),
      SetLabel = (\<lambda>rc short origin.
                    rc\<lparr>Label := (if short = [] then ''@'' else short),
                       LabelFQDN := (if short = [] \<or> short = ''@'' then origin else short @ ''.'' @ origin)\<rparr>),
      SetTargetMX = (\<lambda>rc pref target. Inr (rc\<lparr>Type := ''MX'', MxPreference := pref, TargetField := target\<rparr>)),
      PopulateFromString = (\<lambda>rc rtype contents origin. Inr (rc\<lparr>Type := rtype, TargetField := contents\<rparr>))\<rparr>"

definition exo_native :: "string \<Rightarrow> string \<Rightarrow> string \<Rightarrow> string \<Rightarrow> exo_DNSDomainRecord" where
  "exo_native recordID ty name content =
     \<lparr>exo_ID = Some recordID, exo_Type = Some ty, exo_Content = Some content, exo_Name = Some name,
      exo_TTL = Some 300, exo_Priority = None\<rparr>"

definition example_exo :: exoscaleProvider where
  "example_exo = \<lparr>apiZone = ''ch-gva-2''\<rparr>"

definition ns_zone :: "exo_DNSDomainRecord list" where
  "ns_zone = [exo_native ''n1'' ''NS'' [] ''ns1.exoscale.ch'', exo_native ''a1'' ''A'' ''old'' ''1.2.3.4'']"

definition ns_desired :: "'o RecordConfig list" where
  "ns_desired = [rr ''NS'' ''@'' ''ns1.example.net.'' 300, rr ''NS'' ''sub'' ''ns.example.org.'' 300,
                 rr ''A'' ''www'' ''1.2.3.4'' 300]"

text \<open>
  A hosting.de zone and a Cloudflare zone that hold an apex NS record beside an
  address record.
\<close>

definition hd_ns_zone :: "unit RecordConfig list" where
  "hd_ns_zone = [rr ''NS'' ''@'' ''ns1.hosting.de.'' 300, rr ''A'' ''old'' ''1.2.3.4'' 300]"

definition cf_ns_zone :: "cf_record list" where
  "cf_ns_zone = [cf_rr ''NS'' ''@'' ''ns1.example.net.'' 300 ''r1'', cf_rr ''A'' ''www'' ''1.2.3.4'' 300 ''r2'']"

section \<open>Properties of hosting.de\<close>

lemma clampTTL_TTL:
  "TTL (clampTTL r) = (if TTL r < 60 then 60 else if TTL r > 31556926 then 31556926 else TTL r)"
  by (simp add: clampTTL_def Let_def)

lemma clampTTL_range: "60 \<le> TTL (clampTTL r) \<and> TTL (clampTTL r) \<le> 31556926"
  unfolding clampTTL_TTL by (auto simp: not_less word_le_nat_alt word_less_nat_alt)

lemma clampTTLs_list_all:
  "list_all (\<lambda>r. 60 \<le> TTL r \<and> TTL r \<le> 31556926) (Records (clampTTLs d))"
  using clampTTL_range by (auto simp: clampTTLs_def list_all_iff)

lemma clampTTL_rest: "(clampTTL r)\<lparr>TTL := 0\<rparr> = r\<lparr>TTL := 0\<rparr>"
  by (simp add: clampTTL_def Let_def)

text \<open>
  C9. In hosting.de's \<^verbatim>\<open>GetDomainCorrections\<close> the TTL loop runs before the diff and
  leaves every desired record with 60 \<open>\<le>\<close> TTL \<open>\<le>\<close> 31556926: a TTL below 60 (0 included)
  becomes 60, one above 31556926 becomes 31556926, any other is kept; nothing but the
  TTLs changes. The differ is called on exactly that clamped domain (with the fetched
  records), and the corrections returned are the ones made from its answer there.
\<close>

theorem hd_ttl_clamped:
  assumes "Punycode (hd_models hp) dc0 = (dc1, None)"
      and "hd_GetZoneRecords hp (Name dc1) = Inr records"
  shows "(\<forall>r \<in> set (Records (clampTTLs dc1)). 60 \<le> TTL r \<and> TTL r \<le> 31556926)
   \<and> map TTL (Records (clampTTLs dc1)) =
       map (\<lambda>r. if TTL r < 60 then 60 else if TTL r > 31556926 then 31556926 else TTL r) (Records dc1)
   \<and> map (\<lambda>r. r\<lparr>TTL := 0\<rparr>) (Records (clampTTLs dc1)) = map (\<lambda>r. r\<lparr>TTL := 0\<rparr>) (Records dc1)
   \<and> (clampTTLs dc1)\<lparr>Records := []\<rparr> = dc1\<lparr>Records := []\<rparr>
   \<and> hd_GetDomainCorrections hp dc0 =
       (case IncrementalDiff (hd_models hp) [] (clampTTLs dc1) records of
          Inl err \<Rightarrow> Inl err
        | Inr changes \<Rightarrow>
            hd_GetDomainCorrections
              (hp\<lparr>hd_models := (hd_models hp)\<lparr>IncrementalDiff := (\<lambda>extra d existing. Inr changes)\<rparr>\<rparr>) dc0)"
proof (intro conjI)
  show "\<forall>r \<in> set (Records (clampTTLs dc1)). 60 \<le> TTL r \<and> TTL r \<le> 31556926"
    using clampTTL_range by (auto simp: clampTTLs_def)
  show "map TTL (Records (clampTTLs dc1)) =
       map (\<lambda>r. if TTL r < 60 then 60 else if TTL r > 31556926 then 31556926 else TTL r) (Records dc1)"
    by (simp add: clampTTLs_def clampTTL_TTL)
  show "map (\<lambda>r. r\<lparr>TTL := 0\<rparr>) (Records (clampTTLs dc1)) = map (\<lambda>r. r\<lparr>TTL := 0\<rparr>) (Records dc1)"
    by (simp add: clampTTLs_def clampTTL_rest)
  show "(clampTTLs dc1)\<lparr>Records := []\<rparr> = dc1\<lparr>Records := []\<rparr>"
    by (simp add: clampTTLs_def)
  have n: "Name (clampTTLs dc1) = Name dc1"
    by (simp add: clampTTLs_def)
  have z: "hd_GetZoneRecords (hp\<lparr>hd_models := m\<rparr>) = hd_GetZoneRecords hp" for m
    by (intro ext) (simp add: hd_GetZoneRecords_def cong: sum.case_cong)
  show "hd_GetDomainCorrections hp dc0 =
       (case IncrementalDiff (hd_models hp) [] (clampTTLs dc1) records of
          Inl err \<Rightarrow> Inl err
        | Inr changes \<Rightarrow>
            hd_GetDomainCorrections
              (hp\<lparr>hd_models := (hd_models hp)\<lparr>IncrementalDiff := (\<lambda>extra d existing. Inr changes)\<rparr>\<rparr>) dc0)"
    using assms by (simp add: hd_GetDomainCorrections_def n z Let_def split: sum.splits)
qed

theorem hd_ttl_clamped_witness:
  "hd_GetDomainCorrections (example_hd [] [] None)
     (example_dc [rr ''A'' ''a'' ''1.2.3.4'' 0, rr ''A'' ''b'' ''1.2.3.4'' 59,
                  rr ''A'' ''c'' ''1.2.3.4'' 300, rr ''A'' ''d'' ''1.2.3.4'' 40000000] False)
   = Inr [\<lparr>Msg = newline @ ''CREATE A a 1.2.3.4'' @ newline @ ''CREATE A b 1.2.3.4'' @ newline
                  @ ''CREATE A c 1.2.3.4'' @ newline @ ''CREATE A d 1.2.3.4'',
           F = UpdateRecords ''example.com''
                 (map (\<lambda>r. \<lparr>Existing = None, Desired = Some r\<rparr>)
                    [rr ''A'' ''a'' ''1.2.3.4'' 60, rr ''A'' ''b'' ''1.2.3.4'' 60,
                     rr ''A'' ''c'' ''1.2.3.4'' 300, rr ''A'' ''d'' ''1.2.3.4'' 31556926]) [] []\<rparr>]
   \<and> map TTL (Records (clampTTLs (example_dc [rr ''A'' ''a'' ''1.2.3.4'' 0, rr ''A'' ''b'' ''1.2.3.4'' 59,
        rr ''A'' ''c'' ''1.2.3.4'' 300, rr ''A'' ''d'' ''1.2.3.4'' 40000000 :: unit RecordConfig] False)))
      = [60, 60, 300, 31556926]"
proof -
  let ?dc = "example_dc [rr ''A'' ''a'' ''1.2.3.4'' 0, rr ''A'' ''b'' ''1.2.3.4'' 59,
                  rr ''A'' ''c'' ''1.2.3.4'' 300, rr ''A'' ''d'' ''1.2.3.4'' 40000000 :: unit RecordConfig] False"
  let ?hp = "example_hd [] [] None"
  have p: "Punycode (hd_models ?hp) ?dc = (?dc, None)"
    by (simp add: example_hd_def example_models_def)
  have g: "hd_GetZoneRecords ?hp (Name ?dc) = Inr []"
    by (simp add: hd_GetZoneRecords_def example_hd_def)
  have c: "clampTTLs ?dc = example_dc [rr ''A'' ''a'' ''1.2.3.4'' 60, rr ''A'' ''b'' ''1.2.3.4'' 60,
                     rr ''A'' ''c'' ''1.2.3.4'' 300, rr ''A'' ''d'' ''1.2.3.4'' 31556926] False"
    by (simp add: clampTTLs_def clampTTL_def example_dc_def rr_def)
  have d: "IncrementalDiff (hd_models ?hp) [] (clampTTLs ?dc) [] =
      Inr ([], map (\<lambda>r. \<lparr>Existing = None, Desired = Some r\<rparr>)
                    [rr ''A'' ''a'' ''1.2.3.4'' 60, rr ''A'' ''b'' ''1.2.3.4'' 60,
                     rr ''A'' ''c'' ''1.2.3.4'' 300, rr ''A'' ''d'' ''1.2.3.4'' 31556926], [], [])"
    unfolding c by (simp add: example_hd_def example_models_def spec_Diff_def example_dc_def)
  have s: "map spec_String (map (\<lambda>r. \<lparr>Existing = None, Desired = Some r\<rparr>)
                    [rr ''A'' ''a'' ''1.2.3.4'' 60, rr ''A'' ''b'' ''1.2.3.4'' 60,
                     rr ''A'' ''c'' ''1.2.3.4'' 300, rr ''A'' ''d'' ''1.2.3.4'' 31556926 :: unit RecordConfig])
     = [''CREATE A a 1.2.3.4'', ''CREATE A b 1.2.3.4'', ''CREATE A c 1.2.3.4'', ''CREATE A d 1.2.3.4'']"
    by (simp add: spec_String_def rr_def)
  from hd_ttl_clamped [OF p g]
  have "hd_GetDomainCorrections ?hp ?dc =
        hd_GetDomainCorrections
          (?hp\<lparr>hd_models := (hd_models ?hp)\<lparr>IncrementalDiff := (\<lambda>extra d existing.
             Inr ([], map (\<lambda>r. \<lparr>Existing = None, Desired = Some r\<rparr>)
                    [rr ''A'' ''a'' ''1.2.3.4'' 60, rr ''A'' ''b'' ''1.2.3.4'' 60,
                     rr ''A'' ''c'' ''1.2.3.4'' 300, rr ''A'' ''d'' ''1.2.3.4'' 31556926], [], []))\<rparr>\<rparr>) ?dc"
    and t: "map TTL (Records (clampTTLs ?dc)) =
       map (\<lambda>r. if TTL r < 60 then 60 else if TTL r > 31556926 then 31556926 else TTL r) (Records ?dc)"
    by (simp_all add: d)
  moreover have "hd_GetDomainCorrections
          (?hp\<lparr>hd_models := (hd_models ?hp)\<lparr>IncrementalDiff := (\<lambda>extra d existing.
             Inr ([], map (\<lambda>r. \<lparr>Existing = None, Desired = Some r\<rparr>)
                    [rr ''A'' ''a'' ''1.2.3.4'' 60, rr ''A'' ''b'' ''1.2.3.4'' 60,
                     rr ''A'' ''c'' ''1.2.3.4'' 300, rr ''A'' ''d'' ''1.2.3.4'' 31556926], [], []))\<rparr>\<rparr>) ?dc
     = Inr [\<lparr>Msg = newline @ ''CREATE A a 1.2.3.4'' @ newline @ ''CREATE A b 1.2.3.4'' @ newline
                  @ ''CREATE A c 1.2.3.4'' @ newline @ ''CREATE A d 1.2.3.4'',
           F = UpdateRecords ''example.com''
                 (map (\<lambda>r. \<lparr>Existing = None, Desired = Some r\<rparr>)
                    [rr ''A'' ''a'' ''1.2.3.4'' 60, rr ''A'' ''b'' ''1.2.3.4'' 60,
                     rr ''A'' ''c'' ''1.2.3.4'' 300, rr ''A'' ''d'' ''1.2.3.4'' 31556926]) [] []\<rparr>]"
    using s by (simp add: hd_GetDomainCorrections_def hd_GetZoneRecords_def example_hd_def example_models_def
        example_dc_def clampTTLs_def Let_def)
  moreover have "map TTL (Records (clampTTLs ?dc)) = [60, 60, 300, 31556926]"
    unfolding t by (simp add: example_dc_def rr_def)
  ultimately show ?thesis by simp
qed

text \<open>
  C10. hosting.de's \<^verbatim>\<open>EnsureDomainExists\<close> returns nil when the zone-config lookup
  fails with an error other than \<^verbatim>\<open>errZoneNotFound\<close>: the error is dropped and no
  zone is created. \<^verbatim>\<open>createZone\<close> is called exactly when the lookup's error is
  \<^verbatim>\<open>errZoneNotFound\<close>.
\<close>

theorem hd_EnsureDomainExists_swallows:
  "(getZoneConfig hp domain = Some err \<and> err \<noteq> errZoneNotFound
      \<longrightarrow> hd_EnsureDomainExists hp domain = ([Call_getZoneConfig domain], None))
   \<and> (Call_createZone domain \<in> set (fst (hd_EnsureDomainExists hp domain))
      \<longleftrightarrow> getZoneConfig hp domain = Some errZoneNotFound)"
  by (auto simp: hd_EnsureDomainExists_def Let_def split: option.splits)

theorem hd_EnsureDomainExists_swallows_witness:
  "hd_EnsureDomainExists (example_hd [] [] (Some (Err ''HTTP 500'' []))) ''example.com''
     = ([Call_getZoneConfig ''example.com''], None)
   \<and> hd_EnsureDomainExists (example_hd [] [] (Some errZoneNotFound)) ''example.com''
     = ([Call_getZoneConfig ''example.com'', Call_createZone ''example.com''], None)"
  using hd_EnsureDomainExists_swallows [of "example_hd [] [] (Some (Err ''HTTP 500'' []))" "''example.com''" "Err ''HTTP 500'' []"]
  by (simp add: example_hd_def hd_EnsureDomainExists_def)

text \<open>
  C2. In hosting.de's \<^verbatim>\<open>GetDomainCorrections\<close>, when the zone's purge flag is off
  (\<^verbatim>\<open>KeepUnknown\<close>), whatever the differ reports, the correction carries no deletion:
  its action gets an empty delete list and its message lists creates and modifies
  only; with nothing to create or modify there is no correction at all. With the flag
  on and the differ reporting one deletion and nothing else (desired empty, one
  existing record), the result is one correction with exactly that deletion.
\<close>

theorem hd_no_purge_no_delete:
  assumes "Punycode (hd_models hp) dc0 = (dc1, None)"
    and "hd_GetZoneRecords hp (Name dc1) = Inr records"
    and "IncrementalDiff (hd_models hp) [] (clampTTLs dc1) records = Inr (unchanged, create, del, modify)"
  shows "(KeepUnknown dc1 \<longrightarrow>
            hd_GetDomainCorrections hp dc0 =
              Inr (if create = [] \<and> modify = [] then []
                   else [\<lparr>Msg = newline @ Join (map (CorrelationString (hd_models hp)) (create @ modify)) newline,
                          F = UpdateRecords (Name dc1) create [] modify\<rparr>]))
       \<and> (\<not> KeepUnknown dc1 \<and> create = [] \<and> modify = [] \<and> del = [d] \<longrightarrow>
            hd_GetDomainCorrections hp dc0 =
              Inr [\<lparr>Msg = newline @ CorrelationString (hd_models hp) d,
                    F = UpdateRecords (Name dc1) [] [d] []\<rparr>])"
  using assms by (simp add: hd_GetDomainCorrections_def clampTTLs_def Let_def)

theorem hd_no_purge_no_delete_witness:
  "hd_GetDomainCorrections (example_hd [rr ''A'' ''@'' ''1.2.3.4'' 300] [] None) (example_dc [] False)
     = Inr [\<lparr>Msg = newline @ ''DELETE A @ 1.2.3.4'',
             F = UpdateRecords ''example.com'' []
                   [\<lparr>Existing = Some (rr ''A'' ''@'' ''1.2.3.4'' 300), Desired = None\<rparr>] []\<rparr>]
   \<and> hd_GetDomainCorrections (example_hd [rr ''A'' ''@'' ''1.2.3.4'' 300] [] None) (example_dc [] True)
     = Inr []"
proof -
  let ?hp = "example_hd [rr ''A'' ''@'' ''1.2.3.4'' 300] [] None"
  let ?d = "\<lparr>Existing = Some (rr ''A'' ''@'' ''1.2.3.4'' 300 :: unit RecordConfig), Desired = None\<rparr>"
  have p: "Punycode (hd_models ?hp) (example_dc [] k) = (example_dc [] k, None)" for k
    by (simp add: example_hd_def example_models_def)
  have z: "hd_GetZoneRecords ?hp (Name (example_dc [] k :: unit DomainConfig)) = Inr [rr ''A'' ''@'' ''1.2.3.4'' 300]" for k
    by (simp add: hd_GetZoneRecords_def example_hd_def rr_def)
  have dF: "IncrementalDiff (hd_models ?hp) [] (clampTTLs (example_dc [] False)) [rr ''A'' ''@'' ''1.2.3.4'' 300]
              = Inr ([], [], [?d], [])"
    by (simp add: example_hd_def example_models_def spec_Diff_def clampTTLs_def example_dc_def)
  have dT: "IncrementalDiff (hd_models ?hp) [] (clampTTLs (example_dc [] True)) [rr ''A'' ''@'' ''1.2.3.4'' 300]
              = Inr ([], [], [], [])"
    by (simp add: example_hd_def example_models_def spec_Diff_def clampTTLs_def example_dc_def)
  have s: "CorrelationString (hd_models ?hp) ?d = ''DELETE A @ 1.2.3.4''"
    by (simp add: example_hd_def example_models_def spec_String_def rr_def)
  have n: "Name (example_dc [] k :: unit DomainConfig) = ''example.com''"
    "KeepUnknown (example_dc [] k :: unit DomainConfig) = k" for k
    by (simp_all add: example_dc_def)
  show ?thesis
    using hd_no_purge_no_delete [OF p z dF, of ?d] hd_no_purge_no_delete [OF p z dT, of ?d]
    by (simp add: s n)
qed

text \<open>
  C7, as the claim states it, fails on hosting.de: two operations (two records to
  create) come out as one Correction, whose message has a line for each and whose
  action applies both.
\<close>

theorem hd_bundles_changeset_counterexample:
  "hd_GetDomainCorrections (example_hd [] [] None)
       (example_dc [rr ''A'' ''www'' ''1.2.3.4'' 300, rr ''A'' ''mail'' ''1.2.3.5'' 300] False)
     = Inr [\<lparr>Msg = newline @ ''CREATE A www 1.2.3.4'' @ newline @ ''CREATE A mail 1.2.3.5'',
             F = UpdateRecords ''example.com''
                   [\<lparr>Existing = None, Desired = Some (rr ''A'' ''www'' ''1.2.3.4'' 300)\<rparr>,
                    \<lparr>Existing = None, Desired = Some (rr ''A'' ''mail'' ''1.2.3.5'' 300)\<rparr>] [] []\<rparr>]"
  by (simp add: hd_GetDomainCorrections_def hd_GetZoneRecords_def example_hd_def example_models_def
      spec_Diff_def spec_String_def clampTTLs_def clampTTL_def example_dc_def rr_def identity_key_def Let_def)

text \<open>
  C7, amended. hosting.de packages the whole changeset of a zone as one Correction:
  at most one Correction is returned, none exactly when there is nothing to create,
  delete (after the purge flag) or modify; its message is a line feed followed by the
  descriptions of the deletes, the creates and the modifies, in that order, one per
  line; its action is the single \<^verbatim>\<open>updateRecords\<close> call with all three changesets.
\<close>

theorem hd_one_correction_per_changeset:
  assumes "Punycode (hd_models hp) dc0 = (dc1, None)"
    and "hd_GetZoneRecords hp (Name dc1) = Inr records"
    and "IncrementalDiff (hd_models hp) [] (clampTTLs dc1) records = Inr (unchanged, create, del, modify)"
    and "purged = (if KeepUnknown dc1 then [] else del)"
  shows "\<exists>cs. hd_GetDomainCorrections hp dc0 = Inr cs \<and> length cs \<le> 1
           \<and> (cs = [] \<longleftrightarrow> create = [] \<and> purged = [] \<and> modify = [])
           \<and> (\<forall>c \<in> set cs.
                 Msg c = newline @ Join (map (CorrelationString (hd_models hp)) (purged @ create @ modify)) newline
                 \<and> F c = UpdateRecords (Name dc1) create purged modify)"
  using assms by (simp add: hd_GetDomainCorrections_def clampTTLs_def Let_def)

theorem hd_one_correction_per_changeset_witness:
  "hd_GetDomainCorrections
       (example_hd [rr ''A'' ''old'' ''1.1.1.1'' 300, rr ''A'' ''www'' ''1.2.3.4'' 300] [] None)
       (example_dc [rr ''A'' ''www'' ''1.2.3.4'' 600, rr ''A'' ''new'' ''2.2.2.2'' 300] False)
     = Inr [\<lparr>Msg = newline @ ''DELETE A old 1.1.1.1'' @ newline @ ''CREATE A new 2.2.2.2''
                    @ newline @ ''MODIFY A www 1.2.3.4'',
             F = UpdateRecords ''example.com''
                   [\<lparr>Existing = None, Desired = Some (rr ''A'' ''new'' ''2.2.2.2'' 300)\<rparr>]
                   [\<lparr>Existing = Some (rr ''A'' ''old'' ''1.1.1.1'' 300), Desired = None\<rparr>]
                   [\<lparr>Existing = Some (rr ''A'' ''www'' ''1.2.3.4'' 300),
                     Desired = Some (rr ''A'' ''www'' ''1.2.3.4'' 600)\<rparr>]\<rparr>]"
proof -
  let ?zone = "[rr ''A'' ''old'' ''1.1.1.1'' 300, rr ''A'' ''www'' ''1.2.3.4'' 300 :: unit RecordConfig]"
  let ?hp = "example_hd ?zone [] None"
  let ?dc = "example_dc [rr ''A'' ''www'' ''1.2.3.4'' 600, rr ''A'' ''new'' ''2.2.2.2'' 300 :: unit RecordConfig] False"
  let ?cre = "[\<lparr>Existing = None, Desired = Some (rr ''A'' ''new'' ''2.2.2.2'' 300 :: unit RecordConfig)\<rparr>]"
  let ?del = "[\<lparr>Existing = Some (rr ''A'' ''old'' ''1.1.1.1'' 300 :: unit RecordConfig), Desired = None\<rparr>]"
  let ?mod = "[\<lparr>Existing = Some (rr ''A'' ''www'' ''1.2.3.4'' 300 :: unit RecordConfig),
                 Desired = Some (rr ''A'' ''www'' ''1.2.3.4'' 600)\<rparr>]"
  have p: "Punycode (hd_models ?hp) ?dc = (?dc, None)"
    by (simp add: example_hd_def example_models_def)
  have z: "hd_GetZoneRecords ?hp (Name ?dc) = Inr ?zone"
    by (simp add: hd_GetZoneRecords_def example_hd_def rr_def)
  have d: "IncrementalDiff (hd_models ?hp) [] (clampTTLs ?dc) ?zone = Inr ([], ?cre, ?del, ?mod)"
    by (simp add: example_hd_def example_models_def spec_Diff_def clampTTLs_def clampTTL_def
        example_dc_def rr_def identity_key_def)
  have k: "?del = (if KeepUnknown ?dc then [] else ?del)"
    by (simp add: example_dc_def)
  from hd_one_correction_per_changeset [OF p z d k]
  obtain cs where cs: "hd_GetDomainCorrections ?hp ?dc = Inr cs" "length cs \<le> 1" "cs \<noteq> []"
    and all: "\<forall>c \<in> set cs.
                 Msg c = newline @ Join (map (CorrelationString (hd_models ?hp)) (?del @ ?cre @ ?mod)) newline
                 \<and> F c = UpdateRecords (Name ?dc) ?cre ?del ?mod"
    by auto
  from cs(2,3) obtain c where c: "cs = [c]"
    by (cases cs) auto
  have "Msg c = newline @ ''DELETE A old 1.1.1.1'' @ newline @ ''CREATE A new 2.2.2.2''
                    @ newline @ ''MODIFY A www 1.2.3.4''"
    using all c by (simp add: example_hd_def example_models_def spec_String_def rr_def)
  moreover have "F c = UpdateRecords ''example.com'' ?cre ?del ?mod"
    using all c by (simp add: example_dc_def)
  ultimately have "c = \<lparr>Msg = newline @ ''DELETE A old 1.1.1.1'' @ newline @ ''CREATE A new 2.2.2.2''
                    @ newline @ ''MODIFY A www 1.2.3.4'', F = UpdateRecords ''example.com'' ?cre ?del ?mod\<rparr>"
    by (cases c) simp
  then show ?thesis using cs(1) c by simp
qed

text \<open>
  hosting.de's \<^verbatim>\<open>GetRegistrarCorrections\<close> sorts the nameservers it found and
  the nameservers it expects before it compares and prints them: two calls whose
  inputs hold the same nameservers, in any order, return the same corrections (the
  same message, the same action), or the same error.
\<close>

lemma sort_cong_mset:
  fixes xs ys :: "'a::linorder list"
  assumes "mset xs = mset ys"
  shows "sort xs = sort ys"
  by (rule properties_for_sort) (simp_all add: assms)

lemma GetRegistrarCorrections_order_insensitive:
  assumes "Punycode (hd_models hp) dc = (d, None)"
    and "Punycode (hd_models hp') dc' = (d', None)"
    and "Name d' = Name d"
    and "mset (Nameservers d') = mset (Nameservers d)"
    and "getNameservers hp (Name d) = Inr found"
    and "getNameservers hp' (Name d) = Inr found'"
    and "mset found' = mset found"
  shows "GetRegistrarCorrections hp' dc' = GetRegistrarCorrections hp dc"
proof -
  have "mset (map NsName (Nameservers d')) = mset (map NsName (Nameservers d))"
    using assms(4) by (metis mset_map)
  then have e: "sort (map NsName (Nameservers d')) = sort (map NsName (Nameservers d))"
    by (rule sort_cong_mset)
  have f: "sort found' = sort found"
    using assms(7) by (rule sort_cong_mset)
  show ?thesis
    using assms(1,2,3,5,6) by (simp add: GetRegistrarCorrections_def e f Let_def)
qed

lemma GetRegistrarCorrections_order_insensitive_example:
  "GetRegistrarCorrections (example_hd [] [''ns1.hosting.de.'', ''ns2.hosting.de.''] None)
       (example_ns_dc [''ns0.example.net.'', ''ns1.example.net.''])
     = GetRegistrarCorrections (example_hd [] [''ns2.hosting.de.'', ''ns1.hosting.de.''] None)
       (example_ns_dc [''ns1.example.net.'', ''ns0.example.net.''])
   \<and> GetRegistrarCorrections (example_hd [] [''ns2.hosting.de.'', ''ns1.hosting.de.''] None)
       (example_ns_dc [''ns1.example.net.'', ''ns0.example.net.''])
     = Inr [\<lparr>Msg = ''Update nameservers ns1.hosting.de.,ns2.hosting.de. -> ns0.example.net.,ns1.example.net.'',
             F = UpdateNameservers [''ns0.example.net.'', ''ns1.example.net.''] ''example.com''\<rparr>]"
proof -
  let ?hp = "example_hd [] [''ns2.hosting.de.'', ''ns1.hosting.de.''] None"
  let ?hp' = "example_hd [] [''ns1.hosting.de.'', ''ns2.hosting.de.''] None"
  let ?dc = "example_ns_dc [''ns1.example.net.'', ''ns0.example.net.'']"
  let ?dc' = "example_ns_dc [''ns0.example.net.'', ''ns1.example.net.'']"
  have 1: "Punycode (hd_models ?hp) ?dc = (?dc, None)"
    by (simp add: example_hd_def example_models_def)
  have 2: "Punycode (hd_models ?hp') ?dc' = (?dc', None)"
    by (simp add: example_hd_def example_models_def)
  have 3: "Name ?dc' = Name ?dc"
    by (simp add: example_ns_dc_def)
  have 4: "mset (Nameservers ?dc') = mset (Nameservers ?dc)"
    by (simp add: example_ns_dc_def)
  have 5: "getNameservers ?hp (Name ?dc) = Inr [''ns2.hosting.de.'', ''ns1.hosting.de.'']"
    by (simp add: example_hd_def)
  have 6: "getNameservers ?hp' (Name ?dc) = Inr [''ns1.hosting.de.'', ''ns2.hosting.de.'']"
    by (simp add: example_hd_def)
  have 7: "mset [''ns1.hosting.de.'', ''ns2.hosting.de.''] = mset [''ns2.hosting.de.'', ''ns1.hosting.de.'']"
    by simp
  have v: "GetRegistrarCorrections ?hp ?dc
     = Inr [\<lparr>Msg = ''Update nameservers ns1.hosting.de.,ns2.hosting.de. -> ns0.example.net.,ns1.example.net.'',
             F = UpdateNameservers [''ns0.example.net.'', ''ns1.example.net.''] ''example.com''\<rparr>]"
    by (simp add: GetRegistrarCorrections_def example_hd_def example_models_def example_ns_dc_def example_dc_def)
  show ?thesis
    using GetRegistrarCorrections_order_insensitive [OF 1 2 3 4 5 6 7] v by simp
qed

section \<open>Properties of Cloudflare\<close>

lemma mapE_Inr_mem:
  "mapE f xs = Inr ys \<Longrightarrow> x \<in> set xs \<Longrightarrow> \<exists>y. f x = Inr y \<and> y \<in> set ys"
  by (induction xs arbitrary: ys) (auto split: sum.splits)

lemma delete_loop_blocks:
  "delete_loop api zid del acc = Inr cs \<Longrightarrow>
   \<exists>dsD otherD.
      mapE (delete_correction api zid) (filter (\<lambda>d. deleted_type d = Some ''DS'') del) = Inr dsD
    \<and> mapE (delete_correction api zid) (filter (\<lambda>d. deleted_type d \<noteq> Some ''DS'') del) = Inr otherD
    \<and> cs = rev dsD @ acc @ otherD"
proof (induction del arbitrary: acc cs)
  case Nil
  then show ?case by simp
next
  case (Cons d del)
  show ?case
  proof (cases "Existing d")
    case None
    with Cons.prems show ?thesis by simp
  next
    case (Some ex)
    consider (pr) "Type ex = ''PAGE_RULE''" | (wr) "Type ex \<noteq> ''PAGE_RULE''" "Type ex = ''WORKER_ROUTE''"
      | (dns) "Type ex \<noteq> ''PAGE_RULE''" "Type ex \<noteq> ''WORKER_ROUTE''"
      by blast
    then show ?thesis
    proof cases
      case pr
      with Some Cons.prems Cons.IH [of "acc @ [\<lparr>Msg = CorrelationString (cf_models api) d, F = deletePageRule ex zid\<rparr>]" cs]
      show ?thesis
        by (auto simp: delete_correction_def deleted_type_def)
    next
      case wr
      with Some Cons.prems Cons.IH [of "acc @ [\<lparr>Msg = CorrelationString (cf_models api) d, F = deleteWorkerRoute ex zid\<rparr>]" cs]
      show ?thesis
        by (auto simp: delete_correction_def deleted_type_def)
    next
      case dns
      then obtain orig where o: "Original ex = Some (DNSRecord orig)"
        using Some Cons.prems by (auto split: option.splits cf_original.splits)
      show ?thesis
      proof (cases "Type ex = ''DS''")
        case True
        with dns Some o Cons.prems Cons.IH [of "deleteRec api orig zid # acc" cs]
        show ?thesis
          by (auto simp: delete_correction_def deleted_type_def)
      next
        case False
        with dns Some o Cons.prems Cons.IH [of "acc @ [deleteRec api orig zid]" cs]
        show ?thesis
          by (auto simp: delete_correction_def deleted_type_def)
      qed
    qed
  qed
qed

lemma create_loop_blocks:
  "create_loop api zid create acc = Inr cs \<Longrightarrow>
   \<exists>nsC otherC.
      mapE (create_corrections api zid) (filter (\<lambda>d. created_type d = Some ''NS'') create) = Inr nsC
    \<and> mapE (create_corrections api zid) (filter (\<lambda>d. created_type d \<noteq> Some ''NS'') create) = Inr otherC
    \<and> cs = concat (rev nsC) @ acc @ concat otherC"
proof (induction create arbitrary: acc cs)
  case Nil
  then show ?case by simp
next
  case (Cons d create)
  show ?case
  proof (cases "Desired d")
    case None
    with Cons.prems show ?thesis by simp
  next
    case (Some des)
    consider (pr) "Type des = ''PAGE_RULE''" | (wr) "Type des \<noteq> ''PAGE_RULE''" "Type des = ''WORKER_ROUTE''"
      | (ns) "Type des = ''NS''"
      | (dns) "Type des \<noteq> ''PAGE_RULE''" "Type des \<noteq> ''WORKER_ROUTE''" "Type des \<noteq> ''NS''"
      by blast
    then show ?thesis
    proof cases
      case pr
      with Some Cons.prems Cons.IH [of "acc @ [\<lparr>Msg = CorrelationString (cf_models api) d, F = createPageRule zid des\<rparr>]" cs]
      show ?thesis
        by (auto simp: create_corrections_def created_type_def)
    next
      case wr
      with Some Cons.prems Cons.IH [of "acc @ [\<lparr>Msg = CorrelationString (cf_models api) d, F = createWorkerRoute zid des\<rparr>]" cs]
      show ?thesis
        by (auto simp: create_corrections_def created_type_def)
    next
      case ns
      with Some Cons.prems Cons.IH [of "createRec api des zid @ acc" cs]
      show ?thesis
        by (auto simp: create_corrections_def created_type_def)
    next
      case dns
      with Some Cons.prems Cons.IH [of "acc @ createRec api des zid" cs]
      show ?thesis
        by (auto simp: create_corrections_def created_type_def)
    qed
  qed
qed

lemma modify_loop_blocks:
  "modify_loop api zid modify acc = Inr cs \<Longrightarrow>
   \<exists>ms. mapE (modify_correction api zid) modify = Inr ms \<and> cs = acc @ ms"
proof (induction modify arbitrary: acc cs)
  case Nil
  then show ?case by simp
next
  case (Cons d modify)
  show ?case
  proof (cases "Desired d")
    case None
    with Cons.prems show ?thesis by simp
  next
    case (Some r)
    consider (pr) "Type r = ''PAGE_RULE''" | (wr) "Type r \<noteq> ''PAGE_RULE''" "Type r = ''WORKER_ROUTE''"
      | (dns) "Type r \<noteq> ''PAGE_RULE''" "Type r \<noteq> ''WORKER_ROUTE''"
      by blast
    then show ?thesis
    proof cases
      case pr
      with Some Cons.prems Cons.IH [of "acc @ [\<lparr>Msg = CorrelationString (cf_models api) d, F = updatePageRule (Existing d) zid r\<rparr>]" cs]
      show ?thesis
        by (auto simp: modify_correction_def)
    next
      case wr
      with Some Cons.prems Cons.IH [of "acc @ [\<lparr>Msg = CorrelationString (cf_models api) d, F = updateWorkerRoute (Existing d) zid r\<rparr>]" cs]
      show ?thesis
        by (auto simp: modify_correction_def)
    next
      case dns
      then obtain ex e where o: "Existing d = Some ex" "Original ex = Some (DNSRecord e)"
        using Some Cons.prems by (auto split: option.splits cf_original.splits)
      with dns Some Cons.prems
        Cons.IH [of "acc @ [\<lparr>Msg = CorrelationString (cf_models api) d,
                              F = modifyRecord zid (ID e) (Proxiable e \<and> meta_get (Metadata r) metaProxy \<noteq> ''off'') r\<rparr>]" cs]
      show ?thesis
        by (auto simp: modify_correction_def)
    qed
  qed
qed

lemma cf_sequence_blocks:
  assumes "cf_sequence api zid dc create del modify = Inr cs"
  shows "\<exists>nsC dsD otherD otherC ms.
           mapE (create_corrections api zid) (filter (\<lambda>d. created_type d = Some ''NS'') create) = Inr nsC
         \<and> mapE (delete_correction api zid) (filter (\<lambda>d. deleted_type d = Some ''DS'') del) = Inr dsD
         \<and> mapE (delete_correction api zid) (filter (\<lambda>d. deleted_type d \<noteq> Some ''DS'') del) = Inr otherD
         \<and> mapE (create_corrections api zid) (filter (\<lambda>d. created_type d \<noteq> Some ''NS'') create) = Inr otherC
         \<and> mapE (modify_correction api zid) modify = Inr ms
         \<and> cs = concat (rev nsC) @ rev dsD @ otherD @ concat otherC @ ms @ universalSSL_corrections api dc zid"
proof -
  from assms obtain c1 c2 c3 where
    l: "delete_loop api zid del [] = Inr c1" "create_loop api zid create c1 = Inr c2"
       "modify_loop api zid modify c2 = Inr c3"
    and cs: "cs = c3 @ universalSSL_corrections api dc zid"
    by (auto simp: cf_sequence_def universalSSL_corrections_def split: sum.splits prod.splits bool.splits)
  from delete_loop_blocks [OF l(1)] create_loop_blocks [OF l(2)] modify_loop_blocks [OF l(3)] cs
  show ?thesis by auto
qed

lemma occurs_before:
  assumes "x \<in> set B" and "y \<in> set D"
  shows "\<exists>i j. i < j \<and> j < length (A @ B @ C @ D @ E) \<and> (A @ B @ C @ D @ E) ! i = x \<and> (A @ B @ C @ D @ E) ! j = y"
proof -
  from assms obtain i0 j0 where i0: "i0 < length B" "B ! i0 = x" and j0: "j0 < length D" "D ! j0 = y"
    by (auto simp: in_set_conv_nth)
  let ?i = "length A + i0" and ?j = "length A + length B + length C + j0"
  have "?i < ?j" using i0 by simp
  moreover have "?j < length (A @ B @ C @ D @ E)" using j0 by simp
  moreover have "(A @ B @ C @ D @ E) ! ?i = x" using i0 by (simp add: nth_append)
  moreover have "(A @ B @ C @ D @ E) ! ?j = y" using j0 by (simp add: nth_append)
  ultimately show ?thesis by blast
qed

text \<open>
  C1. In the list of corrections that Cloudflare's \<^verbatim>\<open>GetDomainCorrections\<close> returns,
  the correction that deletes a DS record stands before the correction that deletes
  an NS record, and every correction that creates an NS record stands before every
  correction that creates a DS record; this holds for any two such records, at the
  same label or not. (\<open>cf_sequence_blocks\<close> gives the whole order: NS creations, DS
  deletions, the other deletions, the other creations, modifications, Universal SSL.)
\<close>

theorem cf_ds_ns_order:
  assumes "cf_prepare api c dc0 = Inr (zid, dc, records)"
    and "IncrementalDiff (cf_models api) [getProxyMetadata] dc records = Inr (unchanged, create, del, modify)"
    and "cf_GetDomainCorrections api c dc0 = Inr cs"
  shows "(\<forall>d1 \<in> set del. \<forall>d2 \<in> set del. deleted_type d1 = Some ''DS'' \<and> deleted_type d2 = Some ''NS'' \<longrightarrow>
            (\<exists>c1 c2 i j. delete_correction api zid d1 = Inr c1 \<and> delete_correction api zid d2 = Inr c2
               \<and> i < j \<and> j < length cs \<and> cs ! i = c1 \<and> cs ! j = c2))
       \<and> (\<forall>d1 \<in> set create. \<forall>d2 \<in> set create. created_type d1 = Some ''NS'' \<and> created_type d2 = Some ''DS'' \<longrightarrow>
            (\<exists>cs1 cs2. create_corrections api zid d1 = Inr cs1 \<and> create_corrections api zid d2 = Inr cs2
               \<and> (\<forall>x \<in> set cs1. \<forall>y \<in> set cs2. \<exists>i j. i < j \<and> j < length cs \<and> cs ! i = x \<and> cs ! j = y)))"
proof -
  from assms have "cf_sequence api zid dc create del modify = Inr cs"
    by (simp add: cf_GetDomainCorrections_def)
  from cf_sequence_blocks [OF this] obtain nsC dsD otherD otherC ms where
    b: "mapE (create_corrections api zid) (filter (\<lambda>d. created_type d = Some ''NS'') create) = Inr nsC"
       "mapE (delete_correction api zid) (filter (\<lambda>d. deleted_type d = Some ''DS'') del) = Inr dsD"
       "mapE (delete_correction api zid) (filter (\<lambda>d. deleted_type d \<noteq> Some ''DS'') del) = Inr otherD"
       "mapE (create_corrections api zid) (filter (\<lambda>d. created_type d \<noteq> Some ''NS'') create) = Inr otherC"
    and cs: "cs = concat (rev nsC) @ rev dsD @ otherD @ concat otherC @ ms @ universalSSL_corrections api dc zid"
    by blast
  have del: "\<exists>c1 c2 i j. delete_correction api zid d1 = Inr c1 \<and> delete_correction api zid d2 = Inr c2
               \<and> i < j \<and> j < length cs \<and> cs ! i = c1 \<and> cs ! j = c2"
    if "d1 \<in> set del" "d2 \<in> set del" "deleted_type d1 = Some ''DS''" "deleted_type d2 = Some ''NS''" for d1 d2
  proof -
    from that obtain c1 where c1: "delete_correction api zid d1 = Inr c1" "c1 \<in> set (rev dsD)"
      using mapE_Inr_mem [OF b(2), of d1] by auto
    from that obtain c2 where c2: "delete_correction api zid d2 = Inr c2" "c2 \<in> set otherD"
      using mapE_Inr_mem [OF b(3), of d2] by auto
    have "cs = concat (rev nsC) @ rev dsD @ [] @ otherD @ (concat otherC @ ms @ universalSSL_corrections api dc zid)"
      using cs by simp
    with occurs_before [OF c1(2) c2(2), of "concat (rev nsC)" "[]" "concat otherC @ ms @ universalSSL_corrections api dc zid"]
    show ?thesis using c1(1) c2(1) by auto
  qed
  have cre: "\<exists>cs1 cs2. create_corrections api zid d1 = Inr cs1 \<and> create_corrections api zid d2 = Inr cs2
               \<and> (\<forall>x \<in> set cs1. \<forall>y \<in> set cs2. \<exists>i j. i < j \<and> j < length cs \<and> cs ! i = x \<and> cs ! j = y)"
    if "d1 \<in> set create" "d2 \<in> set create" "created_type d1 = Some ''NS''" "created_type d2 = Some ''DS''" for d1 d2
  proof -
    from that obtain cs1 where c1: "create_corrections api zid d1 = Inr cs1" "cs1 \<in> set nsC"
      using mapE_Inr_mem [OF b(1), of d1] by auto
    from that obtain cs2 where c2: "create_corrections api zid d2 = Inr cs2" "cs2 \<in> set otherC"
      using mapE_Inr_mem [OF b(4), of d2] by auto
    have e: "cs = [] @ concat (rev nsC) @ (rev dsD @ otherD) @ concat otherC @ (ms @ universalSSL_corrections api dc zid)"
      using cs by simp
    have "\<exists>i j. i < j \<and> j < length cs \<and> cs ! i = x \<and> cs ! j = y" if "x \<in> set cs1" "y \<in> set cs2" for x y
    proof -
      have "x \<in> set (concat (rev nsC))" "y \<in> set (concat otherC)"
        using that c1(2) c2(2) by auto
      from occurs_before [OF this, of "[]" "rev dsD @ otherD" "ms @ universalSSL_corrections api dc zid"] e
      show ?thesis by simp
    qed
    with c1(1) c2(1) show ?thesis by blast
  qed
  from del cre show ?thesis by blast
qed

lemma delegation_prepare: "cf_prepare (example_cf_api delegation_zone) (example_cf []) (example_dc delegation_desired False)
   = Inr (''zone1'', example_dc (map prepared delegation_desired) False, delegation_zone)"
  by (simp add: cf_prepare_def example_cf_api_def example_cf_def example_dc_def example_models_def
      getDomainID_def preprocessConfig_def preprocess_record_def preprocess_ttl_def preprocess_proxy_def
      preprocess_redirect_def preprocess_worker_def convert_ip_def force_desired_def
      checkNSModifications_def meta_get_def meta_set_def metaProxy_def metaProxyDefault_def metaUniversalSSL_def
      delegation_zone_def delegation_desired_def cf_rr_def rr_def prepared_def example_trim_def HasSuffix_def Let_def)

lemmas example_defs = example_cf_api_def example_cf_def example_dc_def example_models_def
      delegation_zone_def delegation_desired_def cf_rr_def rr_def prepared_def

theorem cf_ds_ns_order_witness:
  "cf_GetDomainCorrections (example_cf_api delegation_zone) (example_cf []) (example_dc delegation_desired False)
     = Inr [\<lparr>Msg = ''CREATE record: new NS'', F = CreateDNSRecord ''zone1'' (prepared (rr ''NS'' ''new'' ''ns1.example.net.'' 300))\<rparr>,
            \<lparr>Msg = ''DELETE record: sub.example.com'', F = DeleteDNSRecord ''zone1'' ''r2''\<rparr>,
            \<lparr>Msg = ''DELETE record: sub.example.com'', F = DeleteDNSRecord ''zone1'' ''r1''\<rparr>,
            \<lparr>Msg = ''CREATE record: new DS'', F = CreateDNSRecord ''zone1'' (prepared (rr ''DS'' ''new'' ''2371 13 2 ABCD'' 300))\<rparr>]
   \<and> (\<exists>cs i j. cf_GetDomainCorrections (example_cf_api delegation_zone) (example_cf []) (example_dc delegation_desired False) = Inr cs
         \<and> i < j \<and> j < length cs
         \<and> cs ! i = \<lparr>Msg = ''DELETE record: sub.example.com'', F = DeleteDNSRecord ''zone1'' ''r2''\<rparr>
         \<and> cs ! j = \<lparr>Msg = ''DELETE record: sub.example.com'', F = DeleteDNSRecord ''zone1'' ''r1''\<rparr>)
   \<and> (\<exists>cs i j. cf_GetDomainCorrections (example_cf_api delegation_zone) (example_cf []) (example_dc delegation_desired False) = Inr cs
         \<and> i < j \<and> j < length cs
         \<and> cs ! i = \<lparr>Msg = ''CREATE record: new NS'', F = CreateDNSRecord ''zone1'' (prepared (rr ''NS'' ''new'' ''ns1.example.net.'' 300))\<rparr>
         \<and> cs ! j = \<lparr>Msg = ''CREATE record: new DS'', F = CreateDNSRecord ''zone1'' (prepared (rr ''DS'' ''new'' ''2371 13 2 ABCD'' 300))\<rparr>)"
proof -
  let ?api = "example_cf_api delegation_zone" and ?c = "example_cf []" and ?orig = "example_dc delegation_desired False"
  let ?dc = "example_dc (map prepared delegation_desired) False"
  let ?dNS = "\<lparr>Existing = Some (cf_rr ''NS'' ''sub'' ''ns1.example.net.'' 300 ''r1''), Desired = None\<rparr>"
  let ?dDS = "\<lparr>Existing = Some (cf_rr ''DS'' ''sub'' ''2371 13 2 ABCD'' 300 ''r2''), Desired = None\<rparr>"
  let ?cDS = "\<lparr>Existing = None, Desired = Some (prepared (rr ''DS'' ''new'' ''2371 13 2 ABCD'' 300))\<rparr>"
  let ?cNS = "\<lparr>Existing = None, Desired = Some (prepared (rr ''NS'' ''new'' ''ns1.example.net.'' 300))\<rparr>"
  let ?out = "[\<lparr>Msg = ''CREATE record: new NS'', F = CreateDNSRecord ''zone1'' (prepared (rr ''NS'' ''new'' ''ns1.example.net.'' 300))\<rparr>,
            \<lparr>Msg = ''DELETE record: sub.example.com'', F = DeleteDNSRecord ''zone1'' ''r2''\<rparr>,
            \<lparr>Msg = ''DELETE record: sub.example.com'', F = DeleteDNSRecord ''zone1'' ''r1''\<rparr>,
            \<lparr>Msg = ''CREATE record: new DS'', F = CreateDNSRecord ''zone1'' (prepared (rr ''DS'' ''new'' ''2371 13 2 ABCD'' 300))\<rparr>]"
  have d: "IncrementalDiff (cf_models ?api) [getProxyMetadata] ?dc delegation_zone = Inr ([], [?cDS, ?cNS], [?dNS, ?dDS], [])"
    by (simp add: example_defs spec_Diff_def identity_key_def)
  have seq: "cf_sequence ?api ''zone1'' ?dc [?cDS, ?cNS] [?dNS, ?dDS] [] = Inr ?out"
    by (simp add: cf_sequence_def checkUniversalSSL_def meta_get_def example_defs)
  have full: "cf_GetDomainCorrections ?api ?c ?orig = Inr ?out"
    by (simp add: cf_GetDomainCorrections_def delegation_prepare d seq)
  note t = cf_ds_ns_order [OF delegation_prepare d full]
  from t [THEN conjunct1, rule_format, of ?dDS ?dNS]
  have 1: "\<exists>i j. i < j \<and> j < length ?out
         \<and> ?out ! i = \<lparr>Msg = ''DELETE record: sub.example.com'', F = DeleteDNSRecord ''zone1'' ''r2''\<rparr>
         \<and> ?out ! j = \<lparr>Msg = ''DELETE record: sub.example.com'', F = DeleteDNSRecord ''zone1'' ''r1''\<rparr>"
    by (simp add: deleted_type_def delete_correction_def example_defs)
  from t [THEN conjunct2, rule_format, of ?cNS ?cDS]
  have 2: "\<exists>i j. i < j \<and> j < length ?out
         \<and> ?out ! i = \<lparr>Msg = ''CREATE record: new NS'', F = CreateDNSRecord ''zone1'' (prepared (rr ''NS'' ''new'' ''ns1.example.net.'' 300))\<rparr>
         \<and> ?out ! j = \<lparr>Msg = ''CREATE record: new DS'', F = CreateDNSRecord ''zone1'' (prepared (rr ''DS'' ''new'' ''2371 13 2 ABCD'' 300))\<rparr>"
    by (simp add: created_type_def create_corrections_def example_defs)
  from full 1 2 show ?thesis by blast
qed

lemma preprocess_ttl_kept: "kept r (preprocess_ttl r)"
  by (simp add: preprocess_ttl_def kept_def Let_def)

lemma preprocess_proxy_kept: "preprocess_proxy api defProxy r = Inr r' \<Longrightarrow> kept r r'"
  by (auto simp: preprocess_proxy_def kept_def Let_def split: if_splits sum.splits)

lemma preprocess_redirect_kept: "preprocess_redirect c n r = Inr (r', n') \<Longrightarrow> kept r r'"
  by (auto simp: preprocess_redirect_def kept_def Let_def split: if_splits)

lemma preprocess_worker_kept: "preprocess_worker r = Inr r' \<Longrightarrow> kept r r'"
  by (auto simp: preprocess_worker_def kept_def split: if_splits)

lemma kept_trans: "kept a b \<Longrightarrow> kept b c \<Longrightarrow> kept a c"
  by (auto simp: kept_def)

lemma preprocess_record_kept:
  assumes "preprocess_record api c defProxy n r = Inr (r', n')"
  shows "kept r r'"
proof -
  from assms obtain r1 r2 where
    "preprocess_proxy api defProxy (preprocess_ttl r) = Inr r1"
    "preprocess_redirect c n r1 = Inr (r2, n')"
    "preprocess_worker r2 = Inr r'"
    by (auto simp: preprocess_record_def split: sum.splits prod.splits)
  then show ?thesis
    using preprocess_ttl_kept [of r] preprocess_proxy_kept preprocess_redirect_kept preprocess_worker_kept
    by (blast intro: kept_trans)
qed

lemma preprocess_loop_kept:
  "preprocess_loop api c defProxy rs = Inr (rs', n) \<Longrightarrow> list_all2 kept rs rs'"
  by (induction rs arbitrary: rs' n) (auto split: sum.splits prod.splits dest: preprocess_record_kept)

lemma convert_ip_kept: "convert_ip api c r = Inr r' \<Longrightarrow> kept r r'"
  unfolding convert_ip_def kept_def
  by (auto split: if_splits sum.splits option.splits)

lemma mapE_list_all2:
  "mapE f xs = Inr ys \<Longrightarrow> (\<And>x y. f x = Inr y \<Longrightarrow> P x y) \<Longrightarrow> list_all2 P xs ys"
  by (induction xs arbitrary: ys) (auto split: sum.splits)

lemma list_all2_kept_trans: "list_all2 kept xs ys \<Longrightarrow> list_all2 kept ys zs \<Longrightarrow> list_all2 kept xs zs"
  by (rule list_all2_trans [of kept kept kept]) (auto intro: kept_trans)

lemma preprocessConfig_kept:
  assumes "preprocessConfig api c dc1 = Inr dc2"
  shows "list_all2 kept (Records dc1) (Records dc2) \<and> Name dc2 = Name dc1"
proof -
  from assms obtain defProxy rs n rs' where
    l: "preprocess_loop api c defProxy (Records dc1) = Inr (rs, n)"
    and m: "mapE (convert_ip api c) rs = Inr rs'" and d: "dc2 = dc1\<lparr>Records := rs'\<rparr>"
    by (auto simp: preprocessConfig_def Let_def split: sum.splits if_splits prod.splits)
  from mapE_list_all2 [OF m, of kept] have "list_all2 kept rs rs'"
    by (auto dest: convert_ip_kept)
  with preprocess_loop_kept [OF l] d show ?thesis
    by (auto intro: list_all2_kept_trans)
qed

lemma force_desired_kept: "force_desired c r = Inr r' \<Longrightarrow> kept r r' \<and> \<not> labelMatches (Label r) (ignoredLabels c)"
  unfolding force_desired_def Let_def kept_def
  by (auto split: if_splits)

lemma force_desired_Inl:
  "force_desired c r = Inl err \<Longrightarrow>
     labelMatches (Label r) (ignoredLabels c)
     \<and> err = Fatal ''FATAL: dnsconfig contains label that matches ignored_labels: %#v is in %v)'' (Label r # ignoredLabels c)"
  unfolding force_desired_def Let_def
  by (auto split: if_splits)

lemma force_desired_fatal:
  assumes "r \<in> set rs" and "labelMatches (Label r) (ignoredLabels c)"
  shows "\<exists>label. labelMatches label (ignoredLabels c)
          \<and> mapE (force_desired c) rs =
              Inl (Fatal ''FATAL: dnsconfig contains label that matches ignored_labels: %#v is in %v)'' (label # ignoredLabels c))"
  using assms
proof (induction rs)
  case Nil
  then show ?case by simp
next
  case (Cons a rs)
  show ?case
  proof (cases "force_desired c a")
    case (Inl err)
    from force_desired_Inl [OF this] Inl show ?thesis by auto
  next
    case (Inr a')
    with force_desired_kept [OF this] Cons.prems have "r \<in> set rs" by auto
    from Cons.IH [OF this Cons.prems(2)] Inr show ?thesis by auto
  qed
qed

lemma list_all2_kept_label:
  "list_all2 kept rs rs' \<Longrightarrow> r \<in> set rs \<Longrightarrow> \<exists>r' \<in> set rs'. Label r' = Label r"
proof -
  assume a: "list_all2 kept rs rs'" and "r \<in> set rs"
  then obtain i where i: "i < length rs" "rs ! i = r"
    by (auto simp: in_set_conv_nth)
  with a have "kept r (rs' ! i)" "i < length rs'"
    by (auto simp: list_all2_conv_all_nth)
  then show ?thesis
    by (auto simp: kept_def intro!: bexI [of _ "rs' ! i"])
qed

lemma cf_prepare_Inr:
  assumes "cf_prepare api c dc0 = Inr (zid, dc, records)"
  shows "\<exists>dc1 dc2 records0 records1 rs extra.
    Punycode (cf_models api) dc0 = (dc1, None)
    \<and> getDomainID api c (Name dc1) = Inr zid
    \<and> getRecordsForDomain api zid (Name dc1) = Inr records0
    \<and> preprocessConfig api c dc1 = Inr dc2
    \<and> drop_ignored api c (Name dc2) (length records0) records0 = Inr records1
    \<and> mapE (force_desired c) (Records dc2) = Inr rs
    \<and> dc = checkNSModifications (dc2\<lparr>Records := rs\<rparr>)
    \<and> records = PostProcessRecords (cf_models api) (records1 @ extra)"
proof -
  obtain dc1 perr where p: "Punycode (cf_models api) dc0 = (dc1, perr)"
    by (cases "Punycode (cf_models api) dc0")
  with assms have perr: "perr = None"
    by (cases perr) (simp_all add: cf_prepare_def)
  note a = assms [unfolded cf_prepare_def p perr, simplified]
  from a obtain zid' where z: "getDomainID api c (Name dc1) = Inr zid'"
    by (cases "getDomainID api c (Name dc1)") simp_all
  note a = a [unfolded z, simplified]
  from a obtain records0 where r0: "getRecordsForDomain api zid' (Name dc1) = Inr records0"
    by (cases "getRecordsForDomain api zid' (Name dc1)") simp_all
  note a = a [unfolded r0, simplified]
  from a obtain dc2 where d2: "preprocessConfig api c dc1 = Inr dc2"
    by (cases "preprocessConfig api c dc1") simp_all
  note a = a [unfolded d2, simplified]
  from a obtain records1 where r1: "drop_ignored api c (Name dc2) (length records0) records0 = Inr records1"
    by (cases "drop_ignored api c (Name dc2) (length records0) records0") simp_all
  note a = a [unfolded r1, simplified]
  let ?pr = "if manageRedirects c
            then (case getPageRules api zid' (Name dc2) of
                    Inl err \<Rightarrow> Inl err
                  | Inr prs \<Rightarrow> Inr (records1 @ prs))
            else Inr records1"
  from a obtain records2 where r2: "?pr = Inr records2"
    by (cases ?pr) simp_all
  then obtain e1 where e1: "records2 = records1 @ e1"
    by (auto split: if_splits sum.splits)
  note a = a [unfolded r2, simplified]
  let ?wr = "if manageWorkers c
            then (case getWorkerRoutes api zid' (Name dc2) of
                    Inl err \<Rightarrow> Inl err
                  | Inr wrs \<Rightarrow> Inr (records2 @ wrs))
            else Inr records2"
  from a obtain records3 where r3: "?wr = Inr records3"
    by (cases ?wr) simp_all
  then obtain e2 where e2: "records3 = records2 @ e2"
    by (auto split: if_splits sum.splits)
  note a = a [unfolded r3, simplified]
  from a obtain rs where rs: "mapE (force_desired c) (Records dc2) = Inr rs"
    by (cases "mapE (force_desired c) (Records dc2)") simp_all
  note a = a [unfolded rs, simplified]
  from a p perr z r0 d2 r1 rs e1 e2 show ?thesis
    by auto
qed

lemma drop_ignored_eq:
  "i \<le> length records \<Longrightarrow>
   drop_ignored api c zone i records =
     (if \<forall>r \<in> set (take i records). is_DNSRecord r
      then Inr (filter (\<lambda>r. \<not> ignored_record api c zone r) (take i records) @ drop i records)
      else Inl (Panic ''interface conversion: not a cloudflare.DNSRecord''))"
proof (induction i arbitrary: records)
  case 0
  then show ?case by simp
next
  case (Suc i)
  then have lt: "i < length records" by simp
  have t: "take (Suc i) records = take i records @ [records ! i]"
    using lt by (simp add: take_Suc_conv_app_nth)
  have d: "drop i records = records ! i # drop (Suc i) records"
    using lt by (simp add: Cons_nth_drop_Suc)
  show ?case
  proof (cases "is_DNSRecord (records ! i)")
    case False
    then have "drop_ignored api c zone (Suc i) records = Inl (Panic ''interface conversion: not a cloudflare.DNSRecord'')"
      using lt by (auto simp: is_DNSRecord_def split: option.splits cf_original.splits)
    with False t show ?thesis by auto
  next
    case True
    then obtain orig where o: "Original (records ! i) = Some (DNSRecord orig)"
      by (auto simp: is_DNSRecord_def split: option.splits cf_original.splits)
    show ?thesis
    proof (cases "ignored_record api c zone (records ! i)")
      case ign: True
      let ?rs = "take i records @ drop (Suc i) records"
      have le: "i \<le> length ?rs" using lt by simp
      have "drop_ignored api c zone (Suc i) records = drop_ignored api c zone i ?rs"
        using lt o ign by (simp add: ignored_record_def)
      also have "\<dots> = (if \<forall>r \<in> set (take i ?rs). is_DNSRecord r
                      then Inr (filter (\<lambda>r. \<not> ignored_record api c zone r) (take i ?rs) @ drop i ?rs)
                      else Inl (Panic ''interface conversion: not a cloudflare.DNSRecord''))"
        by (rule Suc.IH [OF le])
      also have "take i ?rs = take i records" using lt by simp
      also have "drop i ?rs = drop (Suc i) records" using lt by simp
      finally show ?thesis using True ign t by simp
    next
      case nign: False
      have "drop_ignored api c zone (Suc i) records = drop_ignored api c zone i records"
        using lt o nign by (simp add: ignored_record_def)
      also have "\<dots> = (if \<forall>r \<in> set (take i records). is_DNSRecord r
                      then Inr (filter (\<lambda>r. \<not> ignored_record api c zone r) (take i records) @ drop i records)
                      else Inl (Panic ''interface conversion: not a cloudflare.DNSRecord''))"
        using lt by (intro Suc.IH) simp
      finally show ?thesis using True nign t d by simp
    qed
  qed
qed

lemma drop_ignored_all:
  "drop_ignored api c zone (length records) records =
     (if \<forall>r \<in> set records. is_DNSRecord r
      then Inr (filter (\<lambda>r. \<not> ignored_record api c zone r) records)
      else Inl (Panic ''interface conversion: not a cloudflare.DNSRecord''))"
  using drop_ignored_eq [of "length records" records api c zone] by simp

lemmas cf_eval_defs = cf_GetDomainCorrections_def cf_prepare_def cf_sequence_def
  example_cf_api_def example_cf_def example_dc_def example_models_def
  getDomainID_def preprocessConfig_def checkNSModifications_def checkUniversalSSL_def
  spec_Diff_def identity_key_def meta_get_def metaProxyDefault_def metaProxy_def metaUniversalSSL_def
  cf_rr_def rr_def example_trim_def HasSuffix_def Let_def

lemma list_all2_kept_filter_txt:
  assumes "list_all2 kept rs rs'"
  shows "map TxtStrings (filter (\<lambda>r. \<not> (Type r = ''NS'' \<and> LabelFQDN r = zone)) rs')
       = map TxtStrings (filter (\<lambda>r. \<not> (Type r = ''NS'' \<and> LabelFQDN r = zone)) rs)"
  using assms by (induction rs rs' rule: list_all2_induct) (auto simp: kept_def)

lemma force_desired_list_kept:
  "mapE (force_desired c) rs = Inr rs' \<Longrightarrow> list_all2 kept rs rs'"
  by (rule mapE_list_all2) (auto dest: force_desired_kept)

text \<open>
  C5, amended. Cloudflare's normalization does not split TXT content: every desired
  record (all but the apex NS records, which are dropped) reaches the differ with
  the TXT strings it was configured with, whatever their length.
\<close>

theorem cf_txt_not_split:
  assumes "cf_prepare api c dc0 = Inr (zid, dc, records)"
    and "Punycode (cf_models api) dc0 = (dc1, None)"
  shows "map TxtStrings (Records dc)
       = map TxtStrings (filter (\<lambda>r. \<not> (Type r = ''NS'' \<and> LabelFQDN r = Name dc1)) (Records dc1))"
proof -
  from cf_prepare_Inr [OF assms(1)] assms(2) obtain dc2 rs where
    d2: "preprocessConfig api c dc1 = Inr dc2"
    and rs: "mapE (force_desired c) (Records dc2) = Inr rs"
    and dc: "dc = checkNSModifications (dc2\<lparr>Records := rs\<rparr>)"
    by auto
  from preprocessConfig_kept [OF d2] force_desired_list_kept [OF rs]
  have k: "list_all2 kept (Records dc1) rs" and n: "Name dc2 = Name dc1"
    by (auto intro: list_all2_kept_trans)
  from list_all2_kept_filter_txt [OF k, of "Name dc1"] dc n show ?thesis
    by (simp add: checkNSModifications_def)
qed

text \<open>
  C5, as the claim states it, fails: a desired TXT record of one 600-octet string
  reaches the differ as one string of 600 octets, not as three chunks of at most 255.
\<close>

theorem cf_txt_not_split_counterexample:
  "(case cf_prepare (example_cf_api []) (example_cf []) (example_dc [long_txt] False) of
      Inl err \<Rightarrow> []
    | Inr (zid, dc, records) \<Rightarrow> map (\<lambda>r. map length (TxtStrings r)) (Records dc)) = [[600]]"
  by (simp add: cf_prepare_def example_cf_api_def example_cf_def example_dc_def example_models_def
      getDomainID_def preprocessConfig_def preprocess_record_def preprocess_ttl_def preprocess_proxy_def
      preprocess_redirect_def preprocess_worker_def convert_ip_def force_desired_def checkNSModifications_def
      meta_get_def meta_set_def metaProxy_def metaProxyDefault_def metaUniversalSSL_def rr_def long_txt_def Let_def)

theorem cf_txt_not_split_witness:
  "(case cf_prepare (example_cf_api []) (example_cf [])
           (example_dc [rr ''NS'' ''@'' ''ns1.example.net.'' 300, long_txt] False) of
      Inl err \<Rightarrow> []
    | Inr (zid, dc, records) \<Rightarrow> map TxtStrings (Records dc)) = [[replicate 600 CHR ''x'']]"
proof -
  let ?api = "example_cf_api []" and ?c = "example_cf []"
  let ?dc = "example_dc [rr ''NS'' ''@'' ''ns1.example.net.'' 300, long_txt] False"
  have p: "Punycode (cf_models ?api) ?dc = (?dc, None)"
    by (simp add: example_cf_api_def example_models_def)
  obtain zid dc records where v: "cf_prepare ?api ?c ?dc = Inr (zid, dc, records)"
    by (simp add: cf_prepare_def example_cf_api_def example_cf_def example_dc_def example_models_def
      getDomainID_def preprocessConfig_def preprocess_record_def preprocess_ttl_def preprocess_proxy_def
      preprocess_redirect_def preprocess_worker_def convert_ip_def force_desired_def checkNSModifications_def
      meta_get_def meta_set_def metaProxy_def metaProxyDefault_def metaUniversalSSL_def rr_def long_txt_def Let_def)
  from cf_txt_not_split [OF v p] have "map TxtStrings (Records dc) = [[replicate 600 CHR ''x'']]"
    by (simp add: example_dc_def rr_def long_txt_def)
  with v show ?thesis by simp
qed

text \<open>
  The normalization is made for one pass: it marks the TXT record with
  \<^verbatim>\<open>cloudflare_proxy=off\<close> (\<^verbatim>\<open>preprocessConfig\<close>, line 432), and applied to its own
  output it rejects the record for carrying that mark (lines 428 to 430).
\<close>

lemma cf_second_pass_rejected:
  "(case cf_prepare (example_cf_api []) (example_cf []) (example_dc [long_txt] False) of
      Inl err \<Rightarrow> None
    | Inr (zid, dc, records) \<Rightarrow>
        (case cf_prepare (example_cf_api []) (example_cf []) dc of
           Inl err \<Rightarrow> Some err
         | Inr _ \<Rightarrow> None))
   = Some (Err ''cloudflare_proxy set on %v record: %#v cloudflare_proxy=%#v'' [''TXT'', ''big'', ''off''])"
  by (simp add: cf_prepare_def example_cf_api_def example_cf_def example_dc_def example_models_def
      getDomainID_def preprocessConfig_def preprocess_record_def preprocess_ttl_def preprocess_proxy_def
      preprocess_redirect_def preprocess_worker_def convert_ip_def force_desired_def checkNSModifications_def
      meta_get_def meta_set_def metaProxy_def metaProxyDefault_def metaUniversalSSL_def rr_def long_txt_def Let_def)

section \<open>Properties of Exoscale\<close>

lemma exo_hide_NS_fields:
  "exo_models (exo_hide_NS api) = exo_models api"
  "ListDNSDomains (exo_hide_NS api) = ListDNSDomains api"
  "GetDNSDomainRecord (exo_hide_NS api) = GetDNSDomainRecord api"
  "SetLabel (exo_hide_NS api) = SetLabel api"
  "SetTargetMX (exo_hide_NS api) = SetTargetMX api"
  "PopulateFromString (exo_hide_NS api) = PopulateFromString api"
  by (simp_all add: exo_hide_NS_def)

lemma exo_hide_NS_convert: "exo_convert (exo_hide_NS api) = exo_convert api"
  by (intro ext) (simp add: exo_convert_def exo_hide_NS_fields Let_def cong: sum.case_cong option.case_cong prod.case_cong if_cong)

lemma exo_hide_NS_existing_record: "exo_existing_record (exo_hide_NS api) = exo_existing_record api"
  by (intro ext)
    (simp add: exo_existing_record_def exo_hide_NS_fields exo_hide_NS_convert Let_def
      cong: sum.case_cong option.case_cong prod.case_cong if_cong)

lemma exo_hide_NS_existing:
  "exo_existing (exo_hide_NS api) c domainID zone records = exo_existing api c domainID zone records"
  by (induction records) (simp_all add: exo_hide_NS_existing_record cong: sum.case_cong option.case_cong prod.case_cong if_cong)

lemma exo_is_NS_skipped:
  "exo_is_NS api (apiZone c) domainID r \<Longrightarrow> exo_existing_record api c domainID zone r = Inr None"
  by (auto simp: exo_is_NS_def exo_existing_record_def Let_def split: option.splits sum.splits)

lemma exo_existing_filter_NS:
  "exo_existing api c domainID zone (filter (\<lambda>r. \<not> exo_is_NS api (apiZone c) domainID r) records)
     = exo_existing api c domainID zone records"
  by (induction records) (simp_all add: exo_is_NS_skipped cong: sum.case_cong option.case_cong prod.case_cong if_cong)

lemma exo_hide_NS_findDomainByName: "findDomainByName (exo_hide_NS api) = findDomainByName api"
  by (intro ext) (simp add: findDomainByName_def exo_hide_NS_fields)

lemma exo_hide_NS_delete_loop: "exo_delete_loop (exo_hide_NS api) domainID delete = exo_delete_loop api domainID delete"
  by (induction delete) (simp_all add: exo_hide_NS_fields cong: sum.case_cong option.case_cong)

lemma exo_hide_NS_modify_loop: "exo_modify_loop (exo_hide_NS api) domainID modify = exo_modify_loop api domainID modify"
  by (induction modify) (simp_all add: exo_hide_NS_fields cong: sum.case_cong option.case_cong)

lemma exo_hide_NS_create_loop: "exo_create_loop (exo_hide_NS api) = exo_create_loop api"
  by (intro ext) (simp add: exo_create_loop_def exo_hide_NS_fields)

lemma exo_hide_NS_same:
  "exo_GetDomainCorrections (exo_hide_NS api) c dc0 = exo_GetDomainCorrections api c dc0"
proof -
  let ?dc1 = "fst (Punycode (exo_models api) dc0)"
  show ?thesis
  proof (cases "findDomainByName api c (Name ?dc1)")
    case (Inl e)
    then show ?thesis
      by (simp add: exo_GetDomainCorrections_def exo_hide_NS_fields exo_hide_NS_findDomainByName)
  next
    case (Inr domain)
    show ?thesis
    proof (cases "dom_ID domain")
      case None
      with Inr show ?thesis
        by (simp add: exo_GetDomainCorrections_def exo_hide_NS_fields exo_hide_NS_findDomainByName)
    next
      case (Some domainID)
      show ?thesis
      proof (cases "ListDNSDomainRecords api (apiZone c) domainID")
        case (Inl e)
        then have "ListDNSDomainRecords (exo_hide_NS api) (apiZone c) domainID = Inl e"
          by (simp add: exo_hide_NS_def)
        with Inr Some Inl show ?thesis
          by (simp add: exo_GetDomainCorrections_def exo_hide_NS_fields exo_hide_NS_findDomainByName)
      next
        case recs: (Inr records)
        then have "ListDNSDomainRecords (exo_hide_NS api) (apiZone c) domainID
                     = Inr (filter (\<lambda>r. \<not> exo_is_NS api (apiZone c) domainID r) records)"
          by (simp add: exo_hide_NS_def)
        with Inr Some recs show ?thesis
          by (simp add: exo_GetDomainCorrections_def exo_hide_NS_fields exo_hide_NS_findDomainByName
              exo_hide_NS_existing exo_existing_filter_NS exo_hide_NS_delete_loop exo_hide_NS_modify_loop
              exo_hide_NS_create_loop Let_def cong: sum.case_cong prod.case_cong if_cong)
      qed
    qed
  qed
qed

lemma removeOtherNS_loop_no_NS: "r \<in> set (fst (removeOtherNS_loop zone recs)) \<Longrightarrow> Type r \<noteq> ''NS''"
  by (induction recs) (auto simp: Let_def split: prod.splits if_splits)

lemma checkNSModifications_no_apex_NS:
  "r \<in> set (Records (checkNSModifications dc)) \<Longrightarrow> \<not> (Type r = ''NS'' \<and> LabelFQDN r = Name (checkNSModifications dc))"
  by (simp add: checkNSModifications_def)

section \<open>Properties of the reconciliation core\<close>

text \<open>
  The statements of this section are about the definitions modelled from the spec,
  alone and in the place of the differ that the adapters call.
\<close>

lemma sort_order_eq: "(sort_order r = sort_order r') = (identity_key r = identity_key r')"
  by (auto simp: sort_order_def identity_key_def)

lemma distinct_sort_order: "distinct (map sort_order rs) = distinct (map identity_key rs)"
  by (induction rs) (auto simp: sort_order_eq image_iff)

lemma distinct_keys_mset:
  assumes "mset rs' = mset rs"
  shows "distinct (map identity_key rs') = distinct (map identity_key rs)"
proof -
  from assms have "mset (map identity_key rs') = mset (map identity_key rs)" by simp
  then show ?thesis by (rule mset_eq_imp_distinct_iff)
qed

lemma distinct_keys_stabilize: "distinct (map identity_key (stabilize rs)) = distinct (map identity_key rs)"
  by (rule distinct_keys_mset) (simp add: stabilize_def)

lemma stabilize_mset:
  assumes m: "mset rs' = mset rs" and d: "distinct (map identity_key rs)"
  shows "stabilize rs' = stabilize rs"
proof -
  have d1: "distinct (map sort_order rs)" using d by (simp add: distinct_sort_order)
  from m have s: "set rs' = set rs" by (rule mset_eq_setD)
  let ?a = "sort_key sort_order rs'" and ?b = "sort_key sort_order rs"
  have inj: "inj_on sort_order (set rs)"
    using d1 by (simp add: distinct_map)
  have da: "distinct (map sort_order ?a)" and db: "distinct (map sort_order ?b)"
    using d1 inj s m by (auto simp: distinct_map dest: mset_eq_imp_distinct_iff)
  have "map sort_order ?a = map sort_order ?b"
  proof (rule sorted_distinct_set_unique)
    show "sorted (map sort_order ?a)" by simp
    show "sorted (map sort_order ?b)" by simp
    show "distinct (map sort_order ?a)" by (rule da)
    show "distinct (map sort_order ?b)" by (rule db)
    show "set (map sort_order ?a) = set (map sort_order ?b)" using s by simp
  qed
  moreover have "inj_on sort_order (set ?a \<union> set ?b)" using inj s by simp
  ultimately have "?a = ?b" using inj_on_map_eq_map [of sort_order ?a ?b] by blast
  then show ?thesis by (simp add: stabilize_def)
qed

lemma compared_mset: "mset rs' = mset rs \<Longrightarrow> mset (compared z rs') = mset (compared z rs)"
  by (simp add: compared_def)

lemma Diff_zone_cong_mset:
  assumes "mset (Records dc') = mset (Records dc)"
      and "dc'\<lparr>Records := []\<rparr> = dc\<lparr>Records := []\<rparr>"
      and "mset existing' = mset existing"
  shows "Diff_zone z extra dc' existing' = Diff_zone z extra dc existing"
proof -
  have md: "mset (compared z (Records dc')) = mset (compared z (Records dc))"
    using assms(1) by (rule compared_mset)
  have me: "mset (compared z existing') = mset (compared z existing)"
    using assms(3) by (rule compared_mset)
  have dd: "distinct (map identity_key (compared z (Records dc'))) = distinct (map identity_key (compared z (Records dc)))"
    using md by (rule distinct_keys_mset)
  have de: "distinct (map identity_key (compared z existing')) = distinct (map identity_key (compared z existing))"
    using me by (rule distinct_keys_mset)
  have u: "dc'\<lparr>Records := rs\<rparr> = dc\<lparr>Records := rs\<rparr>" for rs
  proof -
    have "(dc'\<lparr>Records := []\<rparr>)\<lparr>Records := rs\<rparr> = (dc\<lparr>Records := []\<rparr>)\<lparr>Records := rs\<rparr>"
      using assms(2) by simp
    then show ?thesis by simp
  qed
  show ?thesis
  proof (cases "distinct (map identity_key (compared z (Records dc))) \<and> distinct (map identity_key (compared z existing))")
    case True
    then have "stabilize (compared z (Records dc')) = stabilize (compared z (Records dc))"
      and "stabilize (compared z existing') = stabilize (compared z existing)"
      using md me by (auto intro: stabilize_mset)
    then show ?thesis by (simp add: Diff_zone_def Let_def u cong: if_cong)
  next
    case False
    then show ?thesis
      by (auto simp add: Diff_zone_def Let_def distinct_keys_stabilize dd de)
  qed
qed

lemma spec_Diff_entries:
  assumes "spec_Diff extra dc existing = Inr (unchanged, create, del, modify)"
  shows "\<forall>c \<in> set (unchanged @ modify). \<exists>e d. Existing c = Some e \<and> Desired c = Some d \<and> e \<in> set existing
            \<and> d \<in> set (Records dc) \<and> identity_key e = identity_key d"
    and "\<forall>c \<in> set create. \<exists>d. Existing c = None \<and> Desired c = Some d \<and> d \<in> set (Records dc)"
    and "\<forall>c \<in> set del. \<exists>e. Existing c = Some e \<and> Desired c = None \<and> e \<in> set existing"
  using assms by (auto simp: spec_Diff_def Let_def split: if_splits)

lemma set_stabilize: "set (stabilize rs) = set rs"
  by (simp add: stabilize_def)


lemma Diff_zone_Inr:
  assumes "Diff_zone z extra dc existing = Inr (unchanged, create, del, modify)"
  obtains del0 where
    "spec_Diff extra (dc\<lparr>Records := stabilize (compared z (Records dc))\<rparr>) (stabilize (compared z existing))
       = Inr (unchanged, create, del0, modify)"
    and "del = filter (kept_delete z) del0"
  using assms by (auto simp: Diff_zone_def Let_def split: if_splits sum.splits)

lemma Diff_zone_entries:
  assumes "Diff_zone z extra dc existing = Inr (unchanged, create, del, modify)"
  shows "\<forall>c \<in> set (unchanged @ modify). \<exists>e d. Existing c = Some e \<and> Desired c = Some d \<and> e \<in> set (compared z existing)
            \<and> d \<in> set (compared z (Records dc)) \<and> identity_key e = identity_key d"
    and "\<forall>c \<in> set create. \<exists>d. Existing c = None \<and> Desired c = Some d \<and> d \<in> set (compared z (Records dc))"
    and "\<forall>c \<in> set del. \<exists>e. Existing c = Some e \<and> Desired c = None \<and> e \<in> set (compared z existing)
            \<and> \<not> ignored_name z e \<and> \<not> ignored_target z e"
proof -
  from assms obtain del0 where
    d: "spec_Diff extra (dc\<lparr>Records := stabilize (compared z (Records dc))\<rparr>) (stabilize (compared z existing))
       = Inr (unchanged, create, del0, modify)"
    and f: "del = filter (kept_delete z) del0"
    by (rule Diff_zone_Inr)
  from spec_Diff_entries(1) [OF d]
  show "\<forall>c \<in> set (unchanged @ modify). \<exists>e d. Existing c = Some e \<and> Desired c = Some d \<and> e \<in> set (compared z existing)
            \<and> d \<in> set (compared z (Records dc)) \<and> identity_key e = identity_key d"
    by (simp add: set_stabilize)
  from spec_Diff_entries(2) [OF d]
  show "\<forall>c \<in> set create. \<exists>d. Existing c = None \<and> Desired c = Some d \<and> d \<in> set (compared z (Records dc))"
    by (simp add: set_stabilize)
  from spec_Diff_entries(3) [OF d] f
  show "\<forall>c \<in> set del. \<exists>e. Existing c = Some e \<and> Desired c = None \<and> e \<in> set (compared z existing)
            \<and> \<not> ignored_name z e \<and> \<not> ignored_target z e"
    by (fastforce simp: set_stabilize kept_delete_def)
qed

lemma Diff_zone_deletes:
  assumes "Diff_zone z extra dc existing = Inr (unchanged, create, del, modify)"
  shows "del = (if KeepUnknown dc then []
                else map (\<lambda>e. \<lparr>Existing = Some e, Desired = None\<rparr>)
                       (filter (\<lambda>e. identity_key e \<notin> identity_key ` set (compared z (Records dc))
                                   \<and> \<not> ignored_name z e \<and> \<not> ignored_target z e)
                          (stabilize (compared z existing))))"
proof -
  from assms obtain del0 where
    d: "spec_Diff extra (dc\<lparr>Records := stabilize (compared z (Records dc))\<rparr>) (stabilize (compared z existing))
       = Inr (unchanged, create, del0, modify)"
    and f: "del = filter (kept_delete z) del0"
    by (rule Diff_zone_Inr)
  from d have "del0 = (if KeepUnknown dc then []
                else map (\<lambda>e. \<lparr>Existing = Some e, Desired = None\<rparr>)
                       (filter (\<lambda>e. identity_key e \<notin> identity_key ` set (compared z (Records dc)))
                          (stabilize (compared z existing))))"
    by (auto simp: spec_Diff_def Let_def set_stabilize)
  with f show ?thesis
    by (simp add: filter_map comp_def kept_delete_def conj_commute conj_left_commute)
qed


lemma with_Diff_fields:
  "Punycode (with_Diff z m) = Punycode m"
  "PostProcessRecords (with_Diff z m) = PostProcessRecords m"
  "CorrelationString (with_Diff z m) = CorrelationString m"
  "IncrementalDiff (with_Diff z m) = Diff_zone z"
  "IncrementalDiffCompat (with_Diff z m) = Diff_zone z []"
  by (simp_all add: with_Diff_def)

lemma hd_GetZoneRecords_models [simp]:
  "hd_GetZoneRecords (hp\<lparr>hd_models := m\<rparr>) = hd_GetZoneRecords hp"
  by (intro ext) (simp add: hd_GetZoneRecords_def cong: sum.case_cong)



text \<open>The grammar of the patterns at work, on labels of one and of two segments.\<close>

lemma glob_examples:
  "glob ''vpn'' ''vpn''" "\<not> glob ''vpn'' ''vpn2''"
  "glob ''v*'' ''vpn''" "\<not> glob ''v*'' ''vpn.eu''" "glob ''v**'' ''vpn.eu''" "glob ''*.eu'' ''vpn.eu''"
  "glob ''v?n'' ''vpn''" "\<not> glob ''v?n'' ''vn''"
  "glob ''v[a-p]n'' ''vpn''" "\<not> glob ''v[!a-p]n'' ''vpn''" "glob ''v[!a-p]n'' ''vzn''"
  "glob ''{vpn,mail}.*'' ''mail.eu''" "\<not> glob ''{vpn,mail}.*'' ''www.eu''"
  by (simp_all add: glob_def in_class_def)


lemmas diff_eval_defs = Diff_zone_def stabilize_def compared_def sort_order_def identity_key_def
  spec_Diff_def kept_delete_def ignored_name_def ignored_target_def apex_NS_def glob_def








lemma clampTTLs_mset:
  assumes "mset (Records dc') = mset (Records dc)" and "dc'\<lparr>Records := []\<rparr> = dc\<lparr>Records := []\<rparr>"
  shows "mset (Records (clampTTLs dc')) = mset (Records (clampTTLs dc))"
    and "(clampTTLs dc')\<lparr>Records := []\<rparr> = (clampTTLs dc)\<lparr>Records := []\<rparr>"
    and "Name dc' = Name dc" and "KeepUnknown dc' = KeepUnknown dc"
proof -
  from assms(1) have "image_mset clampTTL (mset (Records dc')) = image_mset clampTTL (mset (Records dc))"
    by simp
  then show "mset (Records (clampTTLs dc')) = mset (Records (clampTTLs dc))"
    by (simp add: clampTTLs_def)
  have "(clampTTLs dc')\<lparr>Records := []\<rparr> = dc'\<lparr>Records := []\<rparr>"
    and "(clampTTLs dc)\<lparr>Records := []\<rparr> = dc\<lparr>Records := []\<rparr>"
    by (simp_all add: clampTTLs_def)
  with assms(2) show "(clampTTLs dc')\<lparr>Records := []\<rparr> = (clampTTLs dc)\<lparr>Records := []\<rparr>"
    by (simp only:)
  have "Name dc' = Name (dc'\<lparr>Records := []\<rparr>)" by simp
  also have "\<dots> = Name (dc\<lparr>Records := []\<rparr>)" by (simp only: assms(2))
  finally show "Name dc' = Name dc" by simp
  have "KeepUnknown dc' = KeepUnknown (dc'\<lparr>Records := []\<rparr>)" by simp
  also have "\<dots> = KeepUnknown (dc\<lparr>Records := []\<rparr>)" by (simp only: assms(2))
  finally show "KeepUnknown dc' = KeepUnknown dc" by simp
qed

text \<open>
  C6. The Differ is insensitive to the order of its inputs: two invocations whose
  desired records and whose observed records are the same up to their order (the rest
  of the zone being the same) return the same result, changesets equal entry by entry
  and in the same order, or the same error. hosting.de's corrections, made of the
  changesets, are then the same too: the same message, line by line, and the same
  action.
\<close>

theorem Diff_order_insensitive:
  fixes dc dc' :: "'o DomainConfig"
  assumes "mset (Records dc') = mset (Records dc)"
      and "dc'\<lparr>Records := []\<rparr> = dc\<lparr>Records := []\<rparr>"
      and "mset existing' = mset existing"
  shows "Diff_zone z extra dc' existing' = Diff_zone z extra dc existing
       \<and> (\<forall>(hp :: ('o, 'n) hostingdeProvider) dc0 dc0' src src'.
            Punycode (hd_models hp) dc0 = (dc, None) \<longrightarrow> Punycode (hd_models hp) dc0' = (dc', None) \<longrightarrow>
            mset src' = mset src \<longrightarrow>
            hd_GetDomainCorrections (hp\<lparr>hd_models := with_Diff z (hd_models hp), getRecords := (\<lambda>domain. Inr src')\<rparr>) dc0'
            = hd_GetDomainCorrections (hp\<lparr>hd_models := with_Diff z (hd_models hp), getRecords := (\<lambda>domain. Inr src)\<rparr>) dc0)"
proof (intro conjI allI impI)
  show "Diff_zone z extra dc' existing' = Diff_zone z extra dc existing"
    using assms by (rule Diff_zone_cong_mset)
next
  fix hp :: "('o, 'n) hostingdeProvider" and dc0 dc0' and src src' :: "'n list"
  assume p: "Punycode (hd_models hp) dc0 = (dc, None)" and p': "Punycode (hd_models hp) dc0' = (dc', None)"
    and s: "mset src' = mset src"
  let ?rs = "\<lambda>src. map (\<lambda>r. nativeToRecord hp r (Name dc)) (filter (\<lambda>r. nativeType hp r \<noteq> ''SOA'') src)"
  note c = clampTTLs_mset [OF assms(1,2)]
  from s have "mset (?rs src') = mset (?rs src)"
    by simp
  with c(1,2) have d: "Diff_zone z [] (clampTTLs dc') (?rs src') = Diff_zone z [] (clampTTLs dc) (?rs src)"
    by (rule Diff_zone_cong_mset)
  have n: "Name (clampTTLs dc') = Name dc" "Name (clampTTLs dc) = Name dc"
    "KeepUnknown (clampTTLs dc') = KeepUnknown dc" "KeepUnknown (clampTTLs dc) = KeepUnknown dc"
    using c(3,4) by (simp_all add: clampTTLs_def)
  show "hd_GetDomainCorrections (hp\<lparr>hd_models := with_Diff z (hd_models hp), getRecords := (\<lambda>domain. Inr src')\<rparr>) dc0'
      = hd_GetDomainCorrections (hp\<lparr>hd_models := with_Diff z (hd_models hp), getRecords := (\<lambda>domain. Inr src)\<rparr>) dc0"
  proof -
    have "hd_GetDomainCorrections (hp\<lparr>hd_models := with_Diff z (hd_models hp), getRecords := (\<lambda>domain. Inr src')\<rparr>) dc0'
       = (case Diff_zone z [] (clampTTLs dc') (?rs src') of
            Inl err \<Rightarrow> Inl err
          | Inr (u, create, del0, modify) \<Rightarrow>
              let del = (if KeepUnknown dc then [] else del0);
                  msg = map (CorrelationString (hd_models hp)) (del @ create @ modify)
              in if create = [] \<and> del = [] \<and> modify = [] then Inr []
                 else Inr [\<lparr>Msg = newline @ Join msg newline, F = UpdateRecords (Name dc) create del modify\<rparr>])"
      using p' by (simp add: hd_GetDomainCorrections_def hd_GetZoneRecords_def with_Diff_fields n(1,3) Let_def cong: sum.case_cong prod.case_cong if_cong)
    moreover have "hd_GetDomainCorrections (hp\<lparr>hd_models := with_Diff z (hd_models hp), getRecords := (\<lambda>domain. Inr src)\<rparr>) dc0
       = (case Diff_zone z [] (clampTTLs dc) (?rs src) of
            Inl err \<Rightarrow> Inl err
          | Inr (u, create, del0, modify) \<Rightarrow>
              let del = (if KeepUnknown dc then [] else del0);
                  msg = map (CorrelationString (hd_models hp)) (del @ create @ modify)
              in if create = [] \<and> del = [] \<and> modify = [] then Inr []
                 else Inr [\<lparr>Msg = newline @ Join msg newline, F = UpdateRecords (Name dc) create del modify\<rparr>])"
      using p by (simp add: hd_GetDomainCorrections_def hd_GetZoneRecords_def with_Diff_fields n(2,4) Let_def cong: sum.case_cong prod.case_cong if_cong)
    ultimately show ?thesis by (simp only: d)
  qed
qed

theorem Diff_order_insensitive_witness:
  "Diff_zone no_rules []
       (example_dc [rr ''A'' ''www'' ''1.2.3.4'' 300, rr ''CNAME'' ''vpn'' ''gateway.example.net.'' 300,
                    rr ''A'' ''api'' ''1.2.3.5'' 600] False)
       [rr ''A'' ''old'' ''1.2.3.4'' 300, rr ''A'' ''api'' ''1.2.3.5'' 300 :: unit RecordConfig]
     = Diff_zone no_rules []
       (example_dc [rr ''A'' ''api'' ''1.2.3.5'' 600, rr ''A'' ''www'' ''1.2.3.4'' 300,
                    rr ''CNAME'' ''vpn'' ''gateway.example.net.'' 300] False)
       [rr ''A'' ''api'' ''1.2.3.5'' 300, rr ''A'' ''old'' ''1.2.3.4'' 300]
   \<and> hd_GetDomainCorrections
       ((example_hd [] [] None)\<lparr>hd_models := with_Diff no_rules example_models,
          getRecords := (\<lambda>domain. Inr [rr ''A'' ''old'' ''1.2.3.4'' 300, rr ''A'' ''api'' ''1.2.3.5'' 300])\<rparr>)
       (example_dc [rr ''A'' ''www'' ''1.2.3.4'' 300, rr ''CNAME'' ''vpn'' ''gateway.example.net.'' 300,
                    rr ''A'' ''api'' ''1.2.3.5'' 600] False)
     = Inr [\<lparr>Msg = newline @ ''DELETE A old 1.2.3.4'' @ newline @ ''CREATE CNAME vpn gateway.example.net.''
                   @ newline @ ''CREATE A www 1.2.3.4'' @ newline @ ''MODIFY A api 1.2.3.5'',
             F = UpdateRecords ''example.com''
                  [\<lparr>Existing = None, Desired = Some (rr ''CNAME'' ''vpn'' ''gateway.example.net.'' 300)\<rparr>,
                   \<lparr>Existing = None, Desired = Some (rr ''A'' ''www'' ''1.2.3.4'' 300)\<rparr>]
                  [\<lparr>Existing = Some (rr ''A'' ''old'' ''1.2.3.4'' 300), Desired = None\<rparr>]
                  [\<lparr>Existing = Some (rr ''A'' ''api'' ''1.2.3.5'' 300), Desired = Some (rr ''A'' ''api'' ''1.2.3.5'' 600)\<rparr>]\<rparr>]
   \<and> hd_GetDomainCorrections
       ((example_hd [] [] None)\<lparr>hd_models := with_Diff no_rules example_models,
          getRecords := (\<lambda>domain. Inr [rr ''A'' ''api'' ''1.2.3.5'' 300, rr ''A'' ''old'' ''1.2.3.4'' 300])\<rparr>)
       (example_dc [rr ''A'' ''api'' ''1.2.3.5'' 600, rr ''A'' ''www'' ''1.2.3.4'' 300,
                    rr ''CNAME'' ''vpn'' ''gateway.example.net.'' 300] False)
     = Inr [\<lparr>Msg = newline @ ''DELETE A old 1.2.3.4'' @ newline @ ''CREATE CNAME vpn gateway.example.net.''
                   @ newline @ ''CREATE A www 1.2.3.4'' @ newline @ ''MODIFY A api 1.2.3.5'',
             F = UpdateRecords ''example.com''
                  [\<lparr>Existing = None, Desired = Some (rr ''CNAME'' ''vpn'' ''gateway.example.net.'' 300)\<rparr>,
                   \<lparr>Existing = None, Desired = Some (rr ''A'' ''www'' ''1.2.3.4'' 300)\<rparr>]
                  [\<lparr>Existing = Some (rr ''A'' ''old'' ''1.2.3.4'' 300), Desired = None\<rparr>]
                  [\<lparr>Existing = Some (rr ''A'' ''api'' ''1.2.3.5'' 300), Desired = Some (rr ''A'' ''api'' ''1.2.3.5'' 600)\<rparr>]\<rparr>]"
proof -
  let ?www = "rr ''A'' ''www'' ''1.2.3.4'' 300 :: unit RecordConfig"
  let ?vpn = "rr ''CNAME'' ''vpn'' ''gateway.example.net.'' 300 :: unit RecordConfig"
  let ?api = "rr ''A'' ''api'' ''1.2.3.5'' 600 :: unit RecordConfig"
  let ?cur = "rr ''A'' ''api'' ''1.2.3.5'' 300 :: unit RecordConfig"
  let ?old = "rr ''A'' ''old'' ''1.2.3.4'' 300 :: unit RecordConfig"
  let ?dc = "example_dc [?www, ?vpn, ?api] False" and ?dc' = "example_dc [?api, ?www, ?vpn] False"
  let ?hp = "example_hd [] [] None"
  have 1: "mset (Records ?dc') = mset (Records ?dc)" by (simp add: example_dc_def)
  have 2: "?dc'\<lparr>Records := []\<rparr> = ?dc\<lparr>Records := []\<rparr>" by (simp add: example_dc_def)
  have 3: "mset [?cur, ?old] = mset [?old, ?cur]" by simp
  have p: "Punycode (hd_models ?hp) ?dc = (?dc, None)" "Punycode (hd_models ?hp) ?dc' = (?dc', None)"
    by (simp_all add: example_hd_def example_models_def)
  note t = Diff_order_insensitive [OF 1 2 3, of no_rules "[]"]
  from t have a: "Diff_zone no_rules [] ?dc' [?cur, ?old] = Diff_zone no_rules [] ?dc [?old, ?cur]"
    by blast
  from t p 3 have b: "hd_GetDomainCorrections
       (?hp\<lparr>hd_models := with_Diff no_rules (hd_models ?hp), getRecords := (\<lambda>domain. Inr [?cur, ?old])\<rparr>) ?dc'
     = hd_GetDomainCorrections
       (?hp\<lparr>hd_models := with_Diff no_rules (hd_models ?hp), getRecords := (\<lambda>domain. Inr [?old, ?cur])\<rparr>) ?dc"
    by blast
  have m: "hd_models ?hp = example_models" by (simp add: example_hd_def)
  have d: "Diff_zone no_rules [] (clampTTLs ?dc) [?old, ?cur]
     = Inr ([], [\<lparr>Existing = None, Desired = Some ?vpn\<rparr>, \<lparr>Existing = None, Desired = Some ?www\<rparr>],
            [\<lparr>Existing = Some ?old, Desired = None\<rparr>],
            [\<lparr>Existing = Some ?cur, Desired = Some ?api\<rparr>])"
    by (simp add: diff_eval_defs no_rules_def rr_def example_dc_def clampTTLs_def clampTTL_def)
  have c: "hd_GetDomainCorrections
       (?hp\<lparr>hd_models := with_Diff no_rules example_models, getRecords := (\<lambda>domain. Inr [?old, ?cur])\<rparr>) ?dc
     = Inr [\<lparr>Msg = newline @ ''DELETE A old 1.2.3.4'' @ newline @ ''CREATE CNAME vpn gateway.example.net.''
                   @ newline @ ''CREATE A www 1.2.3.4'' @ newline @ ''MODIFY A api 1.2.3.5'',
             F = UpdateRecords ''example.com''
                  [\<lparr>Existing = None, Desired = Some ?vpn\<rparr>, \<lparr>Existing = None, Desired = Some ?www\<rparr>]
                  [\<lparr>Existing = Some ?old, Desired = None\<rparr>]
                  [\<lparr>Existing = Some ?cur, Desired = Some ?api\<rparr>]\<rparr>]"
    using d by (simp add: hd_GetDomainCorrections_def hd_GetZoneRecords_def with_Diff_def example_hd_def
        example_models_def spec_String_def example_dc_def rr_def clampTTLs_def clampTTL_def)
  from a b c show ?thesis by (simp add: m)
qed

lemma compared_hide:
  assumes "\<not> manages_NS z" and "\<And>r. \<not> P r \<Longrightarrow> apex_NS r"
  shows "compared z (filter P rs) = compared z rs"
proof -
  have "filter (\<lambda>r. \<not> apex_NS r) (filter P rs) = filter (\<lambda>r. \<not> apex_NS r) rs"
    using assms(2) by (induction rs) auto
  with assms(1) show ?thesis by (simp add: compared_def)
qed

lemma Diff_zone_compared_cong:
  "compared z rs' = compared z rs \<Longrightarrow> Diff_zone z extra dc rs' = Diff_zone z extra dc rs"
  by (simp add: Diff_zone_def)

lemma Diff_zone_hide:
  assumes "\<not> manages_NS z" and "\<And>r. \<not> P r \<Longrightarrow> apex_NS r"
  shows "Diff_zone z extra dc (filter P rs) = Diff_zone z extra dc rs"
  by (rule Diff_zone_compared_cong) (rule compared_hide [OF assms])

lemma Diff_zone_no_apex_NS:
  assumes "\<not> manages_NS z"
      and "Diff_zone z extra dc existing = Inr (unchanged, create, del, modify)"
      and "c \<in> set (unchanged @ create @ del @ modify)"
      and "Existing c = Some r \<or> Desired c = Some r"
  shows "\<not> apex_NS r"
proof -
  have m: "x \<in> set (compared z xs) \<Longrightarrow> \<not> apex_NS x" for x xs
    using assms(1) by (simp add: compared_def)
  from assms(3) consider "c \<in> set (unchanged @ modify)" | "c \<in> set create" | "c \<in> set del" by auto
  then show ?thesis
  proof cases
    case 1
    with Diff_zone_entries(1) [OF assms(2)] assms(4) m show ?thesis by fastforce
  next
    case 2
    with Diff_zone_entries(2) [OF assms(2)] assms(4) m show ?thesis by fastforce
  next
    case 3
    with Diff_zone_entries(3) [OF assms(2)] assms(4) m show ?thesis by fastforce
  qed
qed

lemma hd_hide_GetZoneRecords:
  "hd_GetZoneRecords (hd_hide_apex_NS hp) domain =
     (case hd_GetZoneRecords hp domain of
        Inl err \<Rightarrow> Inl err
      | Inr rs \<Rightarrow> Inr (filter (\<lambda>r. \<not> apex_NS r) rs))"
proof (cases "getRecords hp domain")
  case (Inl e)
  then show ?thesis by (simp add: hd_GetZoneRecords_def hd_hide_apex_NS_def)
next
  case (Inr src)
  have "map (\<lambda>r. nativeToRecord hp r domain)
          (filter (\<lambda>r. nativeType hp r \<noteq> ''SOA'') (filter (\<lambda>n. \<not> apex_NS (nativeToRecord hp n domain)) src))
      = filter (\<lambda>r. \<not> apex_NS r) (map (\<lambda>r. nativeToRecord hp r domain) (filter (\<lambda>r. nativeType hp r \<noteq> ''SOA'') src))"
    by (induction src) auto
  with Inr show ?thesis by (simp add: hd_GetZoneRecords_def hd_hide_apex_NS_def)
qed

lemma hd_hide_same:
  assumes ns: "\<not> manages_NS z" and d: "IncrementalDiff (hd_models hp) = Diff_zone z"
  shows "hd_GetDomainCorrections (hd_hide_apex_NS hp) dc0 = hd_GetDomainCorrections hp dc0"
proof -
  have m: "hd_models (hd_hide_apex_NS hp) = hd_models hp" by (simp add: hd_hide_apex_NS_def)
  have h: "Diff_zone z extra dc (filter (\<lambda>r. \<not> apex_NS r) rs) = Diff_zone z extra dc rs" for extra dc rs
    using ns by (rule Diff_zone_hide) simp
  show ?thesis
    by (simp add: hd_GetDomainCorrections_def m d hd_hide_GetZoneRecords h Let_def
        split: prod.splits option.splits sum.splits)
qed

lemma cf_hide_fields:
  "cf_models (cf_hide_apex_NS api) = cf_models api"
  "fetchDomainList (cf_hide_apex_NS api) = fetchDomainList api"
  "getPageRules (cf_hide_apex_NS api) = getPageRules api"
  "getWorkerRoutes (cf_hide_apex_NS api) = getWorkerRoutes api"
  "getUniversalSSL (cf_hide_apex_NS api) = getUniversalSSL api"
  "deleteRec (cf_hide_apex_NS api) = deleteRec api"
  "createRec (cf_hide_apex_NS api) = createRec api"
  "TrimDomainName (cf_hide_apex_NS api) = TrimDomainName api"
  "ToLower (cf_hide_apex_NS api) = ToLower api"
  "ParseIP (cf_hide_apex_NS api) = ParseIP api"
  "transform_IP (cf_hide_apex_NS api) = transform_IP api"
  "IP_String (cf_hide_apex_NS api) = IP_String api"
  by (simp_all add: cf_hide_apex_NS_def)

lemma cf_hide_getDomainID: "getDomainID (cf_hide_apex_NS api) = getDomainID api"
  by (intro ext) (simp add: getDomainID_def cf_hide_fields Let_def
      cong: sum.case_cong option.case_cong prod.case_cong if_cong)

lemma cf_hide_checkProxyVal: "checkProxyVal (cf_hide_apex_NS api) = checkProxyVal api"
  by (intro ext) (simp add: checkProxyVal_def cf_hide_fields)

lemma cf_hide_preprocess_proxy: "preprocess_proxy (cf_hide_apex_NS api) = preprocess_proxy api"
  by (intro ext) (simp add: preprocess_proxy_def cf_hide_checkProxyVal Let_def
      cong: sum.case_cong option.case_cong prod.case_cong if_cong)

lemma cf_hide_preprocess_record: "preprocess_record (cf_hide_apex_NS api) = preprocess_record api"
  by (intro ext) (simp add: preprocess_record_def cf_hide_preprocess_proxy)

lemma cf_hide_preprocess_loop:
  "preprocess_loop (cf_hide_apex_NS api) c' defProxy rs = preprocess_loop api c' defProxy rs"
  by (induction rs) (simp_all add: cf_hide_preprocess_record Let_def
      cong: sum.case_cong option.case_cong prod.case_cong if_cong)

lemma cf_hide_convert_ip: "convert_ip (cf_hide_apex_NS api) = convert_ip api"
  by (intro ext) (simp add: convert_ip_def cf_hide_fields Let_def
      cong: sum.case_cong option.case_cong prod.case_cong if_cong)

lemma cf_hide_preprocessConfig: "preprocessConfig (cf_hide_apex_NS api) = preprocessConfig api"
  by (intro ext)
    (simp add: preprocessConfig_def cf_hide_checkProxyVal cf_hide_fields cf_hide_preprocess_loop
      cf_hide_convert_ip Let_def
      cong: sum.case_cong option.case_cong prod.case_cong if_cong)

lemma cf_hide_ignored_record: "ignored_record (cf_hide_apex_NS api) c' = ignored_record api c'"
  by (intro ext) (simp add: ignored_record_def cf_hide_fields cong: option.case_cong cf_original.case_cong)

lemma cf_hide_delete_loop:
  "delete_loop (cf_hide_apex_NS api) zid del acc = delete_loop api zid del acc"
  by (induction del arbitrary: acc)
    (simp_all add: cf_hide_fields cong: option.case_cong cf_original.case_cong if_cong)

lemma cf_hide_create_loop:
  "create_loop (cf_hide_apex_NS api) zid create acc = create_loop api zid create acc"
  by (induction create arbitrary: acc)
    (simp_all add: cf_hide_fields cong: option.case_cong cf_original.case_cong if_cong)

lemma cf_hide_modify_loop:
  "modify_loop (cf_hide_apex_NS api) zid modify acc = modify_loop api zid modify acc"
  by (induction modify arbitrary: acc)
    (simp_all add: cf_hide_fields cong: option.case_cong cf_original.case_cong if_cong)

lemma cf_hide_checkUniversalSSL: "checkUniversalSSL (cf_hide_apex_NS api) = checkUniversalSSL api"
  by (intro ext) (simp add: checkUniversalSSL_def cf_hide_fields Let_def
      cong: sum.case_cong option.case_cong prod.case_cong if_cong)

lemma cf_hide_cf_sequence:
  "cf_sequence (cf_hide_apex_NS api) zid dc create del modify = cf_sequence api zid dc create del modify"
  by (simp add: cf_sequence_def cf_hide_checkUniversalSSL cf_hide_delete_loop
      cf_hide_create_loop cf_hide_modify_loop Let_def
      cong: sum.case_cong option.case_cong prod.case_cong if_cong)


lemma cf_hide_ignored: "ignored_record (cf_hide_apex_NS api) c zone r = ignored_record api c zone r"
  by (simp add: cf_hide_ignored_record)

lemma cf_hide_drop:
  "drop_ignored (cf_hide_apex_NS api) c zone
       (length (filter (\<lambda>r. \<not> cf_apex_NS r) fetched))
       (filter (\<lambda>r. \<not> cf_apex_NS r) fetched)
     = (case drop_ignored api c zone (length fetched) fetched of
          Inl err \<Rightarrow> Inl err
        | Inr rs \<Rightarrow> Inr (filter (\<lambda>r. \<not> cf_apex_NS r) rs))"
proof -
  have "(\<forall>r \<in> set (filter (\<lambda>r. \<not> cf_apex_NS r) fetched). is_DNSRecord r)
        \<longleftrightarrow> (\<forall>r \<in> set fetched. is_DNSRecord r)"
    by (auto simp: cf_apex_NS_def)
  moreover have "filter (\<lambda>r. \<not> ignored_record api c zone r) (filter (\<lambda>r. \<not> cf_apex_NS r) fetched)
      = filter (\<lambda>r. \<not> cf_apex_NS r) (filter (\<lambda>r. \<not> ignored_record api c zone r) fetched)"
    by (induction fetched) auto
  ultimately show ?thesis
    by (simp only: drop_ignored_all cf_hide_ignored_record) simp
qed

lemma cf_hide_same:
  assumes ns: "\<not> manages_NS z" and d: "IncrementalDiff (cf_models api) = Diff_zone z"
    and pp: "\<And>rs. PostProcessRecords (cf_models api) (filter (\<lambda>r. \<not> apex_NS r) rs)
                  = filter (\<lambda>r. \<not> apex_NS r) (PostProcessRecords (cf_models api) rs)"
  shows "cf_GetDomainCorrections (cf_hide_apex_NS api) c dc0 = cf_GetDomainCorrections api c dc0"
proof -
  let ?Q = "\<lambda>r. \<not> cf_apex_NS r"
  let ?PP = "PostProcessRecords (cf_models api)"
  have c1: "compared z (?PP (filter ?Q xs @ ys)) = compared z (?PP (xs @ ys))" for xs ys
  proof -
    have "filter (\<lambda>r. \<not> apex_NS r) (filter ?Q xs @ ys) = filter (\<lambda>r. \<not> apex_NS r) (xs @ ys)"
      by (induction xs) (auto simp: cf_apex_NS_def)
    then have "filter (\<lambda>r. \<not> apex_NS r) (?PP (filter ?Q xs @ ys)) = filter (\<lambda>r. \<not> apex_NS r) (?PP (xs @ ys))"
      by (simp only: pp [symmetric])
    with ns show ?thesis by (simp add: compared_def)
  qed
  have D2: "Diff_zone z extra dc (?PP (filter ?Q xs @ ys)) = Diff_zone z extra dc (?PP (xs @ ys))" for extra dc xs ys
    by (rule Diff_zone_compared_cong) (rule c1)
  have D1: "Diff_zone z extra dc (?PP (filter ?Q xs)) = Diff_zone z extra dc (?PP xs)" for extra dc xs
    using D2 [of extra dc xs "[]"] by simp
  obtain dc1 perr where p: "Punycode (cf_models api) dc0 = (dc1, perr)"
    by (cases "Punycode (cf_models api) dc0")
  show ?thesis
  proof (cases perr)
    case (Some e)
    with p show ?thesis by (simp add: cf_GetDomainCorrections_def cf_prepare_def cf_hide_fields)
  next
    case None
    show ?thesis
    proof (cases "getDomainID api c (Name dc1)")
      case (Inl e)
      with p None show ?thesis
        by (simp add: cf_GetDomainCorrections_def cf_prepare_def cf_hide_fields cf_hide_getDomainID)
    next
      case (Inr zid)
      show ?thesis
      proof (cases "getRecordsForDomain api zid (Name dc1)")
        case (Inl e)
        then have "getRecordsForDomain (cf_hide_apex_NS api) zid (Name dc1) = Inl e"
          by (simp add: cf_hide_apex_NS_def)
        with p None Inr Inl show ?thesis
          by (simp add: cf_GetDomainCorrections_def cf_prepare_def cf_hide_fields cf_hide_getDomainID)
      next
        case fetched: (Inr fetched)
        then have h: "getRecordsForDomain (cf_hide_apex_NS api) zid (Name dc1) = Inr (filter ?Q fetched)"
          by (simp add: cf_hide_apex_NS_def)
        show ?thesis
        proof (cases "preprocessConfig api c dc1")
          case (Inl e)
          with p None Inr fetched h show ?thesis
            by (simp add: cf_GetDomainCorrections_def cf_prepare_def cf_hide_fields cf_hide_getDomainID
                cf_hide_preprocessConfig)
        next
          case dc2: (Inr dc2)
          show ?thesis
          proof (cases "drop_ignored api c (Name dc2) (length fetched) fetched")
            case (Inl e)
            with p None Inr fetched h dc2 show ?thesis
              by (simp add: cf_GetDomainCorrections_def cf_prepare_def cf_hide_fields cf_hide_getDomainID
                  cf_hide_preprocessConfig cf_hide_drop)
          next
            case records1: (Inr records1)
            with p None Inr fetched h dc2 show ?thesis
              by (auto simp add: cf_GetDomainCorrections_def cf_prepare_def cf_hide_fields cf_hide_getDomainID
                  cf_hide_preprocessConfig cf_hide_drop cf_hide_cf_sequence d D1 D2
                  split: sum.splits)
          qed
        qed
      qed
    qed
  qed
qed

lemma Diff_zone_managed_NS:
  assumes m: "manages_NS z" and k: "\<not> KeepUnknown dc"
      and r: "Diff_zone z extra dc existing = Inr (unchanged, create, del, modify)"
      and e: "e \<in> set existing" "apex_NS e" "identity_key e \<notin> identity_key ` set (Records dc)" "\<not> ignored_name z e"
  shows "\<lparr>Existing = Some e, Desired = None\<rparr> \<in> set del"
proof -
  from e(2) have "\<not> ignored_target z e" by (simp add: ignored_target_def apex_NS_def)
  with Diff_zone_deletes [OF r] k m e show ?thesis
    by (simp add: compared_def set_stabilize)
qed

text \<open>
  C8. For a zone without nameserver-management directive, apex NS records are not
  compared and none is deleted: no entry of the Differ's changesets holds an apex NS
  record, and the corrections of hosting.de and of Cloudflare are the ones they
  return when the provider holds no apex NS record at all, whatever the desired state.
  With the directive they are compared: an existing apex NS record that the desired
  state lacks is deleted (purge flag on, label not ignored).
  Exoscale's corrections are those of a provider without any NS record, for every
  differ. On the desired side, Exoscale drops every NS record (\<^verbatim>\<open>removeOtherNS\<close>)
  and Cloudflare the apex NS records (\<^verbatim>\<open>checkNSModifications\<close>).
\<close>

theorem apex_NS_never_deleted:
  "(\<not> manages_NS z \<longrightarrow> Diff_zone z extra dc existing = Inr (unchanged, create, del, modify) \<longrightarrow>
      (\<forall>c \<in> set (unchanged @ create @ del @ modify). \<forall>r. Existing c = Some r \<or> Desired c = Some r \<longrightarrow> \<not> apex_NS r))
   \<and> (manages_NS zm \<longrightarrow> \<not> KeepUnknown mdc \<longrightarrow>
        Diff_zone zm mextra mdc mexisting = Inr (munchanged, mcreate, mdel, mmodify) \<longrightarrow>
        (\<forall>e \<in> set mexisting. apex_NS e \<longrightarrow> identity_key e \<notin> identity_key ` set (Records mdc) \<longrightarrow>
             \<not> ignored_name zm e \<longrightarrow> \<lparr>Existing = Some e, Desired = None\<rparr> \<in> set mdel))
   \<and> (\<not> manages_NS zh \<longrightarrow> IncrementalDiff (hd_models hp) = Diff_zone zh \<longrightarrow>
        hd_GetDomainCorrections (hd_hide_apex_NS hp) hdc = hd_GetDomainCorrections hp hdc)
   \<and> (\<not> manages_NS zc \<longrightarrow> IncrementalDiff (cf_models capi) = Diff_zone zc \<longrightarrow>
        (\<forall>rs. PostProcessRecords (cf_models capi) (filter (\<lambda>r. \<not> apex_NS r) rs)
                = filter (\<lambda>r. \<not> apex_NS r) (PostProcessRecords (cf_models capi) rs)) \<longrightarrow>
        cf_GetDomainCorrections (cf_hide_apex_NS capi) cc cdc = cf_GetDomainCorrections capi cc cdc)
   \<and> exo_GetDomainCorrections (exo_hide_NS xapi) xc xdc = exo_GetDomainCorrections xapi xc xdc
   \<and> (\<forall>r \<in> set (Records (removeOtherNS rdc)). Type r \<noteq> ''NS'')
   \<and> (\<forall>zid dc' records. cf_prepare capi cc cdc = Inr (zid, dc', records) \<longrightarrow>
         (\<forall>r \<in> set (Records dc'). \<not> (Type r = ''NS'' \<and> LabelFQDN r = Name dc')))"
proof (intro conjI allI impI ballI)
  fix c r
  assume "\<not> manages_NS z" and "Diff_zone z extra dc existing = Inr (unchanged, create, del, modify)"
    and "c \<in> set (unchanged @ create @ del @ modify)" and "Existing c = Some r \<or> Desired c = Some r"
  then show "\<not> apex_NS r" by (rule Diff_zone_no_apex_NS)
next
  fix e
  assume "manages_NS zm" and "\<not> KeepUnknown mdc"
    and "Diff_zone zm mextra mdc mexisting = Inr (munchanged, mcreate, mdel, mmodify)"
    and "e \<in> set mexisting" and "apex_NS e" and "identity_key e \<notin> identity_key ` set (Records mdc)"
    and "\<not> ignored_name zm e"
  then show "\<lparr>Existing = Some e, Desired = None\<rparr> \<in> set mdel" by (rule Diff_zone_managed_NS)
next
  assume "\<not> manages_NS zh" and "IncrementalDiff (hd_models hp) = Diff_zone zh"
  then show "hd_GetDomainCorrections (hd_hide_apex_NS hp) hdc = hd_GetDomainCorrections hp hdc"
    by (rule hd_hide_same)
next
  assume "\<not> manages_NS zc" and "IncrementalDiff (cf_models capi) = Diff_zone zc"
    and "\<forall>rs. PostProcessRecords (cf_models capi) (filter (\<lambda>r. \<not> apex_NS r) rs)
                = filter (\<lambda>r. \<not> apex_NS r) (PostProcessRecords (cf_models capi) rs)"
  then show "cf_GetDomainCorrections (cf_hide_apex_NS capi) cc cdc = cf_GetDomainCorrections capi cc cdc"
    by (intro cf_hide_same) auto
next
  show "exo_GetDomainCorrections (exo_hide_NS xapi) xc xdc = exo_GetDomainCorrections xapi xc xdc"
    by (rule exo_hide_NS_same)
next
  fix r assume "r \<in> set (Records (removeOtherNS rdc))"
  then show "Type r \<noteq> ''NS''"
    by (auto simp: removeOtherNS_def dest: removeOtherNS_loop_no_NS)
next
  fix zid dc' records r
  assume p: "cf_prepare capi cc cdc = Inr (zid, dc', records)" and r: "r \<in> set (Records dc')"
  from cf_prepare_Inr [OF p] obtain dc2 rs where "dc' = checkNSModifications (dc2\<lparr>Records := rs\<rparr>)"
    by blast
  with r checkNSModifications_no_apex_NS [of r "dc2\<lparr>Records := rs\<rparr>"]
  show "\<not> (Type r = ''NS'' \<and> LabelFQDN r = Name dc')"
    by simp
qed

theorem apex_NS_never_deleted_witness:
  "Diff_zone no_rules [] (example_dc [] False) hd_ns_zone
     = Inr ([], [], [\<lparr>Existing = Some (rr ''A'' ''old'' ''1.2.3.4'' 300), Desired = None\<rparr>], [])
   \<and> Diff_zone (no_rules\<lparr>manages_NS := True\<rparr>) [] (example_dc [] False) hd_ns_zone
     = Inr ([], [], [\<lparr>Existing = Some (rr ''NS'' ''@'' ''ns1.hosting.de.'' 300), Desired = None\<rparr>,
                     \<lparr>Existing = Some (rr ''A'' ''old'' ''1.2.3.4'' 300), Desired = None\<rparr>], [])
   \<and> hd_GetDomainCorrections ((example_hd hd_ns_zone [] None)\<lparr>hd_models := with_Diff no_rules example_models\<rparr>)
        (example_dc [] False)
     = Inr [\<lparr>Msg = newline @ ''DELETE A old 1.2.3.4'',
             F = UpdateRecords ''example.com'' []
                   [\<lparr>Existing = Some (rr ''A'' ''old'' ''1.2.3.4'' 300), Desired = None\<rparr>] []\<rparr>]
   \<and> hd_GetDomainCorrections
        (hd_hide_apex_NS ((example_hd hd_ns_zone [] None)\<lparr>hd_models := with_Diff no_rules example_models\<rparr>))
        (example_dc [] False)
     = Inr [\<lparr>Msg = newline @ ''DELETE A old 1.2.3.4'',
             F = UpdateRecords ''example.com'' []
                   [\<lparr>Existing = Some (rr ''A'' ''old'' ''1.2.3.4'' 300), Desired = None\<rparr>] []\<rparr>]
   \<and> cf_GetDomainCorrections ((example_cf_api cf_ns_zone)\<lparr>cf_models := with_Diff no_rules example_models\<rparr>)
        (example_cf []) (example_dc [rr ''NS'' ''@'' ''ns1.example.net.'' 300] False)
     = Inr [\<lparr>Msg = ''DELETE record: www.example.com'', F = DeleteDNSRecord ''zone1'' ''r2''\<rparr>]
   \<and> cf_GetDomainCorrections
        (cf_hide_apex_NS ((example_cf_api cf_ns_zone)\<lparr>cf_models := with_Diff no_rules example_models\<rparr>))
        (example_cf []) (example_dc [rr ''NS'' ''@'' ''ns1.example.net.'' 300] False)
     = Inr [\<lparr>Msg = ''DELETE record: www.example.com'', F = DeleteDNSRecord ''zone1'' ''r2''\<rparr>]
   \<and> exo_GetDomainCorrections (example_exo_api ns_zone) example_exo (example_dc [] False)
     = Inr [\<lparr>Msg = ''DELETE A old 1.2.3.4'', F = deleteRecordFunc ''a1'' ''d1''\<rparr>]
   \<and> exo_GetDomainCorrections (exo_hide_NS (example_exo_api ns_zone)) example_exo (example_dc [] False)
     = Inr [\<lparr>Msg = ''DELETE A old 1.2.3.4'', F = deleteRecordFunc ''a1'' ''d1''\<rparr>]
   \<and> map Label (Records (removeOtherNS (example_dc ns_desired False :: unit DomainConfig))) = [''www'']"
proof -
  let ?hp = "(example_hd hd_ns_zone [] None)\<lparr>hd_models := with_Diff no_rules example_models\<rparr>"
  let ?capi = "(example_cf_api cf_ns_zone)\<lparr>cf_models := with_Diff no_rules example_models\<rparr>"
  let ?cdc = "example_dc [rr ''NS'' ''@'' ''ns1.example.net.'' 300] False :: cf_original DomainConfig"
  let ?dc = "example_dc [] False :: unit DomainConfig"
  let ?old = "rr ''A'' ''old'' ''1.2.3.4'' 300 :: unit RecordConfig"
  note t = apex_NS_never_deleted
    [where z = "no_rules :: unit zone_rules" and extra = "[]" and dc = ?dc and existing = hd_ns_zone
       and unchanged = "[]" and create = "[]" and del = "[\<lparr>Existing = Some ?old, Desired = None\<rparr>]" and modify = "[]"
       and zm = "no_rules\<lparr>manages_NS := True\<rparr> :: unit zone_rules" and mextra = "[]" and mdc = ?dc
       and mexisting = hd_ns_zone and munchanged = "[]" and mcreate = "[]" and mmodify = "[]"
       and mdel = "[\<lparr>Existing = Some (rr ''NS'' ''@'' ''ns1.hosting.de.'' 300), Desired = None\<rparr>,
                    \<lparr>Existing = Some ?old, Desired = None\<rparr>]"
       and zh = no_rules and hp = ?hp and hdc = ?dc
       and zc = no_rules and capi = ?capi and cc = "example_cf []" and cdc = ?cdc
       and xapi = "example_exo_api ns_zone" and xc = example_exo and xdc = "example_dc [] False"
       and rdc = "example_dc ns_desired False :: unit DomainConfig"]
  have n: "\<not> manages_NS (no_rules :: 'a zone_rules)" by (simp add: no_rules_def)
  have hm: "IncrementalDiff (hd_models ?hp) = Diff_zone no_rules" by (simp add: with_Diff_def)
  have cm: "IncrementalDiff (cf_models ?capi) = Diff_zone no_rules" by (simp add: with_Diff_def)
  have pp: "\<forall>rs. PostProcessRecords (cf_models ?capi) (filter (\<lambda>r. \<not> apex_NS r) rs)
                = filter (\<lambda>r. \<not> apex_NS r) (PostProcessRecords (cf_models ?capi) rs)"
    by (simp add: with_Diff_def example_models_def)
  have d: "Diff_zone no_rules [] ?dc hd_ns_zone = Inr ([], [], [\<lparr>Existing = Some ?old, Desired = None\<rparr>], [])"
    by (simp add: diff_eval_defs no_rules_def rr_def example_dc_def hd_ns_zone_def)
  have dm: "Diff_zone (no_rules\<lparr>manages_NS := True\<rparr>) [] ?dc hd_ns_zone
     = Inr ([], [], [\<lparr>Existing = Some (rr ''NS'' ''@'' ''ns1.hosting.de.'' 300), Desired = None\<rparr>,
                     \<lparr>Existing = Some ?old, Desired = None\<rparr>], [])"
    by (simp add: diff_eval_defs no_rules_def rr_def example_dc_def hd_ns_zone_def)
  have h: "hd_GetDomainCorrections ?hp ?dc
     = Inr [\<lparr>Msg = newline @ ''DELETE A old 1.2.3.4'',
             F = UpdateRecords ''example.com'' [] [\<lparr>Existing = Some ?old, Desired = None\<rparr>] []\<rparr>]"
    by (simp add: hd_GetDomainCorrections_def hd_GetZoneRecords_def with_Diff_def example_hd_def
        example_models_def spec_String_def example_dc_def rr_def clampTTLs_def clampTTL_def hd_ns_zone_def
        diff_eval_defs no_rules_def)
  have cf: "cf_GetDomainCorrections ?capi (example_cf []) ?cdc
     = Inr [\<lparr>Msg = ''DELETE record: www.example.com'', F = DeleteDNSRecord ''zone1'' ''r2''\<rparr>]"
    by (simp add: cf_eval_defs cf_ns_zone_def with_Diff_def diff_eval_defs no_rules_def
        preprocess_record_def preprocess_ttl_def preprocess_proxy_def preprocess_redirect_def
        preprocess_worker_def convert_ip_def force_desired_def meta_set_def)
  have e: "exo_GetDomainCorrections (example_exo_api ns_zone) example_exo (example_dc [] False)
     = Inr [\<lparr>Msg = ''DELETE A old 1.2.3.4'', F = deleteRecordFunc ''a1'' ''d1''\<rparr>]"
    by (simp add: exo_GetDomainCorrections_def findDomainByName_def exo_existing_record_def exo_convert_def
        removeOtherNS_def exo_create_loop_def example_exo_api_def example_exo_def example_models_def example_dc_def
        exo_native_def ns_zone_def zero_RecordConfig_def spec_Diff_def spec_String_def identity_key_def
        HasPrefix_def Let_def)
  have l: "map Label (Records (removeOtherNS (example_dc ns_desired False :: unit DomainConfig))) = [''www'']"
    by (simp add: removeOtherNS_def example_dc_def ns_desired_def rr_def defaultNSSUffix_def HasSuffix_def)
  from t n hm have h': "hd_GetDomainCorrections (hd_hide_apex_NS ?hp) ?dc = hd_GetDomainCorrections ?hp ?dc"
    by blast
  from t n cm pp have cf': "cf_GetDomainCorrections (cf_hide_apex_NS ?capi) (example_cf []) ?cdc
      = cf_GetDomainCorrections ?capi (example_cf []) ?cdc"
    by blast
  from t have e': "exo_GetDomainCorrections (exo_hide_NS (example_exo_api ns_zone)) example_exo (example_dc [] False)
      = exo_GetDomainCorrections (example_exo_api ns_zone) example_exo (example_dc [] False)"
    by blast
  from d dm h h' cf cf' e e' l show ?thesis by simp
qed

end
